theory Spec2Isabelle
  imports Complex_Main "HOL-Library.AList"
begin

section \<open>JavaScript values, strings and exceptions\<close>

text \<open>
  The repository is TypeScript on Node. Values that cross the boundaries of the
  program (tool arguments, tool results, remote tool schemas) are JSON data. An object
  is its list of own properties in enumeration order. A number is the rational that
  its literal denotes. \<open>undefined\<close> is not a JSON value: where the code can meet it,
  the model uses \<open>json option\<close> with \<open>None\<close> for \<open>undefined\<close>.
\<close>

datatype json =
    JNull
  | JBool bool
  | JNum rat
  | JStr string
  | JArr "json list"
  | JObj "(string \<times> json) list"

text \<open>
  Strings are byte lists. Text of the source that is not printable ASCII is written
  through \<open>utf8\<close>, which reads the hexadecimal digits of its UTF-8 encoding, two
  digits per byte.
\<close>

definition hex_val :: "char \<Rightarrow> nat" where
  "hex_val c = length (takeWhile (\<lambda>d. d \<noteq> c) ''0123456789ABCDEF'')"

fun utf8 :: "string \<Rightarrow> string" where
  "utf8 (h # l # rest) = char_of (16 * hex_val h + hex_val l) # utf8 rest"
| "utf8 _ = []"

text \<open>Decimal rendering of a natural number, as a template literal prints an index.\<close>

fun digits_rev :: "nat \<Rightarrow> nat \<Rightarrow> string" where
  "digits_rev 0 n = []"
| "digits_rev (Suc fuel) n =
     (if n < 10 then [char_of (48 + n)]
      else char_of (48 + n mod 10) # digits_rev fuel (n div 10))"

definition show_nat :: "nat \<Rightarrow> string" where
  "show_nat n = rev (digits_rev (Suc n) n)"

text \<open>\<open>Array.prototype.join\<close> on strings.\<close>

fun join :: "string \<Rightarrow> string list \<Rightarrow> string" where
  "join sep [] = []"
| "join sep [x] = x"
| "join sep (x # y # ys) = x @ sep @ join sep (y # ys)"

text \<open>
  JavaScript truthiness of a JSON value: \<open>null\<close>, \<open>false\<close>, \<open>0\<close> and the empty
  string are falsy, every array and object is truthy. On an optional value
  \<open>undefined\<close> is falsy.
\<close>

fun truthy :: "json \<Rightarrow> bool" where
  "truthy JNull = False"
| "truthy (JBool b) = b"
| "truthy (JNum n) = (n \<noteq> 0)"
| "truthy (JStr s) = (s \<noteq> [])"
| "truthy (JArr xs) = True"
| "truthy (JObj kv) = True"

fun truthy_opt :: "json option \<Rightarrow> bool" where
  "truthy_opt None = False"
| "truthy_opt (Some v) = truthy v"

text \<open>
  A thrown value is either an \<open>Error\<close> instance, with its message, or any other value,
  kept as the string \<open>String(value)\<close> gives. Every handler of the repository reads a
  caught value through \<open>error instanceof Error ? error.message : String(error)\<close>.
\<close>

datatype js_exn = JsError string | JsThrown string

fun exn_message :: "js_exn \<Rightarrow> string" where
  "exn_message (JsError m) = m"
| "exn_message (JsThrown s) = s"

section \<open>The Model Provider boundary\<close>

text \<open>
  \<open>generateText\<close> of the AI SDK is the Model Provider. The repository hands it a
  request and reads the fields below from what comes back. Arrays that the code reads
  through \<open>?.\<close> or guards with \<open>&&\<close> are optional here, \<open>None\<close> being \<open>undefined\<close>.
\<close>

record tool_call =
  toolCallId :: string
  toolName :: string
  args :: json

record tool_result =
  tr_toolCallId :: string
  tr_toolName :: string
  tr_result :: "json option"

record step =
  stepType :: string
  step_text :: string
  step_toolCalls :: "tool_call list option"
  step_toolResults :: "tool_result list option"

record gen_result =
  r_text :: string
  toolCalls :: "tool_call list option"
  toolResults :: "tool_result list option"
  steps :: "step list option"
  finishReason :: string

record message =
  role :: string
  content :: json

text \<open>
  The tool registry of a request maps a name to a tool. The three tools of
  \<open>createOrchestratorTools\<close> are named by constructors; every other tool (MCP,
  skills, agent tools) is a value of the caller's tool type \<open>'t\<close>.
\<close>

datatype 't tool_slot =
    DelegateToAgent
  | AggregateResults
  | GetAvailableAgents
  | Supplied 't

record 't gen_request =
  model :: string
  system :: "string option"
  messages :: "message list"
  tools :: "string \<rightharpoonup> 't tool_slot"
  maxSteps :: nat

text \<open>
  What one call of \<open>generateText\<close> does, seen from the caller: the steps it hands to
  \<open>onStepFinish\<close>, in order, and then either the result it resolves to or the
  exception it rejects with (a provider failure, or a tool's exception that the SDK
  rethrows). The provider is any function of the request and of a provider state
  \<open>'p\<close>, so that two calls with the same request may behave differently.
\<close>

record gen_behaviour =
  delivered :: "step list"
  outcome :: "js_exn + gen_result"

record ('t, 'p) env =
  getLLM :: "js_exn + string"
  generateText :: "'t gen_request \<Rightarrow> 'p \<Rightarrow> gen_behaviour \<times> 'p"

text \<open>The world records every request made to the provider, oldest first.\<close>

record ('t, 'p) world =
  calls :: "'t gen_request list"
  pstate :: "'p"

definition call_generateText ::
  "('t, 'p) env \<Rightarrow> 't gen_request \<Rightarrow> ('t, 'p) world \<Rightarrow> gen_behaviour \<times> ('t, 'p) world" where
  "call_generateText env req w =
     (case generateText env req (pstate w) of
        (b, p') \<Rightarrow> (b, w\<lparr>calls := calls w @ [req], pstate := p'\<rparr>))"

section \<open>The Agent Registry (\<open>agentConfigs\<close>)\<close>

record 't agent_config =
  c_name :: string
  c_displayName :: string
  c_description :: string
  c_systemPrompt :: string
  c_tools :: "(string \<rightharpoonup> 't) option"

definition code_analyzer_displayName :: string where
  "code_analyzer_displayName =
     utf8 ''E4BBA3E7A081E58886E69E90E5B888''"

definition code_analyzer_description :: string where
  "code_analyzer_description =
     utf8 ''E4B893E997A8E58886E69E90E4BBA3E7A081E8B4A8E9878FE38081E5A48DE69D82'' @
     utf8 ''E5BAA6E5928CE6BD9CE59CA8E997AEE9A298''"

definition code_analyzer_systemPrompt :: string where
  "code_analyzer_systemPrompt =
     utf8 ''E4BDA0E698AFE4B880E4B8AAE4B893E4B89AE79A84E4BBA3E7A081E58886E69E90'' @
     utf8 ''E5B888E38082E4BDA0E79A84E4BBBBE58AA1E698AFEFBC9A0A'' @ ''- '' @
     utf8 ''E58886E69E90E4BBA3E7A081E7BB93E69E84E5928CE8AEBEE8AEA1E6A8A1E5BC8F'' @
     utf8 ''0A'' @ ''- '' @ utf8 ''E8AF84E4BCB0E4BBA3E7A081E5A48DE69D82E5BAA60A'' @ ''- '' @
     utf8 ''E8AF86E588ABE4BBA3E7A081E5BC82E591B3'' @ '' (code smells)'' @ utf8 ''0A'' @
     ''- '' @ utf8 ''E6A380E6B58BE6BD9CE59CA8E79A84E5AE89E585A8E997AEE9A2980A'' @ ''- '' @
     utf8 ''E8AF84E4BCB0E58FAFE7BBB4E68AA4E680A70A0AE8AFB7E68F90E4BE9BE8AFA6E7'' @
     utf8 ''BB86E38081E585B7E4BD93E79A84E58886E69E90E7BB93E69E9CEFBC8CE58C85E6'' @
     utf8 ''8BACE997AEE9A298E68F8FE8BFB0E5928CE694B9E8BF9BE5BBBAE8AEAEE38082''"

definition refactorer_displayName :: string where
  "refactorer_displayName =
     utf8 ''E9878DE69E84E4B893E5AEB6''"

definition refactorer_description :: string where
  "refactorer_description =
     utf8 ''E4B893E997A8E68F90E4BE9BE4BBA3E7A081E9878DE69E84E5BBBAE8AEAEE5928C'' @
     utf8 ''E5AE9EE78EB0''"

definition refactorer_systemPrompt :: string where
  "refactorer_systemPrompt =
     utf8 ''E4BDA0E698AFE4B880E4B8AAE4B893E4B89AE79A84E4BBA3E7A081E9878DE69E84'' @
     utf8 ''E4B893E5AEB6E38082E4BDA0E79A84E4BBBBE58AA1E698AFEFBC9A0A'' @ ''- '' @
     utf8 ''E8AF86E588ABE99C80E8A681E9878DE69E84E79A84E4BBA3E7A0810A'' @ ''- '' @
     utf8 ''E68F90E4BE9BE585B7E4BD93E79A84E9878DE69E84E696B9E6A1880A'' @ ''- '' @
     utf8 ''E5BA94E794A8E8AEBEE8AEA1E6A8A1E5BC8FE694B9E8BF9BE4BBA3E7A0810A'' @ ''- '' @
     utf8 ''E7AE80E58C96E5A48DE69D82E980BBE8BE910A'' @ ''- '' @
     utf8 ''E68F90E9AB98E4BBA3E7A081E58FAFE8AFBBE680A7E5928CE58FAFE7BBB4E68AA4'' @
     utf8 ''E680A70A0AE8AFB7E68F90E4BE9BE585B7E4BD93E79A84E9878DE69E84E5BBBAE8'' @
     utf8 ''AEAEEFBC8CE58C85E68BACE9878DE69E84E5898DE5908EE79A84E4BBA3E7A081E5'' @
     utf8 ''AFB9E6AF94E38082''"

definition test_generator_displayName :: string where
  "test_generator_displayName =
     utf8 ''E6B58BE8AF95E4B893E5AEB6''"

definition test_generator_description :: string where
  "test_generator_description =
     utf8 ''E4B893E997A8E7949FE68890E58D95E58583E6B58BE8AF95E5928CE99B86E68890'' @
     utf8 ''E6B58BE8AF95''"

definition test_generator_systemPrompt :: string where
  "test_generator_systemPrompt =
     utf8 ''E4BDA0E698AFE4B880E4B8AAE4B893E4B89AE79A84E6B58BE8AF95E5B7A5E7A88B'' @
     utf8 ''E5B888E38082E4BDA0E79A84E4BBBBE58AA1E698AFEFBC9A0A'' @ ''- '' @
     utf8 ''E4B8BAE4BBA3E7A081E7949FE68890E585A8E99DA2E79A84E58D95E58583E6B58B'' @
     utf8 ''E8AF950A'' @ ''- '' @
     utf8 ''E8AEBEE8AEA1E8BEB9E7958CE69DA1E4BBB6E6B58BE8AF950A'' @ ''- '' @
     utf8 ''E5889BE5BBBAE6A8A1E68B9F'' @ '' (mock) '' @ utf8 ''E5928CE5AD98E6A0B9'' @
     '' (stub)'' @ utf8 ''0A'' @ ''- '' @
     utf8 ''E68F90E4BE9BE6B58BE8AF95E8A686E79B96E78E87E5BBBAE8AEAE0A'' @ ''- '' @
     utf8 ''E8AEBEE8AEA1E99B86E68890E6B58BE8AF95E59CBAE699AF0A0AE8AFB7E7949FE6'' @
     utf8 ''8890E58FAFE79BB4E68EA5E8BF90E8A18CE79A84E6B58BE8AF95E4BBA3E7A081EF'' @
     utf8 ''BC8CE5B9B6E8AFB4E6988EE6B58BE8AF95E7AD96E795A5E38082''"

definition documentation_writer_displayName :: string where
  "documentation_writer_displayName =
     utf8 ''E69687E6A1A3E4B893E5AEB6''"

definition documentation_writer_description :: string where
  "documentation_writer_description =
     utf8 ''E4B893E997A8E7BC96E58699E4BBA3E7A081E69687E6A1A3E5928C'' @ '' API '' @
     utf8 ''E69687E6A1A3''"

definition documentation_writer_systemPrompt :: string where
  "documentation_writer_systemPrompt =
     utf8 ''E4BDA0E698AFE4B880E4B8AAE4B893E4B89AE79A84E68A80E69CAFE69687E6A1A3'' @
     utf8 ''E7BC96E58699E4B893E5AEB6E38082E4BDA0E79A84E4BBBBE58AA1E698AFEFBC9A'' @
     utf8 ''0A'' @ ''- '' @
     utf8 ''E4B8BAE587BDE695B0E5928CE7B1BBE7BC96E58699E6B885E699B0E79A84E69687'' @
     utf8 ''E6A1A3E6B3A8E9878A0A'' @ ''- '' @ utf8 ''E5889BE5BBBA'' @ '' API '' @
     utf8 ''E69687E6A1A30A'' @ ''- '' @ utf8 ''E7BC96E58699E4BDBFE794A8E7A4BAE4BE8B0A'' @
     ''- '' @ utf8 ''E7949FE68890'' @ '' README '' @ utf8 ''E69687E4BBB60A'' @ ''- '' @
     utf8 ''E5889BE5BBBAE69EB6E69E84E8AFB4E6988EE69687E6A1A30A0AE8AFB7E68F90E4'' @
     utf8 ''BE9BE6B885E699B0E38081E5AE8CE695B4E38081E69893E4BA8EE79086E8A7A3E7'' @
     utf8 ''9A84E69687E6A1A3E38082''"

definition performance_optimizer_displayName :: string where
  "performance_optimizer_displayName =
     utf8 ''E680A7E883BDE4BC98E58C96E5B888''"

definition performance_optimizer_description :: string where
  "performance_optimizer_description =
     utf8 ''E4B893E997A8E58886E69E90E5928CE4BC98E58C96E4BBA3E7A081E680A7E883BD''"

definition performance_optimizer_systemPrompt :: string where
  "performance_optimizer_systemPrompt =
     utf8 ''E4BDA0E698AFE4B880E4B8AAE4B893E4B89AE79A84E680A7E883BDE4BC98E58C96'' @
     utf8 ''E4B893E5AEB6E38082E4BDA0E79A84E4BBBBE58AA1E698AFEFBC9A0A'' @ ''- '' @
     utf8 ''E8AF86E588ABE680A7E883BDE793B6E9A2880A'' @ ''- '' @
     utf8 ''E58886E69E90E697B6E997B4E5928CE7A9BAE997B4E5A48DE69D82E5BAA60A'' @ ''- '' @
     utf8 ''E68F90E4BE9BE4BC98E58C96E5BBBAE8AEAE0A'' @ ''- '' @
     utf8 ''E5BBBAE8AEAEE7BC93E5AD98E7AD96E795A50A'' @ ''- '' @
     utf8 ''E4BC98E58C96E695B0E68DAEE7BB93E69E84E98089E68BA90A0AE8AFB7E68F90E4'' @
     utf8 ''BE9BE585B7E4BD93E79A84E4BC98E58C96E5BBBAE8AEAEE5928CE9A284E69C9FE7'' @
     utf8 ''9A84E680A7E883BDE68F90E58D87E38082''"

definition agentConfigs :: "(string \<times> 't agent_config) list" where
  "agentConfigs =
     [(''code-analyzer'',
         \<lparr>c_name = ''code-analyzer'', c_displayName = code_analyzer_displayName,
          c_description = code_analyzer_description,
          c_systemPrompt = code_analyzer_systemPrompt, c_tools = None\<rparr>),
      (''refactorer'',
         \<lparr>c_name = ''refactorer'', c_displayName = refactorer_displayName,
          c_description = refactorer_description,
          c_systemPrompt = refactorer_systemPrompt, c_tools = None\<rparr>),
      (''test-generator'',
         \<lparr>c_name = ''test-generator'', c_displayName = test_generator_displayName,
          c_description = test_generator_description,
          c_systemPrompt = test_generator_systemPrompt, c_tools = None\<rparr>),
      (''documentation-writer'',
         \<lparr>c_name = ''documentation-writer'',
          c_displayName = documentation_writer_displayName,
          c_description = documentation_writer_description,
          c_systemPrompt = documentation_writer_systemPrompt, c_tools = None\<rparr>),
      (''performance-optimizer'',
         \<lparr>c_name = ''performance-optimizer'',
          c_displayName = performance_optimizer_displayName,
          c_description = performance_optimizer_description,
          c_systemPrompt = performance_optimizer_systemPrompt, c_tools = None\<rparr>)]"

text \<open>
  \<open>agentConfigs\<close> is an object literal, and the code reads it with
  \<open>agentConfigs[agentName]\<close>. That is a property read: a name that is not an own key
  is looked up on \<open>Object.prototype\<close>, whose properties are listed below. Each of them
  holds a function or an object, so the value read is truthy; it has no
  \<open>systemPrompt\<close>, \<open>tools\<close> or \<open>displayName\<close> property.
\<close>

definition object_prototype_keys :: "string list" where
  "object_prototype_keys =
     [''constructor'', ''__defineGetter__'', ''__defineSetter__'', ''hasOwnProperty'',
      ''__lookupGetter__'', ''__lookupSetter__'', ''isPrototypeOf'',
      ''propertyIsEnumerable'', ''toString'', ''valueOf'', ''__proto__'',
      ''toLocaleString'']"

datatype 't config_value =
    Persona "'t agent_config"
  | Inherited
  | Undefined

definition agentConfigs_get :: "string \<Rightarrow> 't config_value" where
  "agentConfigs_get agentName =
     (case map_of agentConfigs agentName of
        Some config \<Rightarrow> Persona config
      | None \<Rightarrow> if agentName \<in> set object_prototype_keys then Inherited else Undefined)"

fun config_systemPrompt :: "'t config_value \<Rightarrow> string option" where
  "config_systemPrompt (Persona config) = Some (c_systemPrompt config)"
| "config_systemPrompt _ = None"

fun config_tools :: "'t config_value \<Rightarrow> (string \<rightharpoonup> 't) option" where
  "config_tools (Persona config) = c_tools config"
| "config_tools _ = None"

fun config_displayName :: "'t config_value \<Rightarrow> string option" where
  "config_displayName (Persona config) = Some (c_displayName config)"
| "config_displayName _ = None"

text \<open>Object spread: \<open>{...a, ...b}\<close>; spreading \<open>undefined\<close> adds nothing.\<close>

definition spread :: "('k \<rightharpoonup> 'v) option \<Rightarrow> ('k \<rightharpoonup> 'v)" where
  "spread m = (case m of None \<Rightarrow> Map.empty | Some f \<Rightarrow> f)"

section \<open>The Single-Agent Executor (\<open>AgentExecutor.executeAgent\<close>)\<close>

record tool_entry =
  te_name :: string
  te_args :: json
  te_result :: json

record agent_result =
  ar_agentName :: string
  ar_success :: bool
  ar_result :: string
  ar_toolCalls :: "tool_entry list option"
  ar_error :: "string option"

definition agent_not_found_msg :: string where
  "agent_not_found_msg =
     utf8 ''E69CAAE689BEE588B0'' @ '' Agent: ''"

definition task_label :: string where
  "task_label =
     utf8 ''E4BBBBE58AA1'' @ '': ''"

definition context_label :: string where
  "context_label =
     utf8 ''0A0AE4B88AE4B88BE69687'' @ '':'' @ utf8 ''0A''"

text \<open>The user message: \<open>context ? `...${task}...${context}` : task\<close>.\<close>

definition agent_prompt :: "string \<Rightarrow> string option \<Rightarrow> string" where
  "agent_prompt task context =
     (case context of
        None \<Rightarrow> task
      | Some c \<Rightarrow> if c \<noteq> [] then task_label @ task @ context_label @ c else task)"

definition agent_request ::
  "string \<Rightarrow> 't config_value \<Rightarrow> (string \<rightharpoonup> 't) \<Rightarrow> string \<Rightarrow> string option \<Rightarrow> 't gen_request" where
  "agent_request m config mcpTools task context =
     \<lparr>model = m,
      system = config_systemPrompt config,
      messages = [\<lparr>role = ''user'', content = JStr (agent_prompt task context)\<rparr>],
      tools = map_option Supplied \<circ> (spread (config_tools config) ++ mcpTools),
      maxSteps = 3\<rparr>"

text \<open>
  One entry of \<open>AgentResult.toolCalls\<close>, as the \<open>map\<close> callback builds it:
  \<open>{name: call.toolName, args: call.args, result: call.args}\<close>.
\<close>

definition tool_entry_of :: "tool_call \<Rightarrow> tool_entry" where
  "tool_entry_of call =
     \<lparr>te_name = toolName call, te_args = args call, te_result = args call\<rparr>"

text \<open>The body of the \<open>try\<close> block up to the awaited \<open>generateText\<close>.\<close>

definition executeAgent_try ::
  "('t, 'p) env \<Rightarrow> (string \<rightharpoonup> 't) \<Rightarrow> 't config_value \<Rightarrow> string \<Rightarrow> string option \<Rightarrow>
     ('t, 'p) world \<Rightarrow> (js_exn + gen_result) \<times> ('t, 'p) world" where
  "executeAgent_try env mcpTools config task context w =
     (case getLLM env of
        Inl e \<Rightarrow> (Inl e, w)
      | Inr m \<Rightarrow>
          (case call_generateText env (agent_request m config mcpTools task context) w of
             (b, w') \<Rightarrow> (outcome b, w')))"

definition executeAgent ::
  "('t, 'p) env \<Rightarrow> (string \<rightharpoonup> 't) \<Rightarrow> string \<Rightarrow> string \<Rightarrow> string option \<Rightarrow>
     ('t, 'p) world \<Rightarrow> (js_exn + agent_result) \<times> ('t, 'p) world" where
  "executeAgent env mcpTools agentName task context w =
     (case agentConfigs_get agentName of
        Undefined \<Rightarrow>
          (Inr \<lparr>ar_agentName = agentName, ar_success = False, ar_result = [],
                ar_toolCalls = None, ar_error = Some (agent_not_found_msg @ agentName)\<rparr>, w)
      | config \<Rightarrow>
          (case executeAgent_try env mcpTools config task context w of
             (Inr result, w') \<Rightarrow>
               (Inr \<lparr>ar_agentName = agentName, ar_success = True, ar_result = r_text result,
                     ar_toolCalls = map_option (map tool_entry_of) (toolCalls result),
                     ar_error = None\<rparr>, w')
           | (Inl error, w') \<Rightarrow>
               (Inr \<lparr>ar_agentName = agentName, ar_success = False, ar_result = [],
                     ar_toolCalls = None, ar_error = Some (exn_message error)\<rparr>, w')))"

section \<open>The Orchestrator (\<open>AgentExecutor.orchestrate\<close>)\<close>

definition orchestrator_prompt_head :: string where
  "orchestrator_prompt_head =
     utf8 ''E4BDA0E698AFE4B880E4B8AAE4BBBBE58AA1E58D8FE8B083E88085'' @ '' (Orchestrator)'' @
     utf8 ''E38082E4BDA0E79A84E8818CE8B4A3E698AFEFBC9A0A'' @ ''1. '' @
     utf8 ''E58886E69E90E794A8E688B7E79A84E8AFB7E6B1820A'' @ ''2. '' @
     utf8 ''E586B3E5AE9AE99C80E8A681E593AAE4BA9BE4B893E4B89A'' @ '' Agent '' @
     utf8 ''E58F82E4B88E0A'' @ ''3. '' @
     utf8 ''E5B086E4BBBBE58AA1E58886E8A7A3E5B9B6E58886E9858DE7BB99E59088E98082'' @
     utf8 ''E79A84'' @ '' Agent'' @ utf8 ''0A'' @ ''4. '' @ utf8 ''E6B187E680BBE59084'' @
     '' Agent '' @ utf8 ''E79A84E7BB93E69E9C0A0AE58FAFE794A8E79A84E4B893E4B89A'' @
     '' Agent'' @ utf8 ''EFBC9A0A''"

definition orchestrator_prompt_tail :: string where
  "orchestrator_prompt_tail =
     utf8 ''0A0AE8AFB7E4BDBFE794A8'' @ '' delegateToAgent '' @
     utf8 ''E5B7A5E585B7E58886E9858DE4BBBBE58AA1EFBC8CE784B6E5908EE4BDBFE794A8'' @
     '' aggregateResults '' @ utf8 ''E6B187E680BBE7BB93E69E9CE38082''"

definition summary_heading :: string where
  "summary_heading =
     ''## '' @ utf8 ''E58D8FE4BD9CE7BB93E69E9C0A0A''"

definition error_label :: string where
  "error_label =
     utf8 ''E99499E8AFAF'' @ '': ''"

definition orchestratorTools :: "string \<rightharpoonup> 't tool_slot" where
  "orchestratorTools =
     [''delegateToAgent'' \<mapsto> DelegateToAgent,
      ''aggregateResults'' \<mapsto> AggregateResults,
      ''getAvailableAgents'' \<mapsto> GetAvailableAgents]"

text \<open>One line of the planning prompt per persona, in the order of \<open>Object.values\<close>.\<close>

definition agent_line :: "'t agent_config \<Rightarrow> string" where
  "agent_line a =
     ''- '' @ c_displayName a @ '' ('' @ c_name a @ ''): '' @ c_description a"

definition orchestrator_system :: string where
  "orchestrator_system =
     orchestrator_prompt_head
       @ join (utf8 ''0A'') (map (\<lambda>(k, a). agent_line (a :: unit agent_config)) agentConfigs)
       @ orchestrator_prompt_tail"

definition plan_request ::
  "string \<Rightarrow> string \<Rightarrow> (string \<rightharpoonup> 't) \<Rightarrow> 't gen_request" where
  "plan_request m userRequest mcpTools =
     \<lparr>model = m,
      system = Some orchestrator_system,
      messages = [\<lparr>role = ''user'', content = JStr userRequest\<rparr>],
      tools = orchestratorTools ++ (map_option Supplied \<circ> mcpTools),
      maxSteps = 5\<rparr>"

text \<open>
  A delegation is the argument object of a \<open>delegateToAgent\<close> call, read through the
  cast \<open>call.args as {agentName; task; context?}\<close>. The SDK has checked the arguments
  against the tool's parameter schema (\<open>agentName\<close> one of the five persona names,
  \<open>task\<close> a string, \<open>context\<close> an optional string); on such arguments the projection
  below is what the cast reads.
\<close>

record delegation =
  d_agentName :: string
  d_task :: string
  d_context :: "string option"

definition str_field :: "json \<Rightarrow> string \<Rightarrow> string option" where
  "str_field j k =
     (case j of
        JObj kv \<Rightarrow> (case map_of kv k of Some (JStr s) \<Rightarrow> Some s | _ \<Rightarrow> None)
      | _ \<Rightarrow> None)"

definition as_delegation :: "json \<Rightarrow> delegation" where
  "as_delegation j =
     \<lparr>d_agentName = (case str_field j ''agentName'' of Some s \<Rightarrow> s | None \<Rightarrow> []),
      d_task = (case str_field j ''task'' of Some s \<Rightarrow> s | None \<Rightarrow> []),
      d_context = str_field j ''context''\<rparr>"

definition extract_delegations :: "gen_result \<Rightarrow> delegation list" where
  "extract_delegations planResult =
     (case toolCalls planResult of
        None \<Rightarrow> []
      | Some cs \<Rightarrow>
          map (\<lambda>call. as_delegation (args call))
            (filter (\<lambda>call. toolName call = ''delegateToAgent'') cs))"

datatype task_status = Pending | InProgress | Completed | Failed

record collaboration_task =
  t_id :: string
  t_description :: string
  t_assignedAgent :: string
  t_status :: task_status
  t_result :: "agent_result option"

definition make_tasks :: "delegation list \<Rightarrow> collaboration_task list" where
  "make_tasks delegations =
     map (\<lambda>(index, d).
            \<lparr>t_id = ''task-'' @ show_nat (index + 1), t_description = d_task d,
             t_assignedAgent = d_agentName d, t_status = Pending, t_result = None\<rparr>)
       (enumerate 0 delegations)"

text \<open>
  The \<open>for (const task of tasks)\<close> loop. The array is \<open>finished @ task # rest\<close>;
  the loop body assigns to fields of \<open>task\<close> only. \<open>trace\<close> is not program state:
  it records the array after every assignment, so that the order of the status
  changes can be stated. \<open>executeAgent\<close> runs with the executor's own \<open>this.mcpTools\<close>.
\<close>

fun run_tasks ::
  "('t, 'p) env \<Rightarrow> (string \<rightharpoonup> 't) \<Rightarrow> delegation list \<Rightarrow>
     collaboration_task list \<Rightarrow> collaboration_task list \<Rightarrow> agent_result list \<Rightarrow>
     collaboration_task list list \<Rightarrow> ('t, 'p) world \<Rightarrow>
     (js_exn + collaboration_task list \<times> agent_result list \<times> collaboration_task list list)
       \<times> ('t, 'p) world" where
  "run_tasks env self_mcpTools delegations finished [] results trace w =
     (Inr (finished, results, trace), w)"
| "run_tasks env self_mcpTools delegations finished (task # rest) results trace w =
     (let t1 = task\<lparr>t_status := InProgress\<rparr>;
          trace1 = trace @ [finished @ t1 # rest]
      in case find (\<lambda>d. d_agentName d = t_assignedAgent t1) delegations of
           None \<Rightarrow>
             run_tasks env self_mcpTools delegations (finished @ [t1]) rest results trace1 w
         | Some delegation \<Rightarrow>
             (case executeAgent env self_mcpTools (t_assignedAgent t1) (d_task delegation)
                     (d_context delegation) w of
                (Inl e, w') \<Rightarrow> (Inl e, w')
              | (Inr result, w') \<Rightarrow>
                  (let t2 = t1\<lparr>t_status := if ar_success result then Completed else Failed\<rparr>;
                       t3 = t2\<lparr>t_result := Some result\<rparr>
                   in run_tasks env self_mcpTools delegations (finished @ [t3]) rest
                        (results @ [result])
                        (trace1 @ [finished @ t2 # rest, finished @ t3 # rest]) w')))"

text \<open>Phase 1: the planning call. Nothing catches what it throws.\<close>

definition orchestrate_plan ::
  "('t, 'p) env \<Rightarrow> string \<Rightarrow> (string \<rightharpoonup> 't) \<Rightarrow> ('t, 'p) world \<Rightarrow>
     (js_exn + gen_result) \<times> ('t, 'p) world" where
  "orchestrate_plan env userRequest mcpTools w =
     (case getLLM env of
        Inl e \<Rightarrow> (Inl e, w)
      | Inr m \<Rightarrow>
          (case call_generateText env (plan_request m userRequest mcpTools) w of
             (b, w') \<Rightarrow> (outcome b, w')))"

text \<open>Phases 1 and 2 with the trace of the task array, starting at the new array.\<close>

definition orchestrate_run ::
  "('t, 'p) env \<Rightarrow> (string \<rightharpoonup> 't) \<Rightarrow> string \<Rightarrow> (string \<rightharpoonup> 't) \<Rightarrow> ('t, 'p) world \<Rightarrow>
     (js_exn + collaboration_task list \<times> agent_result list \<times> collaboration_task list list)
       \<times> ('t, 'p) world" where
  "orchestrate_run env self_mcpTools userRequest mcpTools w =
     (case orchestrate_plan env userRequest mcpTools w of
        (Inl e, w1) \<Rightarrow> (Inl e, w1)
      | (Inr planResult, w1) \<Rightarrow>
          (let delegations = extract_delegations planResult;
               tasks = make_tasks delegations
           in run_tasks env self_mcpTools delegations [] tasks [] [tasks] w1))"

text \<open>
  The summary: one section per result; \<open>agentConfigs[r.agentName]?.displayName ||
  r.agentName\<close> heads it. A template literal prints an absent \<open>error\<close> as
  \<open>undefined\<close>.
\<close>

definition display_name :: "string \<Rightarrow> string" where
  "display_name agentName =
     (case config_displayName (agentConfigs_get agentName :: unit config_value) of
        Some n \<Rightarrow> if n \<noteq> [] then n else agentName
      | None \<Rightarrow> agentName)"

definition summary_section :: "agent_result \<Rightarrow> string" where
  "summary_section r =
     ''### '' @ display_name (ar_agentName r) @ utf8 ''0A''
       @ (if ar_success r then ar_result r
          else error_label @ (case ar_error r of Some e \<Rightarrow> e | None \<Rightarrow> ''undefined''))"

record orchestration =
  plan :: "collaboration_task list"
  results :: "agent_result list"
  summary :: string

definition orchestrate ::
  "('t, 'p) env \<Rightarrow> (string \<rightharpoonup> 't) \<Rightarrow> string \<Rightarrow> (string \<rightharpoonup> 't) \<Rightarrow> ('t, 'p) world \<Rightarrow>
     (js_exn + orchestration) \<times> ('t, 'p) world" where
  "orchestrate env self_mcpTools userRequest mcpTools w =
     (case orchestrate_run env self_mcpTools userRequest mcpTools w of
        (Inl e, w') \<Rightarrow> (Inl e, w')
      | (Inr (tasks, rs, trace), w') \<Rightarrow>
          (Inr \<lparr>plan = tasks, results = rs,
                summary = summary_heading @ join (utf8 ''0A0A'') (map summary_section rs)\<rparr>,
           w'))"

subsection \<open>Status transitions of a Collaboration Task\<close>

text \<open>
  One step of a task between two states of the array: the task keeps its identity, and
  its status stays or moves one stage forward.
\<close>

definition status_step :: "task_status \<Rightarrow> task_status \<Rightarrow> bool" where
  "status_step a b =
     (a = b \<or> (a = Pending \<and> b = InProgress) \<or>
      (a = InProgress \<and> (b = Completed \<or> b = Failed)))"

definition task_step :: "collaboration_task \<Rightarrow> collaboration_task \<Rightarrow> bool" where
  "task_step t t' =
     (t_id t' = t_id t \<and> t_description t' = t_description t \<and>
      t_assignedAgent t' = t_assignedAgent t \<and> status_step (t_status t) (t_status t'))"

definition result_after_pending :: "collaboration_task \<Rightarrow> bool" where
  "result_after_pending t = (t_result t \<noteq> None \<longrightarrow> t_status t \<noteq> Pending)"

definition final_status :: "agent_result \<Rightarrow> task_status" where
  "final_status r = (if ar_success r then Completed else Failed)"

section \<open>The Multi-Step Chat Loop (\<open>handleChat\<close>)\<close>

text \<open>
  The response is the output sink. \<open>res.write\<close> appends a chunk, \<open>res.end\<close> closes
  the sink; \<open>ended\<close> counts the calls of \<open>res.end\<close>. Every chunk but the last is
  \<open>data: \<close> followed by the JSON text of an object; the object is kept as the
  constructor that names its shape. The terminal marker is the chunk \<open>data: [DONE]\<close>.
\<close>

datatype chunk =
    TextEvent string
  | ToolCalling string json
  | ToolCompleted string "json option"
  | ToolCallsSummary "(string \<times> tool_result option) list"
  | ErrorEvent string
  | Done

record sink =
  headers :: "(string \<times> string) list"
  headersFlushed :: bool
  written :: "chunk list"
  ended :: nat

definition setHeader :: "string \<Rightarrow> string \<Rightarrow> sink \<Rightarrow> sink" where
  "setHeader k v res = res\<lparr>headers := AList.update k v (headers res)\<rparr>"

definition flushHeaders :: "sink \<Rightarrow> sink" where
  "flushHeaders res = res\<lparr>headersFlushed := True\<rparr>"

definition res_write :: "chunk \<Rightarrow> sink \<Rightarrow> sink" where
  "res_write c res = res\<lparr>written := written res @ [c]\<rparr>"

definition end_response :: "sink \<Rightarrow> sink" where
  "end_response res = res\<lparr>ended := Suc (ended res)\<rparr>"

text \<open>
  \<open>SYSTEM_PROMPT\<close> is a template literal: the text below, then what
  \<open>getSkillsSystemPrompt()\<close> returned when the module was loaded. That function is
  imported from a module that is not among the sources, so its result is a parameter.
\<close>

definition SYSTEM_PROMPT_static :: string where
  "SYSTEM_PROMPT_static =
     utf8 ''E4BDA0E698AFE4B880E4B8AAE5BCBAE5A4A7E79A84'' @ '' AI '' @
     utf8 ''E7BC96E7A88BE58AA9E6898BE380820A0A'' @ ''## '' @
     utf8 ''E794A8E688B7E78EAFE5A283E4BFA1E681AF0A'' @ ''- '' @
     utf8 ''E6938DE4BD9CE7B3BBE7BB9F'' @ '': Windows'' @ utf8 ''0A'' @ ''- '' @
     utf8 ''E794A8E688B7E6A18CE99DA2E8B7AFE5BE84'' @ '': C:/Users/31483/Desktop'' @
     utf8 ''0A'' @ ''- '' @ utf8 ''E9A1B9E79BAEE8B7AFE5BE84'' @
     '': C:/Users/31483/WebstormProjects/untitled2'' @ utf8 ''0A'' @ ''- '' @
     utf8 ''E58581E8AEB8E8AEBFE997AEE79A84E79BAEE5BD95'' @
     '': C:/Users/31483/WebstormProjects/untitled2, C:/Users/31483/Desk'' @ ''top'' @
     utf8 ''0A0AE9878DE8A681EFBC9AE68980E69C89E69687E4BBB6E8B7AFE5BE84E5BF85E9'' @
     utf8 ''A1BBE4BDBFE794A8'' @ '' Windows '' @ utf8 ''E6A0BCE5BC8FEFBC88E5A682'' @
     '' C:/Users/31483/Desktop/demo.txt'' @ utf8 ''EFBC89EFBC8CE4B88DE8A681E4BDBFE794A8'' @
     '' Linux '' @ utf8 ''E6A0BCE5BC8FE79A84E8B7AFE5BE84E380820A0A'' @ ''## MCP '' @
     utf8 ''E5B7A5E585B7'' @ '' (Model Context Protocol)'' @ utf8 ''0A'' @
     ''- filesystem_write_file: '' @ utf8 ''E58699E585A5E69687E4BBB6EFBC8CE58F82E695B0'' @
     '' path '' @ utf8 ''E5928C'' @ '' content'' @ utf8 ''0A'' @
     ''- filesystem_read_file: '' @ utf8 ''E8AFBBE58F96E69687E4BBB60A'' @
     ''- filesystem_list_directory: '' @ utf8 ''E58897E587BAE79BAEE5BD950A0A'' @
     ''## Plan '' @
     utf8 ''E6A8A1E5BC8FE5B7A5E4BD9CE6B581E7A88B0AE5BD93E689A7E8A18CE5A48DE69D'' @
     utf8 ''82E4BBBBE58AA1E697B6EFBC8CE8AFB7E68C89E4BBA5E4B88BE6ADA5E9AAA4E8BF'' @
     utf8 ''9BE8A18CEFBC9A0A'' @ ''1. **'' @ utf8 ''E58886E69E90E4BBBBE58AA1'' @ ''**: '' @
     utf8 ''E79086E8A7A3E794A8E688B7E99C80E6B1820A'' @ ''2. **'' @
     utf8 ''E8AFBBE58F96E79BB8E585B3E68A80E883BD'' @ ''**: '' @
     utf8 ''E5A682E69E9CE69C89E98082E794A8E79A84E68A80E883BDEFBC8CE4BDBFE794A8'' @
     '' readSkill '' @ utf8 ''E8AFBBE58F96E68C87E4BBA40A'' @ ''   - '' @
     utf8 ''E7A4BAE4BE8BEFBC9A'' @ ''readSkill({ name: '' @ utf8 ''22'' @ ''web-research'' @
     utf8 ''22'' @ '' })'' @ utf8 ''0A'' @ ''   - '' @ utf8 ''E6B3A8E6848FEFBC9A'' @
     ''name '' @ utf8 ''E58F82E695B0E698AFE5BF85E5A1ABE79A84EFBC810A'' @ ''3. **'' @
     utf8 ''E588B6E5AE9AE8AEA1E58892'' @ ''**: '' @ utf8 ''E58897E587BA'' @ '' TODO '' @
     utf8 ''E6B885E58D95EFBC8CE8AFB4E6988EE5B086E8A681E689A7E8A18CE79A84E6ADA5'' @
     utf8 ''E9AAA40A'' @ ''4. **'' @ utf8 ''E98090E6ADA5E689A7E8A18C'' @ ''**: '' @
     utf8 ''E68C89E8AEA1E58892E689A7E8A18CE6AF8FE4B8AAE6ADA5E9AAA4EFBC8CE8B083'' @
     utf8 ''E794A8E79BB8E5BA94E79A84E5B7A5E585B70A'' @ ''5. **'' @
     utf8 ''E6B187E68AA5E7BB93E69E9C'' @ ''**: '' @
     utf8 ''E5AE8CE68890E5908EE5918AE8AF89E794A8E688B7E689A7E8A18CE7BB93E69E9C'' @
     utf8 ''0A0AE8AFB7E59CA8E6AF8FE4B8AAE6ADA5E9AAA4E983BDE8BE93E587BAE69687E5'' @
     utf8 ''AD97E8AFB4E6988EEFBC8CE8AEA9E794A8E688B7E4BA86E8A7A3E8BF9BE5BAA6E3'' @
     utf8 ''80820A0A''"

definition SYSTEM_PROMPT :: "string \<Rightarrow> string" where
  "SYSTEM_PROMPT skillsSystemPrompt = SYSTEM_PROMPT_static @ skillsSystemPrompt"

text \<open>The \<open>onStepFinish\<close> callback: the step's text, its tool calls, its tool results.\<close>

definition onStepFinish :: "step \<Rightarrow> sink \<Rightarrow> sink" where
  "onStepFinish st res =
     (let res1 = (if step_text st \<noteq> [] then res_write (TextEvent (step_text st)) res else res);
          res2 = (case step_toolCalls st of
                    None \<Rightarrow> res1
                  | Some tcs \<Rightarrow>
                      foldl (\<lambda>r tc. res_write (ToolCalling (toolName tc) (args tc)) r) res1 tcs);
          res3 = (case step_toolResults st of
                    None \<Rightarrow> res2
                  | Some trs \<Rightarrow>
                      foldl (\<lambda>r tr. res_write (ToolCompleted (tr_toolName tr) (tr_result tr)) r)
                        res2 trs)
      in res3)"

definition chat_request ::
  "string \<Rightarrow> string \<Rightarrow> message list \<Rightarrow> (string \<rightharpoonup> 't) \<Rightarrow> 't gen_request" where
  "chat_request m skillsSystemPrompt msgs tls =
     \<lparr>model = m, system = Some (SYSTEM_PROMPT skillsSystemPrompt), messages = msgs,
      tools = map_option Supplied \<circ> tls, maxSteps = 10\<rparr>"

text \<open>What follows the awaited \<open>generateText\<close> inside the \<open>try\<close> block.\<close>

definition toolCallsSummary :: "gen_result \<Rightarrow> tool_call list \<Rightarrow> (string \<times> tool_result option) list" where
  "toolCallsSummary result tcs =
     map (\<lambda>tc. (toolName tc,
                 case toolResults result of
                   None \<Rightarrow> None
                 | Some trs \<Rightarrow> find (\<lambda>tr. tr_toolCallId tr = toolCallId tc) trs))
       tcs"

definition write_final :: "gen_result \<Rightarrow> sink \<Rightarrow> sink" where
  "write_final result res =
     (let res1 = (if r_text result \<noteq> [] then res_write (TextEvent (r_text result)) res else res)
      in case toolCalls result of
           Some (tc # tcs) \<Rightarrow> res_write (ToolCallsSummary (toolCallsSummary result (tc # tcs))) res1
         | _ \<Rightarrow> res1)"

text \<open>
  The \<open>try\<close> block. The callback runs while \<open>generateText\<close> is awaited, once per
  delivered step; an exception leaves what was written so far in the sink.
\<close>

definition handleChat_try ::
  "('t, 'p) env \<Rightarrow> string \<Rightarrow> message list \<Rightarrow> (string \<rightharpoonup> 't) \<Rightarrow> sink \<Rightarrow>
     ('t, 'p) world \<Rightarrow> (js_exn + unit) \<times> sink \<times> ('t, 'p) world" where
  "handleChat_try env skillsSystemPrompt msgs tls res w =
     (case getLLM env of
        Inl e \<Rightarrow> (Inl e, res, w)
      | Inr m \<Rightarrow>
          (case call_generateText env (chat_request m skillsSystemPrompt msgs tls) w of
             (b, w') \<Rightarrow>
               (let res1 = foldl (\<lambda>r st. onStepFinish st r) res (delivered b)
                in case outcome b of
                     Inl e \<Rightarrow> (Inl e, res1, w')
                   | Inr result \<Rightarrow> (Inr (), write_final result res1, w'))))"

definition handleChat ::
  "('t, 'p) env \<Rightarrow> string \<Rightarrow> message list \<Rightarrow> (string \<rightharpoonup> 't) \<Rightarrow> sink \<Rightarrow>
     ('t, 'p) world \<Rightarrow> (js_exn + unit) \<times> sink \<times> ('t, 'p) world" where
  "handleChat env skillsSystemPrompt msgs tls res w =
     (let res0 = flushHeaders
                   (setHeader ''X-Accel-Buffering'' ''no''
                     (setHeader ''Connection'' ''keep-alive''
                       (setHeader ''Cache-Control'' ''no-cache''
                         (setHeader ''Content-Type'' ''text/event-stream'' res))))
      in case handleChat_try env skillsSystemPrompt msgs tls res0 w of
           (Inr u, res1, w') \<Rightarrow> (Inr (), end_response (res_write Done res1), w')
         | (Inl error, res1, w') \<Rightarrow>
             (Inr (), end_response (res_write Done (res_write (ErrorEvent (exn_message error)) res1)), w'))"

section \<open>The bounded tool-calling loop of the Model Provider\<close>

text \<open>
  Modelled from the spec: the loop inside \<open>generateText\<close> belongs to the AI SDK and is
  not among the sources; the repository only passes \<open>maxSteps\<close>. The spec gives the
  provider a hard step ceiling and per-step callback delivery, and defines a step as one
  round of model reasoning, optional tool calls and tool results. \<open>model_step\<close> is
  that round: given the request and the steps so far it yields the next step or throws.
  The loop runs it while the last step asked for a tool and the budget is not used up;
  the provider state counts the rounds.
\<close>

definition wants_more :: "step \<Rightarrow> bool" where
  "wants_more st = (case step_toolCalls st of Some (tc # tcs) \<Rightarrow> True | _ \<Rightarrow> False)"

definition result_of_steps :: "step list \<Rightarrow> gen_result" where
  "result_of_steps sts =
     (case rev sts of
        [] \<Rightarrow> \<lparr>r_text = [], toolCalls = Some [], toolResults = Some [], steps = Some [],
               finishReason = ''stop''\<rparr>
      | st # earlier \<Rightarrow>
          \<lparr>r_text = step_text st, toolCalls = step_toolCalls st,
           toolResults = step_toolResults st, steps = Some sts,
           finishReason = (if wants_more st then ''tool-calls'' else ''stop'')\<rparr>)"

fun sdk_loop ::
  "('t gen_request \<Rightarrow> step list \<Rightarrow> js_exn + step) \<Rightarrow> 't gen_request \<Rightarrow> nat \<Rightarrow> step list \<Rightarrow>
     nat \<Rightarrow> gen_behaviour \<times> nat" where
  "sdk_loop model_step req 0 sts n =
     (\<lparr>delivered = sts, outcome = Inr (result_of_steps sts)\<rparr>, n)"
| "sdk_loop model_step req (Suc budget) sts n =
     (case model_step req sts of
        Inl e \<Rightarrow> (\<lparr>delivered = sts, outcome = Inl e\<rparr>, Suc n)
      | Inr st \<Rightarrow>
          if wants_more st then sdk_loop model_step req budget (sts @ [st]) (Suc n)
          else (\<lparr>delivered = sts @ [st], outcome = Inr (result_of_steps (sts @ [st]))\<rparr>,
                Suc n))"

definition sdk_generateText ::
  "('t gen_request \<Rightarrow> step list \<Rightarrow> js_exn + step) \<Rightarrow> 't gen_request \<Rightarrow> nat \<Rightarrow>
     gen_behaviour \<times> nat" where
  "sdk_generateText model_step req n = sdk_loop model_step req (maxSteps req) [] n"

definition sdk_env ::
  "string \<Rightarrow> ('t gen_request \<Rightarrow> step list \<Rightarrow> js_exn + step) \<Rightarrow> ('t, nat) env" where
  "sdk_env m model_step = \<lparr>getLLM = Inr m, generateText = sdk_generateText model_step\<rparr>"

definition always_requests_tool :: "('t gen_request \<Rightarrow> step list \<Rightarrow> js_exn + step) \<Rightarrow> bool" where
  "always_requests_tool model_step =
     (\<forall>req sts. \<exists>st. model_step req sts = Inr st \<and> wants_more st)"

subsection \<open>The chunks of a step and of the final result\<close>

text \<open>
  What \<open>onStepFinish\<close> writes for one step, and what the code after the awaited call
  writes for the result, as lists; they are used to state what the stream holds.
\<close>

definition step_chunks :: "step \<Rightarrow> chunk list" where
  "step_chunks st =
     (if step_text st \<noteq> [] then [TextEvent (step_text st)] else [])
     @ (case step_toolCalls st of
          None \<Rightarrow> []
        | Some tcs \<Rightarrow> map (\<lambda>tc. ToolCalling (toolName tc) (args tc)) tcs)
     @ (case step_toolResults st of
          None \<Rightarrow> []
        | Some trs \<Rightarrow> map (\<lambda>tr. ToolCompleted (tr_toolName tr) (tr_result tr)) trs)"

definition final_chunks :: "gen_result \<Rightarrow> chunk list" where
  "final_chunks result =
     (if r_text result \<noteq> [] then [TextEvent (r_text result)] else [])
     @ (case toolCalls result of
          Some (tc # tcs) \<Rightarrow> [ToolCallsSummary (toolCallsSummary result (tc # tcs))]
        | _ \<Rightarrow> [])"

definition is_error :: "chunk \<Rightarrow> bool" where
  "is_error c = (case c of ErrorEvent m \<Rightarrow> True | _ \<Rightarrow> False)"

section \<open>Schema translation (\<open>jsonSchemaToZod\<close>)\<close>

text \<open>
  The validators the translator builds with zod, as a syntax tree. \<open>describe\<close> keeps
  the description it is given, whatever its type.
\<close>

datatype zod =
    ZString json
  | ZNumber json
  | ZBoolean json
  | ZArray zod
  | ZObject "(string \<times> zod) list"
  | ZOptional zod
  | ZAny

text \<open>
  Reading a property of a schema. The translator reads \<open>type\<close>, \<open>description\<close>,
  \<open>items\<close>, \<open>properties\<close> and \<open>required\<close>. On an object these are own properties or
  absent; a string, number, boolean or array has none of them; reading any property of
  \<open>null\<close> throws a \<open>TypeError\<close>.
\<close>

definition get_prop :: "json \<Rightarrow> string \<Rightarrow> json option" where
  "get_prop schema k = (case schema of JObj kv \<Rightarrow> map_of kv k | _ \<Rightarrow> None)"

definition null_read_msg :: string where
  "null_read_msg = ''Cannot read properties of null (reading '' @ utf8 ''27'' @ ''type''
     @ utf8 ''27'' @ '')''"

text \<open>\<open>(schema.description as string) || ''\<close>.\<close>

definition description_of :: "json \<Rightarrow> json" where
  "description_of schema =
     (case get_prop schema ''description'' of
        Some d \<Rightarrow> if truthy d then d else JStr []
      | None \<Rightarrow> JStr [])"

text \<open>\<open>items || { type: 'string' }\<close>.\<close>

definition items_or_default :: "json \<Rightarrow> json" where
  "items_or_default schema =
     (case get_prop schema ''items'' of
        Some items \<Rightarrow> if truthy items then items else JObj [(''type'', JStr ''string'')]
      | None \<Rightarrow> JObj [(''type'', JStr ''string'')])"

text \<open>
  A JavaScript string is indexed by UTF-16 code units; strings here are their UTF-8
  bytes. A code point of one to three bytes is one code unit. A code point of four
  bytes is a surrogate pair, two code units, each written here as the three bytes of
  its surrogate.
\<close>

definition is_continuation :: "char \<Rightarrow> bool" where
  "is_continuation c \<longleftrightarrow> 128 \<le> (of_char c :: nat) \<and> (of_char c :: nat) < 192"

function code_points :: "string \<Rightarrow> string list" where
  "code_points [] = []"
| "code_points (c # cs) =
     (c # takeWhile is_continuation cs) # code_points (dropWhile is_continuation cs)"
  by pat_completeness auto

termination
proof (relation "measure length")
  show "wf (measure (length :: string \<Rightarrow> nat))"
    by simp
  fix c :: char and cs :: string
  have "length (dropWhile is_continuation cs) \<le> length cs"
    by (rule length_dropWhile_le)
  then show "(dropWhile is_continuation cs, c # cs) \<in> measure length"
    by simp
qed

definition code_point_value :: "string \<Rightarrow> nat" where
  "code_point_value cp =
     (case cp of
        [b0, b1, b2, b3] \<Rightarrow>
          (of_char b0 mod 8) * 262144 + (of_char b1 mod 64) * 4096
            + (of_char b2 mod 64) * 64 + of_char b3 mod 64
      | _ \<Rightarrow> 0)"

definition surrogate_bytes :: "nat \<Rightarrow> string" where
  "surrogate_bytes u =
     [char_of (224 + u div 4096), char_of (128 + (u div 64) mod 64), char_of (128 + u mod 64)]"

definition code_units :: "string \<Rightarrow> string list" where
  "code_units s =
     concat (map (\<lambda>cp. if length cp = 4
                        then [surrogate_bytes (55296 + (code_point_value cp - 65536) div 1024),
                              surrogate_bytes (56320 + (code_point_value cp - 65536) mod 1024)]
                        else [cp])
               (code_points s))"

text \<open>
  \<open>Object.entries(schema.properties || {})\<close>: the own properties of an object, the
  indexed elements of an array, the indexed code units of a string, and nothing for a
  number or \<open>true\<close>.
\<close>

definition indexed :: "'a list \<Rightarrow> (string \<times> 'a) list" where
  "indexed xs = map (\<lambda>(i, x). (show_nat i, x)) (enumerate 0 xs)"

definition property_entries :: "json \<Rightarrow> (string \<times> json) list" where
  "property_entries schema =
     (case get_prop schema ''properties'' of
        Some (JObj kv) \<Rightarrow> kv
      | Some (JArr xs) \<Rightarrow> indexed xs
      | Some (JStr s) \<Rightarrow> indexed (map JStr (code_units s))
      | _ \<Rightarrow> [])"

text \<open>\<open>String.prototype.includes\<close>: a contiguous occurrence.\<close>

definition str_includes :: "string \<Rightarrow> string \<Rightarrow> bool" where
  "str_includes s sub =
     list_ex (\<lambda>i. take (length sub) (drop i s) = sub) [0..<Suc (length s)]"

text \<open>
  \<open>required.includes(key)\<close> with \<open>required = schema.required || []\<close>: membership in
  an array, an occurrence in a string, and a \<open>TypeError\<close> on any other truthy value,
  which has no \<open>includes\<close> method.
\<close>

definition required_includes :: "json \<Rightarrow> string \<Rightarrow> js_exn + bool" where
  "required_includes schema key =
     (case get_prop schema ''required'' of
        None \<Rightarrow> Inr False
      | Some (JArr xs) \<Rightarrow> Inr (JStr key \<in> set xs)
      | Some (JStr s) \<Rightarrow> Inr (s \<noteq> [] \<and> str_includes s key)
      | Some r \<Rightarrow>
          if truthy r then Inl (JsError ''required.includes is not a function'')
          else Inr False)"

text \<open>
  \<open>shape[key] = ...\<close> on an object literal: the key \<open>__proto__\<close> sets the prototype
  and adds no own property.
\<close>

definition shape_assign :: "string \<Rightarrow> zod \<Rightarrow> (string \<times> zod) list \<Rightarrow> (string \<times> zod) list" where
  "shape_assign key z shape = (if key = ''__proto__'' then shape else AList.update key z shape)"

text \<open>
  The translator, and the \<open>for\<close> loop over the entries of \<open>properties\<close> that fills
  \<open>shape\<close>. An exception of a recursive call leaves through both.
\<close>

function jsonSchemaToZod :: "json \<Rightarrow> js_exn + zod"
  and build_shape :: "json \<Rightarrow> (string \<times> json) list \<Rightarrow> (string \<times> zod) list \<Rightarrow>
        js_exn + (string \<times> zod) list"
where
  "jsonSchemaToZod schema =
     (if schema = JNull then Inl (JsError null_read_msg)
      else if get_prop schema ''type'' = Some (JStr ''string'')
        then Inr (ZString (description_of schema))
      else if get_prop schema ''type'' = Some (JStr ''number'') \<or>
              get_prop schema ''type'' = Some (JStr ''integer'')
        then Inr (ZNumber (description_of schema))
      else if get_prop schema ''type'' = Some (JStr ''boolean'')
        then Inr (ZBoolean (description_of schema))
      else if get_prop schema ''type'' = Some (JStr ''array'')
        then (case jsonSchemaToZod (items_or_default schema) of
                Inl e \<Rightarrow> Inl e
              | Inr z \<Rightarrow> Inr (ZArray z))
      else if get_prop schema ''type'' = Some (JStr ''object'') \<or>
              truthy_opt (get_prop schema ''properties'')
        then (case build_shape schema (property_entries schema) [] of
                Inl e \<Rightarrow> Inl e
              | Inr shape \<Rightarrow> Inr (ZObject shape))
      else Inr ZAny)"
| "build_shape schema [] shape = Inr shape"
| "build_shape schema ((key, prop) # rest) shape =
     (case jsonSchemaToZod prop of
        Inl e \<Rightarrow> Inl e
      | Inr zodProp \<Rightarrow>
          (case required_includes schema key of
             Inl e \<Rightarrow> Inl e
           | Inr req \<Rightarrow>
               build_shape schema rest
                 (shape_assign key (if req then zodProp else ZOptional zodProp) shape)))"
  by pat_completeness auto
termination
proof (relation "measures
    [\<lambda>x. case x of
            Inl schema \<Rightarrow>
              3 * size schema + (if get_prop schema ''type'' = Some (JStr ''array'') then 1 else 0)
          | Inr (schema, entries, shape) \<Rightarrow> 3 * sum_list (map (\<lambda>(k, p). size p) entries) + 2,
     \<lambda>x. case x of Inl schema \<Rightarrow> 0 | Inr (schema, entries, shape) \<Rightarrow> length entries]")
  show "wf (measures
    [\<lambda>x. case x of
            Inl schema \<Rightarrow>
              3 * size schema + (if get_prop schema ''type'' = Some (JStr ''array'') then 1 else 0)
          | Inr (schema, entries, shape) \<Rightarrow> 3 * sum_list (map (\<lambda>(k, p). size p) entries) + 2,
     \<lambda>x. case x of Inl schema \<Rightarrow> 0 | Inr (schema, entries, shape) \<Rightarrow> length entries])"
    by simp
next
  fix schema :: json
  assume ty: "get_prop schema ''type'' = Some (JStr ''array'')"
  have child: "\<And>kv k v. map_of kv k = Some v \<Longrightarrow> size (v :: json) < size (JObj kv)"
  proof -
    fix kv :: "(string \<times> json) list" and k v
    assume "map_of kv k = Some v"
    then have "(k, v) \<in> set kv" by (rule map_of_SomeD)
    then show "size v < size (JObj kv)"
      by (induction kv) auto
  qed
  from ty obtain kv where kv: "schema = JObj kv" "map_of kv ''type'' = Some (JStr ''array'')"
    by (cases schema) (auto simp: get_prop_def)
  have big: "3 \<le> size schema"
    using kv by (cases kv) auto
  show "(Inl (items_or_default schema), Inl schema) \<in> measures
    [\<lambda>x. case x of
            Inl schema \<Rightarrow>
              3 * size schema + (if get_prop schema ''type'' = Some (JStr ''array'') then 1 else 0)
          | Inr (schema, entries, shape) \<Rightarrow> 3 * sum_list (map (\<lambda>(k, p). size p) entries) + 2,
     \<lambda>x. case x of Inl schema \<Rightarrow> 0 | Inr (schema, entries, shape) \<Rightarrow> length entries]"
  proof (cases "get_prop schema ''items''")
    case None
    then show ?thesis using ty big by (simp add: items_or_default_def get_prop_def)
  next
    case (Some items)
    then have "size items < size schema"
      using kv child by (auto simp: get_prop_def)
    then show ?thesis using ty big Some by (simp add: items_or_default_def get_prop_def)
  qed
next
  fix schema :: json
  assume obj: "get_prop schema ''type'' = Some (JStr ''object'') \<or>
               truthy_opt (get_prop schema ''properties'')"
  have big: "3 \<le> size schema"
  proof (cases schema)
    case (JObj kv)
    with obj have "map_of kv ''type'' \<noteq> None \<or> map_of kv ''properties'' \<noteq> None"
      by (auto simp: get_prop_def)
    then have "kv \<noteq> []" by auto
    then show ?thesis using JObj by (cases kv) auto
  qed (use obj in \<open>simp_all add: get_prop_def\<close>)
  have vals: "\<And>kv. sum_list (map (\<lambda>(k, p). size (p :: json)) kv) < size (JObj kv)"
  proof -
    fix kv :: "(string \<times> json) list"
    show "sum_list (map (\<lambda>(k, p). size p) kv) < size (JObj kv)"
      by (induction kv) auto
  qed
  have elems: "\<And>xs n. sum_list (map (\<lambda>(k, p). size (p :: json))
                  (map (\<lambda>(i, x). (show_nat i, x)) (enumerate n xs))) = sum_list (map size xs)"
  proof -
    fix xs :: "json list" and n
    show "sum_list (map (\<lambda>(k, p). size p) (map (\<lambda>(i, x). (show_nat i, x)) (enumerate n xs)))
            = sum_list (map size xs)"
      by (induction xs arbitrary: n) auto
  qed
  have arr: "\<And>xs. sum_list (map size xs) < size (JArr xs)"
  proof -
    fix xs :: "json list"
    show "sum_list (map size xs) < size (JArr xs)"
      by (induction xs) auto
  qed
  have child: "\<And>kv k v. map_of kv k = Some v \<Longrightarrow> size (v :: json) < size (JObj kv)"
  proof -
    fix kv :: "(string \<times> json) list" and k v
    assume "map_of kv k = Some v"
    then have "(k, v) \<in> set kv" by (rule map_of_SomeD)
    then show "size v < size (JObj kv)"
      by (induction kv) auto
  qed
  have bound: "sum_list (map (\<lambda>(k, p). size p) (property_entries schema)) < size schema
                 \<or> property_entries schema = []"
  proof (cases "get_prop schema ''properties''")
    case None
    then show ?thesis by (simp add: property_entries_def)
  next
    case (Some props)
    then obtain kv where kv: "schema = JObj kv" "map_of kv ''properties'' = Some props"
      by (cases schema) (auto simp: get_prop_def)
    have lt: "size props < size schema" using kv child by auto
    show ?thesis
    proof (cases props)
      case (JObj ps)
      then show ?thesis using Some lt vals [of ps] by (simp add: property_entries_def)
    next
      case (JArr xs)
      then show ?thesis
        using Some lt arr [of xs] elems [of 0 xs] by (simp add: property_entries_def indexed_def)
    next
      case (JStr s)
      have units: "\<And>us. sum_list (map size (map JStr us)) = 0"
      proof -
        fix us :: "string list"
        show "sum_list (map size (map JStr us)) = 0"
          by (induction us) auto
      qed
      have "sum_list (map (\<lambda>(k, p). size p) (indexed (map JStr (code_units s))))
              = sum_list (map size (map JStr (code_units s)))"
        unfolding indexed_def by (rule elems)
      also have "\<dots> = 0"
        by (rule units)
      finally have e0: "sum_list (map (\<lambda>(k, p). size p) (indexed (map JStr (code_units s)))) = 0" .
      have pe: "property_entries schema = indexed (map JStr (code_units s))"
        using JStr Some by (simp add: property_entries_def)
      show ?thesis
        unfolding pe e0 using lt by simp
    qed (use Some in \<open>simp_all add: property_entries_def\<close>)
  qed
  show "(Inr (schema, property_entries schema, []), Inl schema) \<in> measures
    [\<lambda>x. case x of
            Inl schema \<Rightarrow>
              3 * size schema + (if get_prop schema ''type'' = Some (JStr ''array'') then 1 else 0)
          | Inr (schema, entries, shape) \<Rightarrow> 3 * sum_list (map (\<lambda>(k, p). size p) entries) + 2,
     \<lambda>x. case x of Inl schema \<Rightarrow> 0 | Inr (schema, entries, shape) \<Rightarrow> length entries]"
    using bound big by auto
qed auto

text \<open>
  The equation of \<open>jsonSchemaToZod\<close> rewrites every call, also the ones in its own
  right-hand side; it is applied by name where a proof needs it.
\<close>

declare jsonSchemaToZod.simps [simp del]

text \<open>
  Modelled from the spec: what a validator accepts. zod is a library and is not among
  the sources; the spec speaks of a validator that requires a field as a string and
  rejects a payload missing it, of a sequence-of-number validator and of an
  accept-anything validator. The payload is a JSON value, or \<open>None\<close> for a missing
  field. An object validator checks each field of its shape against the payload's
  property of that name and ignores other properties; an optional validator also accepts
  a missing value.
\<close>

fun zod_accepts :: "zod \<Rightarrow> json option \<Rightarrow> bool" where
  "zod_accepts (ZString d) v = (case v of Some (JStr s) \<Rightarrow> True | _ \<Rightarrow> False)"
| "zod_accepts (ZNumber d) v = (case v of Some (JNum n) \<Rightarrow> True | _ \<Rightarrow> False)"
| "zod_accepts (ZBoolean d) v = (case v of Some (JBool b) \<Rightarrow> True | _ \<Rightarrow> False)"
| "zod_accepts (ZArray z) v =
     (case v of Some (JArr xs) \<Rightarrow> list_all (\<lambda>x. zod_accepts z (Some x)) xs | _ \<Rightarrow> False)"
| "zod_accepts (ZObject shape) v =
     (case v of
        Some (JObj kv) \<Rightarrow> list_all (\<lambda>(k, z). zod_accepts z (map_of kv k)) shape
      | _ \<Rightarrow> False)"
| "zod_accepts (ZOptional z) v = (v = None \<or> zod_accepts z v)"
| "zod_accepts ZAny v = True"

text \<open>The kinds the translator tells apart by \<open>schema.type\<close>.\<close>

definition recognized_kinds :: "string list" where
  "recognized_kinds = [''string'', ''number'', ''integer'', ''boolean'', ''array'', ''object'']"

definition kind_recognized :: "json \<Rightarrow> bool" where
  "kind_recognized schema =
     (case get_prop schema ''type'' of
        Some (JStr t) \<Rightarrow> t \<in> set recognized_kinds
      | _ \<Rightarrow> False)"

text \<open>
  The validator the loop stores for one entry of \<open>properties\<close>: the translated
  property schema, wrapped in \<open>optional\<close> unless \<open>required\<close> includes the key; none
  when the translation or the \<open>includes\<close> call throws.
\<close>

definition field_validator :: "json \<Rightarrow> string \<Rightarrow> json \<Rightarrow> zod option" where
  "field_validator schema key prop =
     (case jsonSchemaToZod prop of
        Inl e \<Rightarrow> None
      | Inr z \<Rightarrow>
          (case required_includes schema key of
             Inl e \<Rightarrow> None
           | Inr req \<Rightarrow> Some (if req then z else ZOptional z)))"

section \<open>The MCP client manager (\<open>MCPClientManager\<close>)\<close>

text \<open>
  A remote tool server is reached through an SDK client; \<open>'c\<close> is the type of client
  handles, and \<open>remote\<close>, a parameter of the functions below, is what
  \<open>client.callTool({name, arguments})\<close> does: it returns the server's result or throws.
  The two \<open>Map\<close>s of the manager are lists of entries in insertion order.
\<close>

datatype conn_status = Connected | Disconnected | ConnError

record mcp_tool =
  mt_name :: string
  mt_description :: "string option"
  mt_inputSchema :: "json option"

record 'c mcp_instance =
  mi_client :: "'c option"
  mi_name :: string
  mi_status :: conn_status
  mi_tools :: "(string \<times> mcp_tool) list"

record 'c mcp_manager =
  clients :: "(string \<times> 'c mcp_instance) list"
  initialized :: bool

text \<open>
  A tool of the registry that \<open>getToolsAsAITools\<close> builds. Its \<open>execute\<close> is a closure
  over \<open>instance.client\<close> and \<open>toolName\<close>; the record keeps the two.
\<close>

record 'c ai_tool =
  at_description :: string
  at_parameters :: zod
  at_client :: "'c"
  at_toolName :: string

text \<open>\<open>aiTools[name] = tool\<close> on an object literal; \<open>__proto__\<close> adds no own property.\<close>

definition obj_assign :: "string \<Rightarrow> 'v \<Rightarrow> (string \<rightharpoonup> 'v) \<Rightarrow> (string \<rightharpoonup> 'v)" where
  "obj_assign key v obj = (if key = ''__proto__'' then obj else obj(key \<mapsto> v))"

definition composed_name :: "string \<Rightarrow> string \<Rightarrow> string" where
  "composed_name clientName tName = clientName @ ''_'' @ tName"

text \<open>\<open>toolDef.inputSchema ? jsonSchemaToZod(toolDef.inputSchema) : z.object({})\<close>.\<close>

definition tool_schema :: "mcp_tool \<Rightarrow> js_exn + zod" where
  "tool_schema toolDef =
     (case mt_inputSchema toolDef of
        None \<Rightarrow> Inr (ZObject [])
      | Some schema \<Rightarrow> if truthy schema then jsonSchemaToZod schema else Inr (ZObject []))"

text \<open>\<open>toolDef.description || `MCP tool: ${toolName}`\<close>.\<close>

definition tool_description :: "mcp_tool \<Rightarrow> string \<Rightarrow> string" where
  "tool_description toolDef tName =
     (case mt_description toolDef of
        None \<Rightarrow> ''MCP tool: '' @ tName
      | Some d \<Rightarrow> if d \<noteq> [] then d else ''MCP tool: '' @ tName)"

text \<open>
  The body of the inner loop: a tool whose schema translation throws is logged and left
  out.
\<close>

definition add_tool ::
  "string \<Rightarrow> 'c \<Rightarrow> string \<Rightarrow> mcp_tool \<Rightarrow> (string \<rightharpoonup> 'c ai_tool) \<Rightarrow> (string \<rightharpoonup> 'c ai_tool)" where
  "add_tool clientName c tName toolDef aiTools =
     (case tool_schema toolDef of
        Inl error \<Rightarrow> aiTools
      | Inr zodSchema \<Rightarrow>
          obj_assign (composed_name clientName tName)
            \<lparr>at_description = tool_description toolDef tName, at_parameters = zodSchema,
             at_client = c, at_toolName = tName\<rparr>
            aiTools)"

fun add_client_tools ::
  "string \<Rightarrow> 'c \<Rightarrow> (string \<times> mcp_tool) list \<Rightarrow> (string \<rightharpoonup> 'c ai_tool) \<Rightarrow>
     (string \<rightharpoonup> 'c ai_tool)" where
  "add_client_tools clientName c [] aiTools = aiTools"
| "add_client_tools clientName c ((tName, toolDef) # rest) aiTools =
     add_client_tools clientName c rest (add_tool clientName c tName toolDef aiTools)"

fun add_clients ::
  "(string \<times> 'c mcp_instance) list \<Rightarrow> (string \<rightharpoonup> 'c ai_tool) \<Rightarrow> (string \<rightharpoonup> 'c ai_tool)" where
  "add_clients [] aiTools = aiTools"
| "add_clients ((clientName, instance) # rest) aiTools =
     (case mi_client instance of
        None \<Rightarrow> add_clients rest aiTools
      | Some c \<Rightarrow>
          if mi_status instance \<noteq> Connected then add_clients rest aiTools
          else add_clients rest (add_client_tools clientName c (mi_tools instance) aiTools))"

definition getToolsAsAITools :: "'c mcp_manager \<Rightarrow> (string \<rightharpoonup> 'c ai_tool)" where
  "getToolsAsAITools mgr = add_clients (clients mgr) Map.empty"

text \<open>The \<open>execute\<close> of such a tool: the remote call, and a failure payload for a throw.\<close>

definition failure_payload :: "js_exn \<Rightarrow> json" where
  "failure_payload error =
     JObj [(''success'', JBool False), (''error'', JStr (exn_message error))]"

definition ai_tool_execute ::
  "('c \<Rightarrow> string \<Rightarrow> json \<Rightarrow> js_exn + json) \<Rightarrow> 'c ai_tool \<Rightarrow> json \<Rightarrow> js_exn + json" where
  "ai_tool_execute remote t arguments =
     (case remote (at_client t) (at_toolName t) arguments of
        Inr result \<Rightarrow> Inr result
      | Inl error \<Rightarrow> Inr (failure_payload error))"

definition not_connected_head :: string where
  "not_connected_head =
     ''MCP '' @ utf8 ''E5AEA2E688B7E7ABAF'' @ '' '' @ utf8 ''22''"

definition not_connected_tail :: string where
  "not_connected_tail =
     utf8 ''22'' @ '' '' @ utf8 ''E69CAAE8BF9EE68EA5''"

definition readFile_message :: string where
  "readFile_message =
     ''MCP '' @
     utf8 ''E69687E4BBB6E7B3BBE7BB9FE69C8DE58AA1E599A8E69CAAE8BF9EE68EA5EFBC8C'' @
     utf8 ''E697A0E6B395E8AFBBE58F96E69687E4BBB6''"

definition readFile_hint :: string where
  "readFile_hint =
     utf8 ''E8AFB7E7A1AEE4BF9D'' @ '' MCP '' @ utf8 ''E69C8DE58AA1E599A8E5B7B2E590AFE58AA8''"

definition null_client_msg :: string where
  "null_client_msg =
     ''Cannot read properties of null (reading '' @ utf8 ''27'' @ ''callTool'' @ utf8 ''27'' @ '')''"

text \<open>
  \<open>MCPClientManager.callTool\<close>: throws unless the named client is connected. Calling a
  method of a \<open>null\<close> client throws a \<open>TypeError\<close>.
\<close>

definition manager_callTool ::
  "('c \<Rightarrow> string \<Rightarrow> json \<Rightarrow> js_exn + json) \<Rightarrow> 'c mcp_manager \<Rightarrow> string \<Rightarrow> string \<Rightarrow> json \<Rightarrow>
     js_exn + json" where
  "manager_callTool remote mgr clientName tName arguments =
     (case map_of (clients mgr) clientName of
        None \<Rightarrow> Inl (JsError (not_connected_head @ clientName @ not_connected_tail))
      | Some instance \<Rightarrow>
          if mi_status instance \<noteq> Connected
          then Inl (JsError (not_connected_head @ clientName @ not_connected_tail))
          else (case mi_client instance of
                  None \<Rightarrow> Inl (JsError null_client_msg)
                | Some c \<Rightarrow> remote c tName arguments))"

section \<open>The fallback tools (\<open>fallbackMcpTools.readFile\<close>)\<close>

definition readFile_unavailable :: json where
  "readFile_unavailable =
     JObj [(''success'', JBool False), (''content'', JNull),
           (''message'', JStr readFile_message), (''hint'', JStr readFile_hint)]"

text \<open>
  The \<open>try\<close> block returns the server's result when the manager is initialized and the
  call returns; a throw is caught and logged, and like an uninitialized manager it
  falls through to the fixed payload.
\<close>

definition readFile_execute ::
  "('c \<Rightarrow> string \<Rightarrow> json \<Rightarrow> js_exn + json) \<Rightarrow> 'c mcp_manager \<Rightarrow> string \<Rightarrow> js_exn + json" where
  "readFile_execute remote mgr path =
     (if initialized mgr
      then (case manager_callTool remote mgr ''filesystem'' ''read_file''
                   (JObj [(''path'', JStr path)]) of
              Inr result \<Rightarrow> Inr result
            | Inl error \<Rightarrow> Inr readFile_unavailable)
      else Inr readFile_unavailable)"

text \<open>
  The tools the two loops of \<open>getToolsAsAITools\<close> visit, in order: source name, client
  handle, tool name and tool definition, for every tool of every source that is
  connected and has a client.
\<close>

definition source_entries ::
  "(string \<times> 'c mcp_instance) list \<Rightarrow> (string \<times> 'c \<times> string \<times> mcp_tool) list" where
  "source_entries cs =
     concat (map (\<lambda>(clientName, instance).
                    case mi_client instance of
                      None \<Rightarrow> []
                    | Some c \<Rightarrow>
                        if mi_status instance \<noteq> Connected then []
                        else map (\<lambda>(tName, toolDef). (clientName, c, tName, toolDef))
                               (mi_tools instance)) cs)"

definition entry_name :: "string \<times> 'c \<times> string \<times> mcp_tool \<Rightarrow> string" where
  "entry_name e = (case e of (clientName, c, tName, toolDef) \<Rightarrow> composed_name clientName tName)"

definition add_entry ::
  "(string \<rightharpoonup> 'c ai_tool) \<Rightarrow> string \<times> 'c \<times> string \<times> mcp_tool \<Rightarrow> (string \<rightharpoonup> 'c ai_tool)" where
  "add_entry aiTools e =
     (case e of (clientName, c, tName, toolDef) \<Rightarrow> add_tool clientName c tName toolDef aiTools)"

section \<open>Skills: \<open>validateSkillName\<close> and the \<open>createSkill\<close> tool\<close>

text \<open>
  \<open>!name.trim()\<close> holds of a string made of white space and line terminators only.
  The tokens are the UTF-8 encodings of the code points \<open>String.prototype.trim\<close>
  removes: U+0009 to U+000D, U+0020, U+00A0, U+1680, U+2000 to U+200A, U+2028, U+2029,
  U+202F, U+205F, U+3000 and U+FEFF.
\<close>

definition ws_tokens :: "string list" where
  "ws_tokens =
     [utf8 ''09'', utf8 ''0A'', utf8 ''0B'', utf8 ''0C'', utf8 ''0D'', utf8 ''20'',
      utf8 ''C2A0'', utf8 ''E19A80'',
      utf8 ''E28080'', utf8 ''E28081'', utf8 ''E28082'', utf8 ''E28083'', utf8 ''E28084'',
      utf8 ''E28085'', utf8 ''E28086'', utf8 ''E28087'', utf8 ''E28088'', utf8 ''E28089'',
      utf8 ''E2808A'', utf8 ''E280A8'', utf8 ''E280A9'', utf8 ''E280AF'', utf8 ''E2819F'',
      utf8 ''E38080'', utf8 ''EFBBBF'']"

definition ws_rest :: "string \<Rightarrow> string option" where
  "ws_rest s =
     map_option (\<lambda>t. drop (length t) s) (find (\<lambda>t. t \<noteq> [] \<and> take (length t) s = t) ws_tokens)"

function all_whitespace :: "string \<Rightarrow> bool" where
  "all_whitespace s =
     (if s = [] then True
      else case ws_rest s of None \<Rightarrow> False | Some rest \<Rightarrow> all_whitespace rest)"
  by pat_completeness auto
termination
proof (relation "measure length")
  show "wf (measure length)" by simp
next
  fix s rest :: string
  assume "s \<noteq> []" and "ws_rest s = Some rest"
  then obtain t where f: "find (\<lambda>t. t \<noteq> [] \<and> take (length t) s = t) ws_tokens = Some t"
    and r: "rest = drop (length t) s"
    by (auto simp: ws_rest_def)
  from f have "t \<noteq> []"
    by (auto simp: find_Some_iff)
  then show "(rest, s) \<in> measure length"
    using \<open>s \<noteq> []\<close> r by simp
qed

declare all_whitespace.simps [simp del]

definition backslash :: string where
  "backslash = utf8 ''5C''"

text \<open>The character class of \<open>/^[a-zA-Z0-9_-]+$/\<close>.\<close>

definition name_char :: "char \<Rightarrow> bool" where
  "name_char c =
     (c \<in> set (''abcdefghijklmnopqrstuvwxyz'' @ ''ABCDEFGHIJKLMNOPQRSTUVWXYZ'' @ ''0123456789''
               @ ''_-''))"

record validation =
  valid :: bool
  v_error :: "string option"

definition err_empty :: string where
  "err_empty =
     utf8 ''E5908DE7A7B0E4B88DE883BDE4B8BAE7A9BA''"

definition err_dotdot :: string where
  "err_dotdot =
     utf8 ''E5908DE7A7B0E4B88DE883BDE58C85E590AB'' @ '' '' @ utf8 ''22'' @ ''..'' @
     utf8 ''22''"

definition err_absolute :: string where
  "err_absolute =
     utf8 ''E5908DE7A7B0E4B88DE883BDE698AFE7BB9DE5AFB9E8B7AFE5BE84''"

definition err_separator :: string where
  "err_separator =
     utf8 ''E5908DE7A7B0E4B88DE883BDE58C85E590ABE8B7AFE5BE84E58886E99A94E7ACA6''"

definition err_charset :: string where
  "err_charset =
     utf8 ''E5908DE7A7B0E58FAAE883BDE58C85E590ABE5AD97E6AF8DE38081E695B0E5AD97'' @
     utf8 ''E38081E8BF9EE5AD97E7ACA6E5928CE4B88BE58892E7BABF''"

definition validateSkillName :: "string \<Rightarrow> validation" where
  "validateSkillName name =
     (if name = [] \<or> all_whitespace name
        then \<lparr>valid = False, v_error = Some err_empty\<rparr>
      else if str_includes name ''..''
        then \<lparr>valid = False, v_error = Some err_dotdot\<rparr>
      else if take 1 name = ''/'' \<or> take 1 name = backslash
        then \<lparr>valid = False, v_error = Some err_absolute\<rparr>
      else if str_includes name ''/'' \<or> str_includes name backslash
        then \<lparr>valid = False, v_error = Some err_separator\<rparr>
      else if \<not> (name \<noteq> [] \<and> list_all name_char name)
        then \<lparr>valid = False, v_error = Some err_charset\<rparr>
      else \<lparr>valid = True, v_error = None\<rparr>)"

subsection \<open>The file system and the manager\<close>

text \<open>
  The tool works on the disk through Node's \<open>fs\<close> and \<open>path\<close>. \<open>'fs\<close> is the state of
  the disk and the record below is what the platform does: \<open>existsSync\<close> reads,
  \<open>mkdirSync\<close> (with \<open>recursive: true\<close>) and \<open>writeFileSync\<close> change the disk or throw,
  \<open>path.join\<close> is a function of its arguments. \<open>listSkills\<close> (the loader) scans the two
  skill directories and is taken as a function of the disk; \<open>'sk\<close> is the type of
  skill metadata. Every call that changes the disk is logged.
\<close>

record ('fs, 'sk) node_api =
  existsSync :: "'fs \<Rightarrow> string \<Rightarrow> bool"
  mkdirSync :: "string \<Rightarrow> 'fs \<Rightarrow> js_exn + 'fs"
  writeFileSync :: "string \<Rightarrow> string \<Rightarrow> 'fs \<Rightarrow> js_exn + 'fs"
  path_join :: "string \<Rightarrow> string \<Rightarrow> string"
  listSkills :: "'fs \<Rightarrow> string \<Rightarrow> string option \<Rightarrow> 'sk list"

datatype fs_op = Mkdir string | WriteFile string string

record skills_config =
  userSkillsDir :: string
  projectSkillsDir :: "string option"

record ('fs, 'sk) skills_state =
  st_config :: skills_config
  st_skills :: "'sk list"
  disk :: "'fs"
  fs_ops :: "fs_op list"

subsection \<open>The \<open>SKILL.md\<close> template\<close>

definition template_0 :: string where
  "template_0 =
     ''---'' @ utf8 ''0A'' @ ''name: ''"

definition template_1 :: string where
  "template_1 =
     utf8 ''0A'' @ ''description: ''"

definition template_2 :: string where
  "template_2 =
     utf8 ''0A'' @ ''---'' @ utf8 ''0A0A'' @ ''# ''"

definition template_3 :: string where
  "template_3 =
     '' '' @ utf8 ''E68A80E883BD0A0A'' @ ''## '' @ utf8 ''E68F8FE8BFB00A0A''"

definition template_4 :: string where
  "template_4 =
     utf8 ''0A0A'' @ ''## '' @ utf8 ''E4BDBFE794A8E59CBAE699AF0A0A'' @ ''- ['' @
     utf8 ''E59CBAE699AF'' @ '' 1: '' @ utf8 ''E5BD93E794A8E688B7E8A681E6B182'' @ ''...]'' @
     utf8 ''0A'' @ ''- ['' @ utf8 ''E59CBAE699AF'' @ '' 2: '' @
     utf8 ''E5BD93E99C80E8A681'' @ ''...]'' @ utf8 ''0A0A'' @ ''## '' @
     utf8 ''E4BDBFE794A8E696B9E6B3950A0A'' @ ''### '' @ utf8 ''E6ADA5E9AAA4'' @ '' 1: ['' @
     utf8 ''E7ACACE4B880E6ADA5'' @ '']'' @ utf8 ''0A'' @ ''['' @
     utf8 ''E8AFB4E6988EE7ACACE4B880E6ADA5E8A681E5819AE4BB80E4B988'' @ '']'' @
     utf8 ''0A0A'' @ ''### '' @ utf8 ''E6ADA5E9AAA4'' @ '' 2: ['' @
     utf8 ''E7ACACE4BA8CE6ADA5'' @ '']'' @ utf8 ''0A'' @ ''['' @
     utf8 ''E8AFB4E6988EE7ACACE4BA8CE6ADA5E8A681E5819AE4BB80E4B988'' @ '']'' @
     utf8 ''0A0A'' @ ''## '' @ utf8 ''E69C80E4BDB3E5AE9EE8B7B50A0A'' @ ''- ['' @
     utf8 ''E69C80E4BDB3E5AE9EE8B7B5'' @ '' 1]'' @ utf8 ''0A'' @ ''- ['' @
     utf8 ''E69C80E4BDB3E5AE9EE8B7B5'' @ '' 2]'' @ utf8 ''0A0A'' @ ''## '' @
     utf8 ''E7A4BAE4BE8B0A0A'' @ ''### '' @ utf8 ''E7A4BAE4BE8B'' @ '' 1'' @ utf8 ''0A0A'' @
     ''**'' @ utf8 ''E794A8E688B7E8AFB7E6B182'' @ '':** '' @ utf8 ''22'' @ ''['' @
     utf8 ''E7A4BAE4BE8BE8AFB7E6B182'' @ '']'' @ utf8 ''220A0A'' @ ''**'' @
     utf8 ''E696B9E6B395'' @ '':**'' @ utf8 ''0A'' @ ''1. ['' @
     utf8 ''E58886E6ADA5E9AAA4E8AFB4E6988E'' @ '']'' @ utf8 ''0A'' @ ''2. ['' @
     utf8 ''E4BDBFE794A8E79A84E5B7A5E585B7E5928CE591BDE4BBA4'' @ '']'' @ utf8 ''0A'' @
     ''3. ['' @ utf8 ''E9A284E69C9FE7BB93E69E9C'' @ '']'' @ utf8 ''0A0A''"

definition template_5 :: string where
  "template_5 =
     utf8 ''0A''"

definition custom_heading :: string where
  "custom_heading =
     utf8 ''0A'' @ ''## '' @ utf8 ''E887AAE5AE9AE4B989E58685E5AEB90A0A''"

definition exists_head :: string where
  "exists_head =
     utf8 ''E68A80E883BD'' @ '' '' @ utf8 ''22''"

definition exists_mid :: string where
  "exists_mid =
     utf8 ''22'' @ '' '' @ utf8 ''E5B7B2E5AD98E59CA8E4BA8E'' @ '' ''"

definition created_head :: string where
  "created_head =
     utf8 ''E68A80E883BD'' @ '' '' @ utf8 ''22''"

definition created_tail :: string where
  "created_tail =
     utf8 ''22'' @ '' '' @ utf8 ''E5889BE5BBBAE68890E58A9F''"

text \<open>
  The heading: \<open>name.split('-').map(w => w.charAt(0).toUpperCase() + w.slice(1)).join(' ')\<close>.
  The name has passed validation, so its letters are ASCII.
\<close>

fun split_on :: "char \<Rightarrow> string \<Rightarrow> string list" where
  "split_on sep [] = [[]]"
| "split_on sep (c # cs) =
     (if c = sep then [] # split_on sep cs
      else (case split_on sep cs of
              w # ws \<Rightarrow> (c # w) # ws
            | [] \<Rightarrow> [[c]]))"

definition upper_char :: "char \<Rightarrow> char" where
  "upper_char c =
     (if c \<in> set ''abcdefghijklmnopqrstuvwxyz'' then char_of (of_char c - (32 :: nat)) else c)"

definition capitalize :: "string \<Rightarrow> string" where
  "capitalize w = (case w of [] \<Rightarrow> [] | c # cs \<Rightarrow> upper_char c # cs)"

definition skill_title :: "string \<Rightarrow> string" where
  "skill_title name = join '' '' (map capitalize (split_on CHR ''-'' name))"

definition skill_template :: "string \<Rightarrow> string \<Rightarrow> string option \<Rightarrow> string" where
  "skill_template name description custom =
     template_0 @ name @ template_1 @ description @ template_2 @ skill_title name
       @ template_3 @ description @ template_4
       @ (case custom of
            None \<Rightarrow> []
          | Some c \<Rightarrow> if c \<noteq> [] then custom_heading @ c else [])
       @ template_5"

subsection \<open>\<open>createSkill\<close>\<close>

text \<open>
  \<open>projectLevel && this.config.projectSkillsDir ? this.config.projectSkillsDir :
  this.config.userSkillsDir\<close>, and the skill directory under it.
\<close>

definition target_dir :: "skills_config \<Rightarrow> bool option \<Rightarrow> string" where
  "target_dir cfg projectLevel =
     (case projectSkillsDir cfg of
        Some d \<Rightarrow> if projectLevel = Some True \<and> d \<noteq> [] then d else userSkillsDir cfg
      | None \<Rightarrow> userSkillsDir cfg)"

definition skill_dir ::
  "('fs, 'sk) node_api \<Rightarrow> ('fs, 'sk) skills_state \<Rightarrow> string \<Rightarrow> bool option \<Rightarrow> string" where
  "skill_dir api st name projectLevel =
     path_join api (target_dir (st_config st) projectLevel) name"

definition rejection :: "string option \<Rightarrow> json" where
  "rejection e =
     JObj ((''success'', JBool False) # (case e of Some m \<Rightarrow> [(''error'', JStr m)] | None \<Rightarrow> []))"

text \<open>
  \<open>custom\<close> is the optional \<open>content\<close> argument. Nothing catches what \<open>mkdirSync\<close>
  or \<open>writeFileSync\<close> throw. After the file is written the manager reloads its skills
  from the disk.
\<close>

definition createSkill ::
  "('fs, 'sk) node_api \<Rightarrow> ('fs, 'sk) skills_state \<Rightarrow> string \<Rightarrow> string \<Rightarrow> string option \<Rightarrow>
     bool option \<Rightarrow> (js_exn + json) \<times> ('fs, 'sk) skills_state" where
  "createSkill api st name description custom projectLevel =
     (if \<not> valid (validateSkillName name)
        then (Inr (rejection (v_error (validateSkillName name))), st)
      else if existsSync api (disk st) (skill_dir api st name projectLevel)
        then (Inr (rejection (Some (exists_head @ name @ exists_mid
                                      @ skill_dir api st name projectLevel))), st)
      else
        (case mkdirSync api (skill_dir api st name projectLevel) (disk st) of
           Inl e \<Rightarrow>
             (Inl e, st\<lparr>fs_ops := fs_ops st @ [Mkdir (skill_dir api st name projectLevel)]\<rparr>)
         | Inr disk1 \<Rightarrow>
             (case writeFileSync api
                     (path_join api (skill_dir api st name projectLevel) ''SKILL.md'')
                     (skill_template name description custom) disk1 of
                Inl e \<Rightarrow>
                  (Inl e,
                   st\<lparr>disk := disk1,
                      fs_ops := fs_ops st @
                        [Mkdir (skill_dir api st name projectLevel),
                         WriteFile (path_join api (skill_dir api st name projectLevel) ''SKILL.md'')
                           (skill_template name description custom)]\<rparr>)
              | Inr disk2 \<Rightarrow>
                  (Inr (JObj [(''success'', JBool True),
                              (''message'', JStr (created_head @ name @ created_tail)),
                              (''path'', JStr (path_join api
                                 (skill_dir api st name projectLevel) ''SKILL.md'')),
                              (''skillDir'', JStr (skill_dir api st name projectLevel))]),
                   st\<lparr>disk := disk2,
                      fs_ops := fs_ops st @
                        [Mkdir (skill_dir api st name projectLevel),
                         WriteFile (path_join api (skill_dir api st name projectLevel) ''SKILL.md'')
                           (skill_template name description custom)],
                      st_skills := listSkills api disk2 (userSkillsDir (st_config st))
                                  (projectSkillsDir (st_config st))\<rparr>))))"

section \<open>The agent tools of the server (\<open>collaborativeTask\<close>)\<close>

text \<open>
  \<open>activeAgentInfo\<close> is a variable of the server module; the tool assigns it on entry
  and again on each exit, so the value left behind is the one of the exit taken.
\<close>

record agent_info =
  info_name :: string
  info_status :: string
  info_task :: "string option"

definition status_text :: "task_status \<Rightarrow> string" where
  "status_text s =
     (case s of
        Pending \<Rightarrow> ''pending''
      | InProgress \<Rightarrow> ''in-progress''
      | Completed \<Rightarrow> ''completed''
      | Failed \<Rightarrow> ''failed'')"

text \<open>
  One row of the reported plan:
  \<open>{agent: agentConfigs[t.assignedAgent]?.displayName || t.assignedAgent,
  task: t.description, status: t.status}\<close>.
\<close>

definition plan_row :: "collaboration_task \<Rightarrow> json" where
  "plan_row t =
     JObj [(''agent'', JStr (display_name (t_assignedAgent t))),
           (''task'', JStr (t_description t)),
           (''status'', JStr (status_text (t_status t)))]"

text \<open>
  The \<open>execute\<close> of \<open>collaborativeTask\<close>. \<open>getAllMCPTools\<close> resolves to a tool set
  (what loading throws is caught inside it); that set is \<open>mcpToolsForAgents\<close>. The
  \<open>catch\<close> block records the error state and throws the error again.
\<close>

definition collaborativeTask_execute ::
  "('t, 'p) env \<Rightarrow> (string \<rightharpoonup> 't) \<Rightarrow> (string \<rightharpoonup> 't) \<Rightarrow> string \<Rightarrow> ('t, 'p) world \<Rightarrow>
     (js_exn + json) \<times> agent_info \<times> ('t, 'p) world" where
  "collaborativeTask_execute env self_mcpTools mcpToolsForAgents task w =
     (case orchestrate env self_mcpTools task mcpToolsForAgents w of
        (Inr result, w') \<Rightarrow>
          (Inr (JObj [(''success'', JBool True),
                      (''tasksExecuted'', JNum (of_nat (length (plan result)))),
                      (''plan'', JArr (map plan_row (plan result))),
                      (''summary'', JStr (summary result))]),
           \<lparr>info_name = ''Orchestrator'', info_status = ''completed'', info_task = None\<rparr>,
           w')
      | (Inl error, w') \<Rightarrow>
          (Inl error,
           \<lparr>info_name = ''Orchestrator'', info_status = ''error'', info_task = None\<rparr>,
           w'))"

section \<open>Test doubles\<close>

text \<open>
  A provider stub. On the planning request (the one with step budget 5) it reports
  three \<open>delegateToAgent\<close> calls, to \<open>refactorer\<close>, \<open>code-analyzer\<close> and
  \<open>refactorer\<close> again, each with its own task and context, and one call of another
  tool. On every other request it answers with the text of the user message it was
  given and reports no tool calls. Its state counts the requests.
\<close>

definition delegate_call :: "string \<Rightarrow> string \<Rightarrow> string \<Rightarrow> string \<Rightarrow> tool_call" where
  "delegate_call cid agent task ctx =
     \<lparr>toolCallId = cid, toolName = ''delegateToAgent'',
      args = JObj [(''agentName'', JStr agent), (''task'', JStr task), (''context'', JStr ctx)]\<rparr>"

definition stub_plan :: gen_result where
  "stub_plan =
     \<lparr>r_text = [],
      toolCalls = Some
        [delegate_call ''c1'' ''refactorer'' ''rename x'' ''file a.ts'',
         \<lparr>toolCallId = ''c2'', toolName = ''getAvailableAgents'', args = JObj []\<rparr>,
         delegate_call ''c3'' ''code-analyzer'' ''review'' ''file a.ts'',
         delegate_call ''c4'' ''refactorer'' ''inline y'' ''file b.ts''],
      toolResults = Some [], steps = None, finishReason = ''tool-calls''\<rparr>"

definition user_text :: "'t gen_request \<Rightarrow> string" where
  "user_text req =
     (case messages req of
        [m] \<Rightarrow> (case content m of JStr s \<Rightarrow> s | _ \<Rightarrow> [])
      | _ \<Rightarrow> [])"

definition stub_generateText :: "'t gen_request \<Rightarrow> nat \<Rightarrow> gen_behaviour \<times> nat" where
  "stub_generateText req n =
     (if maxSteps req = 5
      then (\<lparr>delivered = [], outcome = Inr stub_plan\<rparr>, Suc n)
      else (\<lparr>delivered = [],
             outcome = Inr \<lparr>r_text = user_text req, toolCalls = Some [], toolResults = Some [],
                            steps = None, finishReason = ''stop''\<rparr>\<rparr>, Suc n))"

definition stub_env :: "('t, nat) env" where
  "stub_env = \<lparr>getLLM = Inr ''stub-model'', generateText = stub_generateText\<rparr>"

definition fresh_world :: "('t, nat) world" where
  "fresh_world = \<lparr>calls = [], pstate = 0\<rparr>"

text \<open>
  A provider stub that reports one \<open>readFile\<close> call and the tool's answer to it; the
  answer differs from the arguments.
\<close>

definition reader_result :: gen_result where
  "reader_result =
     \<lparr>r_text = ''done'',
      toolCalls = Some
        [\<lparr>toolCallId = ''t1'', toolName = ''readFile'',
          args = JObj [(''path'', JStr ''a.ts'')]\<rparr>],
      toolResults = Some
        [\<lparr>tr_toolCallId = ''t1'', tr_toolName = ''readFile'',
          tr_result = Some (JObj [(''content'', JStr ''let x = 1'')])\<rparr>],
      steps = None, finishReason = ''stop''\<rparr>"

definition reader_env :: "('t, nat) env" where
  "reader_env =
     \<lparr>getLLM = Inr ''stub-model'',
      generateText = (\<lambda>req n. (\<lparr>delivered = [], outcome = Inr reader_result\<rparr>, Suc n))\<rparr>"

text \<open>
  A provider that hands one step to the callback (some text, one tool call and its
  result) and then fails, and a model round that asks for another tool call whatever it
  is given.
\<close>

definition ping_step :: step where
  "ping_step =
     \<lparr>stepType = ''tool-result'', step_text = ''reading'',
      step_toolCalls = Some
        [\<lparr>toolCallId = ''t1'', toolName = ''readFile'',
          args = JObj [(''path'', JStr ''a.ts'')]\<rparr>],
      step_toolResults = Some
        [\<lparr>tr_toolCallId = ''t1'', tr_toolName = ''readFile'',
          tr_result = Some (JObj [(''success'', JBool False)])\<rparr>]\<rparr>"

definition failing_env :: "('t, nat) env" where
  "failing_env =
     \<lparr>getLLM = Inr ''stub-model'',
      generateText =
        (\<lambda>req n. (\<lparr>delivered = [ping_step], outcome = Inl (JsError ''rate limited'')\<rparr>, Suc n))\<rparr>"

definition looping_model :: "'t gen_request \<Rightarrow> step list \<Rightarrow> js_exn + step" where
  "looping_model req sts = Inr ping_step"

definition fresh_sink :: sink where
  "fresh_sink = \<lparr>headers = [], headersFlushed = False, written = [], ended = 0\<rparr>"

text \<open>The two schemas of the spec's example, and one of an unrecognized kind.\<close>

definition path_schema :: json where
  "path_schema =
     JObj [(''type'', JStr ''object''),
           (''properties'', JObj [(''path'', JObj [(''type'', JStr ''string'')])]),
           (''required'', JArr [JStr ''path''])]"

definition numbers_schema :: json where
  "numbers_schema = JObj [(''type'', JStr ''array''), (''items'', JObj [(''type'', JStr ''number'')])]"

definition null_kind_schema :: json where
  "null_kind_schema =
     JObj [(''type'', JStr ''null''),
           (''properties'', JObj [(''path'', JObj [(''type'', JStr ''string'')])])]"

text \<open>
  Two connected sources, \<open>a_b\<close> and \<open>a\<close>, that both expose \<open>read\<close>; \<open>a\<close> also
  exposes \<open>b_read\<close>. Client handles are numbers. And two sources \<open>docs\<close> and \<open>git\<close>
  that expose \<open>read\<close> and nothing else.
\<close>

definition plain_tool :: "string \<Rightarrow> mcp_tool" where
  "plain_tool n = \<lparr>mt_name = n, mt_description = None, mt_inputSchema = None\<rparr>"

definition connected_source :: "nat \<Rightarrow> string \<Rightarrow> string list \<Rightarrow> string \<times> nat mcp_instance" where
  "connected_source handle n tool_names =
     (n, \<lparr>mi_client = Some handle, mi_name = n, mi_status = Connected,
          mi_tools = map (\<lambda>t. (t, plain_tool t)) tool_names\<rparr>)"

definition clashing_manager :: "nat mcp_manager" where
  "clashing_manager =
     \<lparr>clients = [connected_source 1 ''a_b'' [''read''],
                 connected_source 2 ''a'' [''read'', ''b_read'']],
      initialized = True\<rparr>"

definition two_readers :: "nat mcp_manager" where
  "two_readers =
     \<lparr>clients = [connected_source 1 ''docs'' [''read''], connected_source 2 ''git'' [''read'']],
      initialized = True\<rparr>"

text \<open>A manager that never connected, and a remote call that always throws.\<close>

definition offline_manager :: "nat mcp_manager" where
  "offline_manager = \<lparr>clients = [], initialized = False\<rparr>"

definition broken_remote :: "nat \<Rightarrow> string \<Rightarrow> json \<Rightarrow> js_exn + json" where
  "broken_remote c t a = Inl (JsError ''connection closed'')"

text \<open>
  A toy disk: the list of the paths that exist. Creating a directory or writing a file
  adds its path; the loader reports the paths.
\<close>

definition toy_api :: "(string list, string) node_api" where
  "toy_api =
     \<lparr>existsSync = (\<lambda>fs p. p \<in> set fs),
      mkdirSync = (\<lambda>p fs. Inr (p # fs)),
      writeFileSync = (\<lambda>p c fs. Inr (p # fs)),
      path_join = (\<lambda>a b. a @ ''/'' @ b),
      listSkills = (\<lambda>fs u p. fs)\<rparr>"

definition toy_state :: "(string list, string) skills_state" where
  "toy_state =
     \<lparr>st_config = \<lparr>userSkillsDir = ''skills'', projectSkillsDir = None\<rparr>,
      st_skills = [''skills/web-research''],
      disk = [''skills/web-research''],
      fs_ops = []\<rparr>"

text \<open>The same platform on a disk that refuses to create directories.\<close>

definition locked_api :: "(string list, string) node_api" where
  "locked_api =
     toy_api\<lparr>mkdirSync := (\<lambda>p fs. Inl (JsError ''EACCES: permission denied, mkdir''))\<rparr>"

section \<open>Properties of the Single-Agent Executor\<close>

lemma executeAgent_returns: "\<exists>r w'. executeAgent env mcpTools n task ctx w = (Inr r, w')"
  by (auto simp: executeAgent_def split: config_value.splits prod.splits sum.splits)

lemma executeAgent_agentName:
  "executeAgent env mcpTools n task ctx w = (Inr r, w') \<Longrightarrow> ar_agentName r = n"
  by (auto simp: executeAgent_def split: config_value.splits prod.splits sum.splits)

text \<open>
  A name that is neither a persona nor a property of \<open>Object.prototype\<close> is refused
  at once: the failure result, and no request to the provider.
\<close>

lemma executeAgent_undefined:
  assumes "agentConfigs_get n = (Undefined :: 't config_value)"
  shows "executeAgent (env :: ('t, 'p) env) mcpTools n task ctx w =
           (Inr \<lparr>ar_agentName = n, ar_success = False, ar_result = [], ar_toolCalls = None,
                 ar_error = Some (agent_not_found_msg @ n)\<rparr>, w)"
  using assms by (simp add: executeAgent_def)

lemma agent_not_found_nonempty: "agent_not_found_msg @ n \<noteq> []"
  by (simp add: agent_not_found_msg_def)

text \<open>
  A successful result comes from the provider's answer to the one request the
  executor sends: the model was built, the request resolved to a result \<open>res\<close>, and
  the tool-call list of the result is \<open>res.toolCalls?.map(...)\<close> with the callback
  \<open>tool_entry_of\<close>.
\<close>

lemma executeAgent_success_provider:
  assumes "executeAgent env mcpTools n task ctx w = (Inr r, w')"
    and "ar_success r"
  shows "\<exists>m b p res.
           getLLM env = Inr m \<and>
           generateText env (agent_request m (agentConfigs_get n) mcpTools task ctx) (pstate w)
             = (b, p) \<and>
           outcome b = Inr res \<and>
           ar_toolCalls r = map_option (map tool_entry_of) (toolCalls res)"
proof -
  let ?config = "agentConfigs_get n :: 'a config_value"
  have defined: "?config \<noteq> Undefined"
    using assms by (auto simp: executeAgent_def)
  obtain out w1 where t: "executeAgent_try env mcpTools ?config task ctx w = (out, w1)"
    by (cases "executeAgent_try env mcpTools ?config task ctx w")
  with assms defined obtain res where out: "out = Inr res"
    and r: "ar_toolCalls r = map_option (map tool_entry_of) (toolCalls res)"
    by (cases out; cases ?config) (auto simp: executeAgent_def)
  from t out obtain m where m: "getLLM env = Inr m"
    by (cases "getLLM env") (auto simp: executeAgent_try_def)
  obtain b p where g: "generateText env (agent_request m ?config mcpTools task ctx) (pstate w)
      = (b, p)"
    by (cases "generateText env (agent_request m ?config mcpTools task ctx) (pstate w)")
  with t out m have "outcome b = Inr res"
    by (simp add: executeAgent_try_def call_generateText_def)
  with m g r show ?thesis
    by blast
qed

text \<open>
  C3. Every successful run of \<open>executeAgent\<close> has sent one request to the provider and
  got a result \<open>res\<close> back, and the returned \<open>toolCalls\<close> is the provider's
  \<open>res.toolCalls\<close> mapped call by call to an entry whose name is the call's tool name
  and whose \<open>args\<close> and \<open>result\<close> are both the call's arguments (absent when the
  provider's list is absent). The provider's \<open>toolResults\<close> are not read.
\<close>

theorem executeAgent_toolCalls_result_is_args:
  assumes "executeAgent env mcpTools n task ctx w = (Inr r, w')"
    and "ar_success r"
  shows "\<exists>m b p res.
           getLLM env = Inr m \<and>
           generateText env (agent_request m (agentConfigs_get n) mcpTools task ctx) (pstate w)
             = (b, p) \<and>
           outcome b = Inr res \<and>
           ar_toolCalls r =
             map_option
               (map (\<lambda>call. \<lparr>te_name = toolName call, te_args = args call,
                              te_result = args call\<rparr>))
               (toolCalls res)"
proof -
  have "tool_entry_of =
          (\<lambda>call. \<lparr>te_name = toolName call, te_args = args call, te_result = args call\<rparr>)"
    by (rule ext) (simp add: tool_entry_of_def)
  with executeAgent_success_provider [OF assms] show ?thesis
    by simp
qed

text \<open>
  The theorem at a provider that reports one \<open>readFile\<close> call on \<open>a.ts\<close> and, as the
  tool's answer, the content of the file: the entry returned has the arguments in its
  \<open>result\<close> field, not the content.
\<close>

theorem executeAgent_toolCalls_result_is_args_witness:
  "executeAgent (reader_env :: (unit, nat) env) Map.empty ''refactorer'' ''tidy a.ts'' None
       fresh_world =
     (Inr \<lparr>ar_agentName = ''refactorer'', ar_success = True, ar_result = ''done'',
           ar_toolCalls = Some
             [\<lparr>te_name = ''readFile'', te_args = JObj [(''path'', JStr ''a.ts'')],
               te_result = JObj [(''path'', JStr ''a.ts'')]\<rparr>],
           ar_error = None\<rparr>,
      \<lparr>calls = [agent_request ''stub-model'' (agentConfigs_get ''refactorer'') Map.empty
                   ''tidy a.ts'' None],
       pstate = 1\<rparr>) \<and>
   toolCalls reader_result =
     Some [\<lparr>toolCallId = ''t1'', toolName = ''readFile'',
            args = JObj [(''path'', JStr ''a.ts'')]\<rparr>] \<and>
   toolResults reader_result =
     Some [\<lparr>tr_toolCallId = ''t1'', tr_toolName = ''readFile'',
            tr_result = Some (JObj [(''content'', JStr ''let x = 1'')])\<rparr>] \<and>
   Some [\<lparr>te_name = ''readFile'', te_args = JObj [(''path'', JStr ''a.ts'')],
          te_result = JObj [(''path'', JStr ''a.ts'')]\<rparr>] =
     map_option
       (map (\<lambda>call. \<lparr>te_name = toolName call, te_args = args call, te_result = args call\<rparr>))
       (toolCalls reader_result)"
proof -
  let ?entries = "Some [\<lparr>te_name = ''readFile'', te_args = JObj [(''path'', JStr ''a.ts'')],
               te_result = JObj [(''path'', JStr ''a.ts'')]\<rparr>]"
  let ?r = "\<lparr>ar_agentName = ''refactorer'', ar_success = True, ar_result = ''done'',
           ar_toolCalls = ?entries, ar_error = None\<rparr>"
  have run: "executeAgent (reader_env :: (unit, nat) env) Map.empty ''refactorer'' ''tidy a.ts''
         None fresh_world =
     (Inr ?r,
      \<lparr>calls = [agent_request ''stub-model'' (agentConfigs_get ''refactorer'') Map.empty
                   ''tidy a.ts'' None],
       pstate = 1\<rparr>)"
    by (simp add: executeAgent_def agentConfigs_get_def agentConfigs_def executeAgent_try_def
        reader_env_def reader_result_def fresh_world_def call_generateText_def tool_entry_of_def)
  have succ: "ar_success ?r"
    by simp
  from executeAgent_toolCalls_result_is_args [OF run succ] obtain m b p res where
    g: "generateText (reader_env :: (unit, nat) env)
          (agent_request m (agentConfigs_get ''refactorer'') Map.empty ''tidy a.ts'' None)
          (pstate (fresh_world :: (unit, nat) world)) = (b, p)"
    and o: "outcome b = Inr res"
    and e: "ar_toolCalls ?r =
      map_option
        (map (\<lambda>call. \<lparr>te_name = toolName call, te_args = args call, te_result = args call\<rparr>))
        (toolCalls res)"
    by blast
  from g have "b = \<lparr>delivered = [], outcome = Inr reader_result\<rparr>"
    by (simp add: reader_env_def)
  with o have res: "res = reader_result"
    by simp
  have calls: "toolCalls reader_result =
        Some [\<lparr>toolCallId = ''t1'', toolName = ''readFile'',
               args = JObj [(''path'', JStr ''a.ts'')]\<rparr>]"
    by (simp add: reader_result_def)
  have answers: "toolResults reader_result =
     Some [\<lparr>tr_toolCallId = ''t1'', tr_toolName = ''readFile'',
            tr_result = Some (JObj [(''content'', JStr ''let x = 1'')])\<rparr>]"
    by (simp add: reader_result_def)
  have entries: "?entries =
     map_option
       (map (\<lambda>call. \<lparr>te_name = toolName call, te_args = args call, te_result = args call\<rparr>))
       (toolCalls reader_result)"
    using e unfolding res by simp
  show ?thesis
    by (intro conjI) (rule run calls answers entries)+
qed

text \<open>
  C4. \<open>constructor\<close> is not a persona of the registry, yet \<open>agentConfigs[''constructor'']\<close>
  reads \<open>Object.prototype.constructor\<close>, which is truthy: the guard \<open>!config\<close> does
  not fire, one request goes to the provider (with no system prompt), and the stub's
  answer comes back as a success.
\<close>

theorem executeAgent_prototype_key_reaches_provider:
  "map_of (agentConfigs :: (string \<times> unit agent_config) list) ''constructor'' = None \<and>
   executeAgent (stub_env :: (unit, nat) env) Map.empty ''constructor'' ''hello'' None fresh_world =
     (Inr \<lparr>ar_agentName = ''constructor'', ar_success = True, ar_result = ''hello'',
           ar_toolCalls = Some [], ar_error = None\<rparr>,
      \<lparr>calls = [agent_request ''stub-model'' Inherited Map.empty ''hello'' None],
       pstate = 1\<rparr>)"
  by (simp add: executeAgent_def agentConfigs_get_def agentConfigs_def object_prototype_keys_def
      executeAgent_try_def stub_env_def fresh_world_def call_generateText_def
      stub_generateText_def agent_request_def user_text_def agent_prompt_def)

section \<open>Properties of the Orchestrator\<close>

text \<open>
  C1. The stub plans three delegations: \<open>refactorer\<close> (rename x, file a.ts),
  \<open>code-analyzer\<close> (review, file a.ts), \<open>refactorer\<close> (inline y, file b.ts). The plan
  lists the three tasks in that order and the executor runs for \<open>refactorer\<close>,
  \<open>code-analyzer\<close>, \<open>refactorer\<close>. The third run, though, is given the task and
  context of the first delegation: the loop looks the delegation up by agent name
  (\<open>delegations.find(d => d.agentName === task.assignedAgent)\<close>), and the first one
  with that name is found. The user message of every request is listed last.
\<close>

theorem orchestrate_repeated_agent_runs_first_delegation:
  "(case orchestrate (stub_env :: (unit, nat) env) Map.empty ''improve the parser'' Map.empty
           fresh_world of
      (Inr out, w) \<Rightarrow>
        (map t_description (plan out), map t_assignedAgent (plan out),
         map (\<lambda>r. (ar_agentName r, ar_result r)) (results out),
         map user_text (calls w))
    | (Inl e, w) \<Rightarrow> ([], [], [], [])) =
   ([''rename x'', ''review'', ''inline y''],
    [''refactorer'', ''code-analyzer'', ''refactorer''],
    [(''refactorer'', agent_prompt ''rename x'' (Some ''file a.ts'')),
     (''code-analyzer'', agent_prompt ''review'' (Some ''file a.ts'')),
     (''refactorer'', agent_prompt ''rename x'' (Some ''file a.ts''))],
    [''improve the parser'',
     agent_prompt ''rename x'' (Some ''file a.ts''),
     agent_prompt ''review'' (Some ''file a.ts''),
     agent_prompt ''rename x'' (Some ''file a.ts'')]) \<and>
   agent_prompt ''rename x'' (Some ''file a.ts'') \<noteq> agent_prompt ''inline y'' (Some ''file b.ts'')"
  by (simp add: orchestrate_def orchestrate_run_def orchestrate_plan_def stub_env_def
      fresh_world_def call_generateText_def stub_generateText_def plan_request_def stub_plan_def
      delegate_call_def extract_delegations_def as_delegation_def str_field_def make_tasks_def
      executeAgent_def agentConfigs_get_def agentConfigs_def executeAgent_try_def
      agent_request_def user_text_def Let_def agent_prompt_def task_label_def)

subsection \<open>The task loop\<close>

lemma task_step_refl: "task_step t t"
  by (simp add: task_step_def status_step_def)

lemma snapshot_step:
  "task_step t t' \<Longrightarrow> list_all2 task_step (finished @ t # rest) (finished @ t' # rest)"
  by (simp add: list_all2_appendI list_all2_refl task_step_refl)

text \<open>
  The loop invariant. Before an iteration the array is \<open>finished @ todo\<close>, the tasks
  still to do are pending and have no result, each of them names the agent of some
  delegation, and the trace so far only made forward steps. Then the loop returns
  normally, and the same holds of the whole trace.
\<close>

lemma run_tasks_invariant:
  assumes "\<forall>t\<in>set todo. t_status t = Pending \<and> t_result t = None"
    and "\<forall>t\<in>set todo. \<exists>d\<in>set ds. d_agentName d = t_assignedAgent t"
    and "trace \<noteq> []" and "last trace = finished @ todo"
    and "successively (list_all2 task_step) trace"
    and "\<forall>snap\<in>set trace. \<forall>t\<in>set snap. result_after_pending t"
    and "map t_status finished = map final_status rs"
    and "map t_result finished = map Some rs"
  shows "\<exists>tasks rs' trace' w'.
           run_tasks env self ds finished todo rs trace w = (Inr (tasks, rs', trace'), w') \<and>
           trace' \<noteq> [] \<and> hd trace' = hd trace \<and> last trace' = tasks \<and>
           successively (list_all2 task_step) trace' \<and>
           (\<forall>snap\<in>set trace'. \<forall>t\<in>set snap. result_after_pending t) \<and>
           map t_status tasks = map final_status rs' \<and>
           map t_result tasks = map Some rs' \<and>
           map t_id tasks = map t_id (finished @ todo) \<and>
           map t_description tasks = map t_description (finished @ todo) \<and>
           map t_assignedAgent tasks = map t_assignedAgent (finished @ todo) \<and>
           map ar_agentName rs' = map ar_agentName rs @ map t_assignedAgent todo"
  using assms
proof (induction todo arbitrary: finished rs trace w)
  case Nil
  then show ?case by simp
next
  case (Cons task rest)
  let ?t1 = "task\<lparr>t_status := InProgress\<rparr>"
  let ?trace1 = "trace @ [finished @ ?t1 # rest]"
  from Cons.prems(2) obtain d where
    d: "find (\<lambda>d. d_agentName d = t_assignedAgent ?t1) ds = Some d"
    by (cases "find (\<lambda>d. d_agentName d = t_assignedAgent ?t1) ds") (auto simp: find_None_iff)
  obtain r w' where
    ex: "executeAgent env self (t_assignedAgent ?t1) (d_task d) (d_context d) w = (Inr r, w')"
    using executeAgent_returns by blast
  have rn: "ar_agentName r = t_assignedAgent task"
    using executeAgent_agentName [OF ex] by simp
  let ?t2 = "?t1\<lparr>t_status := if ar_success r then Completed else Failed\<rparr>"
  let ?t3 = "?t2\<lparr>t_result := Some r\<rparr>"
  let ?trace3 = "?trace1 @ [finished @ ?t2 # rest, finished @ ?t3 # rest]"
  have pend: "t_status task = Pending" "t_result task = None"
    using Cons.prems(1) by auto
  have s1: "task_step task ?t1" by (simp add: task_step_def status_step_def pend)
  have s2: "task_step ?t1 ?t2" by (simp add: task_step_def status_step_def)
  have s3: "task_step ?t2 ?t3" by (simp add: task_step_def status_step_def)
  have succ1: "successively (list_all2 task_step) ?trace1"
    using Cons.prems(3,4,5) snapshot_step [OF s1] by (simp add: successively_append_iff)
  have succ3: "successively (list_all2 task_step) ?trace3"
    using succ1 snapshot_step [OF s2] snapshot_step [OF s3]
    by (simp add: successively_append_iff)
  have lt: "finished @ task # rest \<in> set trace"
    using Cons.prems(3,4) last_in_set [of trace] by simp
  have fin: "\<forall>t\<in>set finished. result_after_pending t"
    using Cons.prems(6) lt by fastforce
  have rst: "\<forall>t\<in>set rest. result_after_pending t"
    using Cons.prems(1) by (simp add: result_after_pending_def)
  have r1: "result_after_pending ?t1" "result_after_pending ?t2" "result_after_pending ?t3"
    by (simp_all add: result_after_pending_def pend)
  have res3: "\<forall>snap\<in>set ?trace3. \<forall>t\<in>set snap. result_after_pending t"
    using Cons.prems(6) fin rst r1 by auto
  have p1: "\<forall>t\<in>set rest. t_status t = Pending \<and> t_result t = None"
    using Cons.prems(1) by simp
  have p2: "\<forall>t\<in>set rest. \<exists>d\<in>set ds. d_agentName d = t_assignedAgent t"
    using Cons.prems(2) by simp
  have p3: "?trace3 \<noteq> []" by simp
  have p4: "last ?trace3 = (finished @ [?t3]) @ rest" by simp
  have p7: "map t_status (finished @ [?t3]) = map final_status (rs @ [r])"
    using Cons.prems(7) by (simp add: final_status_def)
  have p8: "map t_result (finished @ [?t3]) = map Some (rs @ [r])"
    using Cons.prems(8) by simp
  note IH = Cons.IH [OF p1 p2 p3 p4 succ3 res3 p7 p8, of w']
  have h: "hd ?trace3 = hd trace" using Cons.prems(3) by simp
  have eq: "run_tasks env self ds finished (task # rest) rs trace w =
            run_tasks env self ds (finished @ [?t3]) rest (rs @ [r]) ?trace3 w'"
    using d ex by (simp add: Let_def)
  from IH obtain tasks rs' trace' w'' where
    res: "run_tasks env self ds (finished @ [?t3]) rest (rs @ [r]) ?trace3 w' =
       (Inr (tasks, rs', trace'), w'')"
    and props: "trace' \<noteq> []" "hd trace' = hd ?trace3" "last trace' = tasks"
      "successively (list_all2 task_step) trace'"
      "\<forall>snap\<in>set trace'. \<forall>t\<in>set snap. result_after_pending t"
      "map t_status tasks = map final_status rs'" "map t_result tasks = map Some rs'"
    and ident: "map t_id tasks = map t_id ((finished @ [?t3]) @ rest)"
      "map t_description tasks = map t_description ((finished @ [?t3]) @ rest)"
      "map t_assignedAgent tasks = map t_assignedAgent ((finished @ [?t3]) @ rest)"
    and names: "map ar_agentName rs' = map ar_agentName (rs @ [r]) @ map t_assignedAgent rest"
    by blast
  have i1: "map t_id tasks = map t_id (finished @ task # rest)"
    using ident(1) by simp
  have i2: "map t_description tasks = map t_description (finished @ task # rest)"
    using ident(2) by simp
  have i3: "map t_assignedAgent tasks = map t_assignedAgent (finished @ task # rest)"
    using ident(3) by simp
  have i4: "map ar_agentName rs' = map ar_agentName rs @ map t_assignedAgent (task # rest)"
    using names rn by simp
  show ?case
    unfolding eq using res props h i1 i2 i3 i4 by metis
qed

lemma make_tasks_fields:
  "map t_description (make_tasks ds) = map d_task ds"
  "map t_assignedAgent (make_tasks ds) = map d_agentName ds"
  "map t_status (make_tasks ds) = map (\<lambda>d. Pending) ds"
  "map t_result (make_tasks ds) = map (\<lambda>d. None) ds"
  "length (make_tasks ds) = length ds"
proof -
  have a: "\<And>f. map (\<lambda>(i, d). f d) (enumerate 0 ds) = map f ds"
    by (simp add: case_prod_unfold flip: map_map [of _ snd, unfolded comp_def])
  show "map t_description (make_tasks ds) = map d_task ds"
    using a [of d_task] by (simp add: make_tasks_def case_prod_unfold comp_def)
  show "map t_assignedAgent (make_tasks ds) = map d_agentName ds"
    using a [of d_agentName] by (simp add: make_tasks_def case_prod_unfold comp_def)
  show "map t_status (make_tasks ds) = map (\<lambda>d. Pending) ds"
    using a [of "\<lambda>d. Pending"] by (simp add: make_tasks_def case_prod_unfold comp_def)
  show "map t_result (make_tasks ds) = map (\<lambda>d. None) ds"
    using a [of "\<lambda>d. None"] by (simp add: make_tasks_def case_prod_unfold comp_def)
  show "length (make_tasks ds) = length ds"
    by (simp add: make_tasks_def)
qed

lemma make_tasks_pending:
  "\<forall>t\<in>set (make_tasks ds). t_status t = Pending \<and> t_result t = None"
  by (auto simp: make_tasks_def)

lemma make_tasks_agents:
  "\<forall>t\<in>set (make_tasks ds). \<exists>d\<in>set ds. d_agentName d = t_assignedAgent t"
  by (auto simp: make_tasks_def in_set_enumerate_eq)

text \<open>
  The executor runs once per task, in the order of the tasks: the agent names of the
  results are the agent names of the delegations, in extraction order.
\<close>

lemma orchestrate_execution_order:
  assumes "orchestrate_plan env userRequest mcpTools w = (Inr planResult, w1)"
  shows "\<exists>out w'. orchestrate env self userRequest mcpTools w = (Inr out, w') \<and>
           map ar_agentName (results out) = map d_agentName (extract_delegations planResult) \<and>
           map t_assignedAgent (plan out) = map d_agentName (extract_delegations planResult) \<and>
           map t_description (plan out) = map d_task (extract_delegations planResult)"
proof -
  let ?ds = "extract_delegations planResult"
  let ?tasks = "make_tasks ?ds"
  have init: "\<forall>snap\<in>set [?tasks]. \<forall>t\<in>set snap. result_after_pending t"
    using make_tasks_pending [of ?ds] by (simp add: result_after_pending_def)
  have p3: "[?tasks] \<noteq> []" by simp
  have p4: "last [?tasks] = [] @ ?tasks" by simp
  have p5: "successively (list_all2 task_step) [?tasks]" by simp
  have p7: "map t_status [] = map final_status []" by simp
  have p8: "map t_result [] = map Some []" by simp
  note inv = run_tasks_invariant [OF make_tasks_pending make_tasks_agents p3 p4 p5 init p7 p8,
      of env self w1]
  from inv obtain tasks rs trace w' where
    run: "run_tasks env self ?ds [] ?tasks [] [?tasks] w1 = (Inr (tasks, rs, trace), w')"
    and ident: "map t_description tasks = map t_description ?tasks"
      "map t_assignedAgent tasks = map t_assignedAgent ?tasks"
      "map ar_agentName rs = map t_assignedAgent ?tasks"
    by auto
  have "orchestrate_run env self userRequest mcpTools w = (Inr (tasks, rs, trace), w')"
    using assms run by (simp add: orchestrate_run_def Let_def)
  then show ?thesis
    using ident make_tasks_fields(1,2) [of ?ds] by (simp add: orchestrate_def)
qed

text \<open>
  C9. When planning succeeds, the run returns normally. Its trace starts at the new task
  array (every task pending, no result) and ends at the returned plan; between two
  consecutive states every task keeps its id, description and agent, and its status
  stays or moves one stage forward (pending to in-progress, in-progress to completed
  or failed); in every state a task that has a result is no longer pending. The plan
  lists the delegations' tasks in extraction order, and each task ends completed or
  failed as its result says, with that result attached.
\<close>

theorem orchestrate_task_status_forward:
  assumes "orchestrate_plan env userRequest mcpTools w = (Inr planResult, w1)"
  shows "\<exists>tasks rs trace w'.
     orchestrate_run env self userRequest mcpTools w = (Inr (tasks, rs, trace), w') \<and>
     (\<exists>s. orchestrate env self userRequest mcpTools w =
            (Inr \<lparr>plan = tasks, results = rs, summary = s\<rparr>, w')) \<and>
     trace \<noteq> [] \<and> hd trace = make_tasks (extract_delegations planResult) \<and>
     (\<forall>t\<in>set (hd trace). t_status t = Pending \<and> t_result t = None) \<and>
     last trace = tasks \<and>
     successively (list_all2 task_step) trace \<and>
     (\<forall>snap\<in>set trace. \<forall>t\<in>set snap. result_after_pending t) \<and>
     map t_description tasks = map d_task (extract_delegations planResult) \<and>
     map t_assignedAgent tasks = map d_agentName (extract_delegations planResult) \<and>
     map t_status tasks = map final_status rs \<and>
     map t_result tasks = map Some rs"
proof -
  let ?ds = "extract_delegations planResult"
  let ?tasks = "make_tasks ?ds"
  have init: "\<forall>snap\<in>set [?tasks]. \<forall>t\<in>set snap. result_after_pending t"
    using make_tasks_pending [of ?ds] by (simp add: result_after_pending_def)
  have p3: "[?tasks] \<noteq> []" by simp
  have p4: "last [?tasks] = [] @ ?tasks" by simp
  have p5: "successively (list_all2 task_step) [?tasks]" by simp
  have p7: "map t_status [] = map final_status []" by simp
  have p8: "map t_result [] = map Some []" by simp
  note inv = run_tasks_invariant [OF make_tasks_pending make_tasks_agents p3 p4 p5 init p7 p8,
      of env self w1]
  from inv obtain tasks rs trace w' where
    run: "run_tasks env self ?ds [] ?tasks [] [?tasks] w1 = (Inr (tasks, rs, trace), w')"
    and props: "trace \<noteq> []" "hd trace = ?tasks" "last trace = tasks"
      "successively (list_all2 task_step) trace"
      "\<forall>snap\<in>set trace. \<forall>t\<in>set snap. result_after_pending t"
      "map t_status tasks = map final_status rs" "map t_result tasks = map Some rs"
    and ident: "map t_description tasks = map t_description ?tasks"
      "map t_assignedAgent tasks = map t_assignedAgent ?tasks"
    by auto
  have r1: "orchestrate_run env self userRequest mcpTools w = (Inr (tasks, rs, trace), w')"
    using assms run by (simp add: orchestrate_run_def Let_def)
  have r2: "\<exists>s. orchestrate env self userRequest mcpTools w =
            (Inr \<lparr>plan = tasks, results = rs, summary = s\<rparr>, w')"
    using r1 by (simp add: orchestrate_def)
  have pend: "\<forall>t\<in>set (hd trace). t_status t = Pending \<and> t_result t = None"
    using props(2) make_tasks_pending [of ?ds] by simp
  show ?thesis
    using r1 r2 props pend ident make_tasks_fields(1,2) [of ?ds] by auto
qed

theorem orchestrate_task_status_forward_witness:
  "orchestrate_plan (stub_env :: (unit, nat) env) ''improve the parser'' Map.empty fresh_world =
     (Inr stub_plan,
      \<lparr>calls = [plan_request ''stub-model'' ''improve the parser'' Map.empty], pstate = 1\<rparr>) \<and>
   (\<exists>tasks rs trace w'.
      orchestrate_run (stub_env :: (unit, nat) env) Map.empty ''improve the parser'' Map.empty
        fresh_world = (Inr (tasks, rs, trace), w') \<and>
      map (map t_status) trace =
        [[Pending, Pending, Pending],
         [InProgress, Pending, Pending], [Completed, Pending, Pending],
         [Completed, Pending, Pending],
         [Completed, InProgress, Pending], [Completed, Completed, Pending],
         [Completed, Completed, Pending],
         [Completed, Completed, InProgress], [Completed, Completed, Completed],
         [Completed, Completed, Completed]] \<and>
      last trace = tasks \<and>
      successively (list_all2 task_step) trace \<and>
      (\<forall>snap\<in>set trace. \<forall>t\<in>set snap. result_after_pending t) \<and>
      map t_description tasks = [''rename x'', ''review'', ''inline y''] \<and>
      map t_status tasks = map final_status rs \<and>
      map t_result tasks = map Some rs)"
proof -
  have h: "orchestrate_plan (stub_env :: (unit, nat) env) ''improve the parser'' Map.empty
      fresh_world =
     (Inr stub_plan,
      \<lparr>calls = [plan_request ''stub-model'' ''improve the parser'' Map.empty], pstate = 1\<rparr>)"
    by (simp add: orchestrate_plan_def stub_env_def fresh_world_def call_generateText_def
        stub_generateText_def plan_request_def)
  from orchestrate_task_status_forward [OF h, of Map.empty] obtain tasks rs trace w' where
    run: "orchestrate_run (stub_env :: (unit, nat) env) Map.empty ''improve the parser''
        Map.empty fresh_world = (Inr (tasks, rs, trace), w')"
    and props: "last trace = tasks" "successively (list_all2 task_step) trace"
      "\<forall>snap\<in>set trace. \<forall>t\<in>set snap. result_after_pending t"
      "map t_description tasks = map d_task (extract_delegations stub_plan)"
      "map t_status tasks = map final_status rs" "map t_result tasks = map Some rs"
    by blast
  have hist: "map (map t_status) (snd (snd (projr (fst
      (orchestrate_run (stub_env :: (unit, nat) env) Map.empty ''improve the parser''
        Map.empty fresh_world))))) =
        [[Pending, Pending, Pending],
         [InProgress, Pending, Pending], [Completed, Pending, Pending],
         [Completed, Pending, Pending],
         [Completed, InProgress, Pending], [Completed, Completed, Pending],
         [Completed, Completed, Pending],
         [Completed, Completed, InProgress], [Completed, Completed, Completed],
         [Completed, Completed, Completed]]"
    by (simp add: orchestrate_run_def orchestrate_plan_def stub_env_def
      fresh_world_def call_generateText_def stub_generateText_def plan_request_def stub_plan_def
      delegate_call_def extract_delegations_def as_delegation_def str_field_def make_tasks_def
      executeAgent_def agentConfigs_get_def agentConfigs_def executeAgent_try_def
      agent_request_def user_text_def Let_def)
  have descr: "map d_task (extract_delegations stub_plan) = [''rename x'', ''review'', ''inline y'']"
    by (simp add: extract_delegations_def stub_plan_def delegate_call_def as_delegation_def
        str_field_def)
  show ?thesis
    using h run props hist descr by auto
qed

section \<open>Properties of the Multi-Step Chat Loop\<close>

lemma res_write_fields:
  "written (res_write c res) = written res @ [c]" "ended (res_write c res) = ended res"
  by (simp_all add: res_write_def)

lemma written_foldl_write:
  "written (foldl (\<lambda>r x. res_write (f x) r) res xs) = written res @ map f xs"
  by (induction xs arbitrary: res) (simp_all add: res_write_def)

lemma ended_foldl_write:
  "ended (foldl (\<lambda>r x. res_write (f x) r) res xs) = ended res"
  by (induction xs arbitrary: res) (simp_all add: res_write_def)

lemma onStepFinish_written:
  "written (onStepFinish st res) = written res @ step_chunks st"
  by (simp add: onStepFinish_def step_chunks_def Let_def written_foldl_write res_write_fields
      split: option.splits)

lemma onStepFinish_ended: "ended (onStepFinish st res) = ended res"
  by (simp add: onStepFinish_def Let_def ended_foldl_write res_write_fields split: option.splits)

lemma steps_written:
  "written (foldl (\<lambda>r st. onStepFinish st r) res sts) =
     written res @ concat (map step_chunks sts)"
  by (induction sts arbitrary: res) (simp_all add: onStepFinish_written)

lemma steps_ended: "ended (foldl (\<lambda>r st. onStepFinish st r) res sts) = ended res"
  by (induction sts arbitrary: res) (simp_all add: onStepFinish_ended)

lemma write_final_written:
  "written (write_final result res) = written res @ final_chunks result"
  by (simp add: write_final_def final_chunks_def Let_def res_write_fields
      split: option.splits list.splits)

lemma write_final_ended: "ended (write_final result res) = ended res"
  by (simp add: write_final_def Let_def res_write_fields split: option.splits list.splits)

lemma step_chunks_plain:
  "Done \<notin> set (step_chunks st)" "filter is_error (step_chunks st) = []"
  by (auto simp: step_chunks_def is_error_def split: option.splits)

lemma final_chunks_plain:
  "Done \<notin> set (final_chunks r)" "filter is_error (final_chunks r) = []"
  by (auto simp: final_chunks_def is_error_def split: option.splits list.splits)

lemma steps_chunks_plain:
  "Done \<notin> set (concat (map step_chunks sts))"
  "filter is_error (concat (map step_chunks sts)) = []"
  by (induction sts) (auto simp: step_chunks_plain)

text \<open>The sink a call of \<open>handleChat\<close> starts its \<open>try\<close> block with.\<close>

lemma headers_keep_stream:
  "written (flushHeaders (setHeader a b (setHeader c d (setHeader e f (setHeader g h res)))))
     = written res"
  "ended (flushHeaders (setHeader a b (setHeader c d (setHeader e f (setHeader g h res)))))
     = ended res"
  by (simp_all add: flushHeaders_def setHeader_def)

text \<open>What the \<open>try\<close> block leaves in the sink, by the way it ends.\<close>

lemma handleChat_try_getLLM_throws:
  "getLLM env = Inl e \<Longrightarrow> handleChat_try env skills msgs tls res w = (Inl e, res, w)"
  by (simp add: handleChat_try_def)

lemma handleChat_try_provider:
  assumes "getLLM env = Inr m"
    and "generateText env (chat_request m skills msgs tls) (pstate w) = (b, p)"
  shows "\<exists>res' w'. handleChat_try env skills msgs tls res w =
            (map_sum id (\<lambda>r. ()) (outcome b), res', w') \<and>
          ended res' = ended res \<and>
          written res' = written res @ concat (map step_chunks (delivered b))
            @ (case outcome b of Inl e \<Rightarrow> [] | Inr result \<Rightarrow> final_chunks result)"
  using assms
  by (auto simp: handleChat_try_def call_generateText_def Let_def steps_written steps_ended
      write_final_written write_final_ended split: sum.splits)

text \<open>
  C2. \<open>handleChat\<close> always returns normally. It appends to the sink the chunks \<open>evs\<close>
  and then the terminal marker, and calls \<open>res.end\<close> once. The marker occurs once in
  what was appended, as its last chunk. If building the model throws, \<open>evs\<close> is the
  one error event. If the provider throws, \<open>evs\<close> is the chunks of the steps delivered
  before, then the one error event. If the provider returns, \<open>evs\<close> is the chunks of
  the delivered steps and of the final result, without an error event.
\<close>

theorem handleChat_stream_terminated:
  "\<exists>res' w' evs.
     handleChat env skills msgs tls res w = (Inr (), res', w') \<and>
     written res' = written res @ evs @ [Done] \<and>
     Done \<notin> set evs \<and> count_list (evs @ [Done]) Done = 1 \<and> last (evs @ [Done]) = Done \<and>
     ended res' = Suc (ended res) \<and>
     length (filter is_error evs) \<le> 1 \<and>
     (\<forall>e. getLLM env = Inl e \<longrightarrow> evs = [ErrorEvent (exn_message e)]) \<and>
     (\<forall>m b p. getLLM env = Inr m \<and>
         generateText env (chat_request m skills msgs tls) (pstate w) = (b, p) \<longrightarrow>
         (case outcome b of
            Inl e \<Rightarrow> evs = concat (map step_chunks (delivered b)) @ [ErrorEvent (exn_message e)]
          | Inr result \<Rightarrow>
              evs = concat (map step_chunks (delivered b)) @ final_chunks result \<and>
              filter is_error evs = []))"
proof (cases "getLLM env")
  case (Inl e)
  let ?evs = "[ErrorEvent (exn_message e)]"
  have "handleChat env skills msgs tls res w =
      (Inr (), end_response (res_write Done (res_write (ErrorEvent (exn_message e))
         (flushHeaders (setHeader ''X-Accel-Buffering'' ''no''
            (setHeader ''Connection'' ''keep-alive''
              (setHeader ''Cache-Control'' ''no-cache''
                (setHeader ''Content-Type'' ''text/event-stream'' res))))))), w)"
    using Inl by (simp add: handleChat_def Let_def handleChat_try_getLLM_throws)
  then show ?thesis
    using Inl
    by (simp add: end_response_def res_write_fields headers_keep_stream is_error_def)
next
  case (Inr m)
  let ?res0 = "flushHeaders (setHeader ''X-Accel-Buffering'' ''no''
            (setHeader ''Connection'' ''keep-alive''
              (setHeader ''Cache-Control'' ''no-cache''
                (setHeader ''Content-Type'' ''text/event-stream'' res))))"
  obtain b p where g: "generateText env (chat_request m skills msgs tls) (pstate w) = (b, p)"
    by (cases "generateText env (chat_request m skills msgs tls) (pstate w)")
  from handleChat_try_provider [OF Inr g, of ?res0] obtain res1 w' where
    t: "handleChat_try env skills msgs tls ?res0 w = (map_sum id (\<lambda>r. ()) (outcome b), res1, w')"
    and e1: "ended res1 = ended res"
    and w1: "written res1 = written res @ concat (map step_chunks (delivered b))
            @ (case outcome b of Inl e \<Rightarrow> [] | Inr result \<Rightarrow> final_chunks result)"
    by (auto simp: headers_keep_stream)
  show ?thesis
  proof (cases "outcome b")
    case (Inl e)
    have "handleChat env skills msgs tls res w =
        (Inr (), end_response (res_write Done (res_write (ErrorEvent (exn_message e)) res1)), w')"
      using t Inl by (simp add: handleChat_def Let_def)
    then show ?thesis
      using Inr g Inl e1 w1
      by (simp add: end_response_def res_write_fields steps_chunks_plain step_chunks_plain
          count_notin is_error_def)
  next
    case (Inr result)
    have "handleChat env skills msgs tls res w = (Inr (), end_response (res_write Done res1), w')"
      using t Inr by (simp add: handleChat_def Let_def)
    then show ?thesis
      using \<open>getLLM env = Inr m\<close> g Inr e1 w1
      by (simp add: end_response_def res_write_fields steps_chunks_plain step_chunks_plain
          final_chunks_plain count_notin)
  qed
qed

theorem handleChat_stream_terminated_witness:
  "written (fst (snd (handleChat (failing_env :: (unit, nat) env) [] [] Map.empty fresh_sink
       fresh_world))) =
     [TextEvent ''reading'',
      ToolCalling ''readFile'' (JObj [(''path'', JStr ''a.ts'')]),
      ToolCompleted ''readFile'' (Some (JObj [(''success'', JBool False)])),
      ErrorEvent ''rate limited'', Done] \<and>
   ended (fst (snd (handleChat (failing_env :: (unit, nat) env) [] [] Map.empty fresh_sink
       fresh_world))) = 1 \<and>
   fst (handleChat (failing_env :: (unit, nat) env) [] [] Map.empty fresh_sink fresh_world) = Inr ()"
proof -
  have g: "getLLM (failing_env :: (unit, nat) env) = Inr ''stub-model''"
    by (simp add: failing_env_def)
  have b: "generateText (failing_env :: (unit, nat) env)
        (chat_request ''stub-model'' [] [] Map.empty) (pstate (fresh_world :: (unit, nat) world)) =
      (\<lparr>delivered = [ping_step], outcome = Inl (JsError ''rate limited'')\<rparr>, 1)"
    by (simp add: failing_env_def fresh_world_def)
  from handleChat_stream_terminated
    [of "failing_env :: (unit, nat) env" "[]" "[]" Map.empty fresh_sink fresh_world]
  obtain res' w' evs where
    h: "handleChat (failing_env :: (unit, nat) env) [] [] Map.empty fresh_sink fresh_world =
          (Inr (), res', w')"
    and w: "written res' = written fresh_sink @ evs @ [Done]"
    and e: "ended res' = Suc (ended fresh_sink)"
    and c: "\<forall>m b p. getLLM (failing_env :: (unit, nat) env) = Inr m \<and>
         generateText (failing_env :: (unit, nat) env) (chat_request m [] [] Map.empty)
           (pstate (fresh_world :: (unit, nat) world)) = (b, p) \<longrightarrow>
         (case outcome b of
            Inl e \<Rightarrow> evs = concat (map step_chunks (delivered b)) @ [ErrorEvent (exn_message e)]
          | Inr result \<Rightarrow>
              evs = concat (map step_chunks (delivered b)) @ final_chunks result \<and>
              filter is_error evs = [])"
    by blast
  from c g b have "evs = concat (map step_chunks [ping_step]) @ [ErrorEvent ''rate limited'']"
    by fastforce
  then show ?thesis
    using h w e by (simp add: step_chunks_def ping_step_def fresh_sink_def)
qed

section \<open>The step ceilings\<close>

text \<open>
  The loop runs the model at most \<open>budget\<close> times, whatever the model does; under a
  model that always asks for another tool call it runs it exactly \<open>budget\<close> times and
  then returns a result.
\<close>

lemma sdk_loop_count_always:
  assumes "always_requests_tool model_step"
  shows "snd (sdk_loop model_step req budget sts n) = n + budget \<and>
         (\<exists>r. outcome (fst (sdk_loop model_step req budget sts n)) = Inr r) \<and>
         length (delivered (fst (sdk_loop model_step req budget sts n))) = length sts + budget"
proof (induction budget arbitrary: sts n)
  case 0
  then show ?case by simp
next
  case (Suc budget)
  from assms obtain st where "model_step req sts = Inr st" "wants_more st"
    unfolding always_requests_tool_def by blast
  then show ?case using Suc [of "sts @ [st]" "Suc n"] by simp
qed

lemma sdk_loop_count_bounded:
  "snd (sdk_loop model_step req budget sts n) \<le> n + budget"
proof (induction budget arbitrary: sts n)
  case 0
  then show ?case by simp
next
  case (Suc budget)
  show ?case
  proof (cases "model_step req sts")
    case (Inl e)
    then show ?thesis by simp
  next
    case (Inr st)
    then show ?thesis using Suc [of "sts @ [st]" "Suc n"] by simp
  qed
qed

lemma sdk_generateText_always:
  assumes "always_requests_tool model_step"
  shows "\<exists>b. generateText (sdk_env m model_step) req n = (b, n + maxSteps req) \<and>
             (\<exists>r. outcome b = Inr r)"
  using sdk_loop_count_always [OF assms, of req "maxSteps req" "[]" n]
  by (cases "sdk_loop model_step req (maxSteps req) [] n")
     (auto simp: sdk_env_def sdk_generateText_def)

text \<open>
  C5. Under a model that always asks for another tool call, with the provider's loop as
  modelled above: a run of the Single-Agent Executor for a name that passes its guard
  makes exactly 3 model rounds and returns a success; the Orchestrator's planning call
  makes exactly 5 and returns the plan result; the chat loop makes exactly 10, returns,
  and writes no error event. The ceilings are the \<open>maxSteps\<close> values the source passes.
\<close>

theorem step_ceilings_reached:
  assumes "always_requests_tool (model_step :: 't gen_request \<Rightarrow> step list \<Rightarrow> js_exn + step)"
  shows "(agentConfigs_get agentName \<noteq> (Undefined :: 't config_value) \<longrightarrow>
           (\<exists>r w'. executeAgent (sdk_env m model_step) mcpTools agentName task ctx w = (Inr r, w') \<and>
                    ar_success r \<and> pstate w' = pstate w + 3)) \<and>
         (\<exists>planResult w'.
            orchestrate_plan (sdk_env m model_step) userRequest planTools w = (Inr planResult, w') \<and>
            pstate w' = pstate w + 5) \<and>
         (\<exists>res' w'.
            handleChat (sdk_env m model_step) skills msgs tls res w = (Inr (), res', w') \<and>
            pstate w' = pstate w + 10 \<and> filter is_error (written res') = filter is_error (written res))"
proof (intro conjI impI)
  assume known: "agentConfigs_get agentName \<noteq> (Undefined :: 't config_value)"
  let ?req = "agent_request m (agentConfigs_get agentName) mcpTools task ctx"
  from sdk_generateText_always [OF assms, of m ?req "pstate w"] obtain b r where
    "generateText (sdk_env m model_step) ?req (pstate w) = (b, pstate w + maxSteps ?req)"
    "outcome b = Inr r"
    by blast
  then show "\<exists>r w'. executeAgent (sdk_env m model_step) mcpTools agentName task ctx w = (Inr r, w') \<and>
                    ar_success r \<and> pstate w' = pstate w + 3"
    using known
    by (cases "agentConfigs_get agentName :: 't config_value")
       (auto simp: executeAgent_def executeAgent_try_def call_generateText_def sdk_env_def
          agent_request_def)
next
  let ?req = "plan_request m userRequest planTools"
  from sdk_generateText_always [OF assms, of m ?req "pstate w"] obtain b r where
    "generateText (sdk_env m model_step) ?req (pstate w) = (b, pstate w + maxSteps ?req)"
    "outcome b = Inr r"
    by blast
  then show "\<exists>planResult w'.
            orchestrate_plan (sdk_env m model_step) userRequest planTools w = (Inr planResult, w') \<and>
            pstate w' = pstate w + 5"
    by (auto simp: orchestrate_plan_def call_generateText_def sdk_env_def plan_request_def)
next
  let ?req = "chat_request m skills msgs tls"
  from sdk_generateText_always [OF assms, of m ?req "pstate w"] obtain b r where
    g: "generateText (sdk_env m model_step) ?req (pstate w) = (b, pstate w + maxSteps ?req)"
    and o: "outcome b = Inr r"
    by blast
  have m: "getLLM (sdk_env m model_step) = Inr m" by (simp add: sdk_env_def)
  let ?res0 = "flushHeaders (setHeader ''X-Accel-Buffering'' ''no''
            (setHeader ''Connection'' ''keep-alive''
              (setHeader ''Cache-Control'' ''no-cache''
                (setHeader ''Content-Type'' ''text/event-stream'' res))))"
  have t: "handleChat_try (sdk_env m model_step) skills msgs tls ?res0 w =
      (Inr (), write_final r (foldl (\<lambda>r st. onStepFinish st r) ?res0 (delivered b)),
       w\<lparr>calls := calls w @ [?req], pstate := pstate w + maxSteps ?req\<rparr>)"
    using g o m by (simp add: handleChat_try_def call_generateText_def Let_def)
  show "\<exists>res' w'.
            handleChat (sdk_env m model_step) skills msgs tls res w = (Inr (), res', w') \<and>
            pstate w' = pstate w + 10 \<and> filter is_error (written res') = filter is_error (written res)"
    using t
    by (simp add: handleChat_def Let_def chat_request_def end_response_def res_write_fields
        write_final_written steps_written headers_keep_stream steps_chunks_plain
        final_chunks_plain is_error_def)
qed

theorem step_ceilings_reached_witness:
  "always_requests_tool (looping_model :: unit gen_request \<Rightarrow> step list \<Rightarrow> js_exn + step) \<and>
   agentConfigs_get ''refactorer'' \<noteq> (Undefined :: unit config_value) \<and>
   (\<exists>r w'. executeAgent (sdk_env ''stub-model'' looping_model) Map.empty ''refactorer''
              ''tidy a.ts'' None (fresh_world :: (unit, nat) world) = (Inr r, w') \<and>
            ar_success r \<and> pstate w' = 3) \<and>
   (\<exists>planResult w'.
      orchestrate_plan (sdk_env ''stub-model'' looping_model) ''improve the parser'' Map.empty
        (fresh_world :: (unit, nat) world) = (Inr planResult, w') \<and> pstate w' = 5) \<and>
   (\<exists>res' w'.
      handleChat (sdk_env ''stub-model'' looping_model) [] [] Map.empty fresh_sink
        (fresh_world :: (unit, nat) world) = (Inr (), res', w') \<and> pstate w' = 10)"
proof -
  have a: "always_requests_tool (looping_model :: unit gen_request \<Rightarrow> step list \<Rightarrow> js_exn + step)"
    by (simp add: always_requests_tool_def looping_model_def wants_more_def ping_step_def)
  have k: "agentConfigs_get ''refactorer'' \<noteq> (Undefined :: unit config_value)"
    by (simp add: agentConfigs_get_def agentConfigs_def)
  from step_ceilings_reached [OF a, of "''refactorer''" "''stub-model''" Map.empty "''tidy a.ts''"
      None fresh_world "''improve the parser''" Map.empty "[]" "[]" Map.empty fresh_sink]
  show ?thesis
    using a k by (auto simp: fresh_world_def)
qed

section \<open>Properties of the schema translation\<close>

text \<open>
  The loop over the entries of \<open>properties\<close>. When the keys are distinct and every
  entry has a validator, the loop returns, and the shape holds under each key other
  than \<open>__proto__\<close> the validator of its entry; what the shape held under other keys
  stays.
\<close>

lemma build_shape_fields:
  assumes "distinct (map fst es)"
    and "\<forall>(k, p)\<in>set es. field_validator schema k p \<noteq> None"
  shows "\<exists>shape'. build_shape schema es shape = Inr shape' \<and>
           (\<forall>k. map_of shape' k =
              (case map_of es k of
                 Some p \<Rightarrow> if k = ''__proto__'' then map_of shape k else field_validator schema k p
               | None \<Rightarrow> map_of shape k))"
  using assms
proof (induction es arbitrary: shape)
  case Nil
  then show ?case by simp
next
  case (Cons e es)
  obtain key p where e: "e = (key, p)" by (cases e)
  from Cons.prems(2) e obtain z req where
    z: "jsonSchemaToZod p = Inr z" and r: "required_includes schema key = Inr req"
    by (auto simp: field_validator_def split: sum.splits)
  let ?v = "if req then z else ZOptional z"
  have fv: "field_validator schema key p = Some ?v"
    using z r by (simp add: field_validator_def)
  have d: "distinct (map fst es)" and nk: "map_of es key = None"
    using Cons.prems(1) e by (auto simp: map_of_eq_None_iff)
  have a: "\<forall>(k, p)\<in>set es. field_validator schema k p \<noteq> None"
    using Cons.prems(2) by simp
  from Cons.IH [OF d a, of "shape_assign key ?v shape"] obtain shape' where
    b: "build_shape schema es (shape_assign key ?v shape) = Inr shape'"
    and m: "\<forall>k. map_of shape' k =
              (case map_of es k of
                 Some p \<Rightarrow> if k = ''__proto__'' then map_of (shape_assign key ?v shape) k
                           else field_validator schema k p
               | None \<Rightarrow> map_of (shape_assign key ?v shape) k)"
    by blast
  have step: "build_shape schema (e # es) shape = Inr shape'"
    using e z r b by simp
  have "\<forall>k. map_of shape' k =
              (case map_of (e # es) k of
                 Some p \<Rightarrow> if k = ''__proto__'' then map_of shape k else field_validator schema k p
               | None \<Rightarrow> map_of shape k)"
  proof
    fix k
    show "map_of shape' k =
              (case map_of (e # es) k of
                 Some p \<Rightarrow> if k = ''__proto__'' then map_of shape k else field_validator schema k p
               | None \<Rightarrow> map_of shape k)"
    proof (cases "k = key")
      case True
      then show ?thesis
        using m [rule_format, of k] nk e fv
        by (simp add: shape_assign_def update_conv')
    next
      case False
      then show ?thesis
        using m [rule_format, of k] e
        by (simp add: shape_assign_def update_conv' split: option.splits)
    qed
  qed
  with step show ?case by blast
qed

lemma translate_primitives:
  "get_prop schema ''type'' = Some (JStr ''string'') \<Longrightarrow>
     jsonSchemaToZod schema = Inr (ZString (description_of schema))"
  "get_prop schema ''type'' = Some (JStr ''number'') \<or>
   get_prop schema ''type'' = Some (JStr ''integer'') \<Longrightarrow>
     jsonSchemaToZod schema = Inr (ZNumber (description_of schema))"
  "get_prop schema ''type'' = Some (JStr ''boolean'') \<Longrightarrow>
     jsonSchemaToZod schema = Inr (ZBoolean (description_of schema))"
  by (auto simp: jsonSchemaToZod.simps [of schema] get_prop_def)

lemma translate_array:
  assumes "get_prop schema ''type'' = Some (JStr ''array'')"
  shows "jsonSchemaToZod schema = map_sum id ZArray (jsonSchemaToZod (items_or_default schema))"
    and "\<not> truthy_opt (get_prop schema ''items'') \<Longrightarrow>
           jsonSchemaToZod schema = Inr (ZArray (ZString (JStr [])))"
proof -
  have ne: "schema \<noteq> JNull" using assms by (auto simp: get_prop_def)
  show a: "jsonSchemaToZod schema = map_sum id ZArray (jsonSchemaToZod (items_or_default schema))"
    using assms ne by (simp add: jsonSchemaToZod.simps [of schema] split: sum.splits)
  assume "\<not> truthy_opt (get_prop schema ''items'')"
  then have "items_or_default schema = JObj [(''type'', JStr ''string'')]"
    by (auto simp: items_or_default_def split: option.splits)
  then show "jsonSchemaToZod schema = Inr (ZArray (ZString (JStr [])))"
    using a
    by (simp add: jsonSchemaToZod.simps [of "JObj [(''type'', JStr ''string'')]"] get_prop_def
        description_of_def)
qed

lemma translate_object:
  assumes "get_prop schema ''type'' = Some (JStr ''object'') \<or>
           (\<not> kind_recognized schema \<and> truthy_opt (get_prop schema ''properties''))"
    and "distinct (map fst (property_entries schema))"
    and "\<forall>(k, p)\<in>set (property_entries schema). field_validator schema k p \<noteq> None"
  shows "\<exists>shape. jsonSchemaToZod schema = Inr (ZObject shape) \<and>
           (\<forall>k. map_of shape k =
              (case map_of (property_entries schema) k of
                 Some p \<Rightarrow> if k = ''__proto__'' then None else field_validator schema k p
               | None \<Rightarrow> None))"
proof -
  from build_shape_fields [OF assms(2,3), of "[]"] obtain shape where
    b: "build_shape schema (property_entries schema) [] = Inr shape"
    and m: "\<forall>k. map_of shape k =
              (case map_of (property_entries schema) k of
                 Some p \<Rightarrow> if k = ''__proto__'' then map_of [] k else field_validator schema k p
               | None \<Rightarrow> map_of [] k)"
    by blast
  have "jsonSchemaToZod schema = Inr (ZObject shape)"
    using assms(1) b
    by (auto simp: jsonSchemaToZod.simps [of schema] kind_recognized_def recognized_kinds_def
        get_prop_def split: option.splits json.splits)
  then show ?thesis using m by (auto split: option.splits)
qed

lemma translate_unrecognized:
  assumes "schema \<noteq> JNull" and "\<not> kind_recognized schema"
    and "\<not> truthy_opt (get_prop schema ''properties'')"
  shows "jsonSchemaToZod schema = Inr ZAny"
  using assms
  by (auto simp: jsonSchemaToZod.simps [of schema] kind_recognized_def recognized_kinds_def)

lemma required_listed:
  "get_prop schema ''required'' = Some (JArr rs) \<Longrightarrow>
     required_includes schema key = Inr (JStr key \<in> set rs)"
  "get_prop schema ''required'' = None \<Longrightarrow> required_includes schema key = Inr False"
  by (simp_all add: required_includes_def)

lemma path_schema_translation:
  "jsonSchemaToZod path_schema = Inr (ZObject [(''path'', ZString (JStr []))])"
  by (simp add: jsonSchemaToZod.simps path_schema_def get_prop_def property_entries_def
      required_includes_def description_of_def shape_assign_def)

lemma numbers_schema_translation:
  "jsonSchemaToZod numbers_schema = Inr (ZArray (ZNumber (JStr [])))"
  by (simp add: jsonSchemaToZod.simps numbers_schema_def get_prop_def items_or_default_def
      description_of_def)

lemma path_validator_accepts:
  "zod_accepts (ZObject [(''path'', ZString d)]) v =
     (\<exists>kv s. v = Some (JObj kv) \<and> map_of kv ''path'' = Some (JStr s))"
  by (auto split: option.splits json.splits)

lemma numbers_validator_accepts:
  "zod_accepts (ZArray (ZNumber d)) v =
     (\<exists>xs. v = Some (JArr xs) \<and> list_all (\<lambda>x. \<exists>n. x = JNum n) xs)"
  by (auto simp: list_all_iff split: option.splits json.splits)

text \<open>
  C6, as amended. For every schema: type \<open>string\<close>, \<open>number\<close> or \<open>integer\<close>, and
  \<open>boolean\<close> give the string, number and boolean validator; type \<open>array\<close> gives the
  array validator of the translated \<open>items\<close>, and of the string validator when \<open>items\<close>
  is missing or falsy; a schema of type \<open>object\<close>, and also a schema of no recognized
  type that has a truthy \<open>properties\<close> member, gives an object validator whose shape
  holds, for each property, the translated property schema, optional unless \<open>required\<close>
  lists the key (this when the keys are distinct and every property translates; the key
  \<open>__proto__\<close> is dropped); every other schema but \<open>null\<close> gives the accept-anything
  validator. The path schema gives a validator that accepts exactly the objects whose
  \<open>path\<close> is a string, so it rejects an object without \<open>path\<close>; the schema of an array
  with number items gives a validator that accepts exactly the arrays of numbers.
\<close>

theorem jsonSchemaToZod_translation:
  "(get_prop schema ''type'' = Some (JStr ''string'') \<longrightarrow>
      jsonSchemaToZod schema = Inr (ZString (description_of schema))) \<and>
   (get_prop schema ''type'' = Some (JStr ''number'') \<or>
    get_prop schema ''type'' = Some (JStr ''integer'') \<longrightarrow>
      jsonSchemaToZod schema = Inr (ZNumber (description_of schema))) \<and>
   (get_prop schema ''type'' = Some (JStr ''boolean'') \<longrightarrow>
      jsonSchemaToZod schema = Inr (ZBoolean (description_of schema))) \<and>
   (get_prop schema ''type'' = Some (JStr ''array'') \<longrightarrow>
      jsonSchemaToZod schema = map_sum id ZArray (jsonSchemaToZod (items_or_default schema)) \<and>
      (\<not> truthy_opt (get_prop schema ''items'') \<longrightarrow>
         jsonSchemaToZod schema = Inr (ZArray (ZString (JStr []))))) \<and>
   ((get_prop schema ''type'' = Some (JStr ''object'') \<or>
     (\<not> kind_recognized schema \<and> truthy_opt (get_prop schema ''properties''))) \<and>
    distinct (map fst (property_entries schema)) \<and>
    (\<forall>(k, p)\<in>set (property_entries schema). field_validator schema k p \<noteq> None) \<longrightarrow>
      (\<exists>shape. jsonSchemaToZod schema = Inr (ZObject shape) \<and>
         (\<forall>k. map_of shape k =
            (case map_of (property_entries schema) k of
               Some p \<Rightarrow> if k = ''__proto__'' then None else field_validator schema k p
             | None \<Rightarrow> None)))) \<and>
   (\<forall>rs. get_prop schema ''required'' = Some (JArr rs) \<longrightarrow>
      required_includes schema key = Inr (JStr key \<in> set rs)) \<and>
   (get_prop schema ''required'' = None \<longrightarrow> required_includes schema key = Inr False) \<and>
   (schema \<noteq> JNull \<and> \<not> kind_recognized schema \<and>
    \<not> truthy_opt (get_prop schema ''properties'') \<longrightarrow>
      jsonSchemaToZod schema = Inr ZAny) \<and>
   jsonSchemaToZod path_schema = Inr (ZObject [(''path'', ZString (JStr []))]) \<and>
   zod_accepts (ZObject [(''path'', ZString (JStr []))]) v =
     (\<exists>kv s. v = Some (JObj kv) \<and> map_of kv ''path'' = Some (JStr s)) \<and>
   \<not> zod_accepts (ZObject [(''path'', ZString (JStr []))]) (Some (JObj [])) \<and>
   jsonSchemaToZod numbers_schema = Inr (ZArray (ZNumber (JStr []))) \<and>
   zod_accepts (ZArray (ZNumber (JStr []))) v =
     (\<exists>xs. v = Some (JArr xs) \<and> list_all (\<lambda>x. \<exists>n. x = JNum n) xs)"
proof (intro conjI)
  show "get_prop schema ''type'' = Some (JStr ''string'') \<longrightarrow>
      jsonSchemaToZod schema = Inr (ZString (description_of schema))"
    using translate_primitives(1) by blast
  show "get_prop schema ''type'' = Some (JStr ''number'') \<or>
    get_prop schema ''type'' = Some (JStr ''integer'') \<longrightarrow>
      jsonSchemaToZod schema = Inr (ZNumber (description_of schema))"
    using translate_primitives(2) by blast
  show "get_prop schema ''type'' = Some (JStr ''boolean'') \<longrightarrow>
      jsonSchemaToZod schema = Inr (ZBoolean (description_of schema))"
    using translate_primitives(3) by blast
  show "get_prop schema ''type'' = Some (JStr ''array'') \<longrightarrow>
      jsonSchemaToZod schema = map_sum id ZArray (jsonSchemaToZod (items_or_default schema)) \<and>
      (\<not> truthy_opt (get_prop schema ''items'') \<longrightarrow>
         jsonSchemaToZod schema = Inr (ZArray (ZString (JStr []))))"
    using translate_array [of schema] by blast
  show "(get_prop schema ''type'' = Some (JStr ''object'') \<or>
     (\<not> kind_recognized schema \<and> truthy_opt (get_prop schema ''properties''))) \<and>
    distinct (map fst (property_entries schema)) \<and>
    (\<forall>(k, p)\<in>set (property_entries schema). field_validator schema k p \<noteq> None) \<longrightarrow>
      (\<exists>shape. jsonSchemaToZod schema = Inr (ZObject shape) \<and>
         (\<forall>k. map_of shape k =
            (case map_of (property_entries schema) k of
               Some p \<Rightarrow> if k = ''__proto__'' then None else field_validator schema k p
             | None \<Rightarrow> None)))"
    using translate_object [of schema] by blast
  show "\<forall>rs. get_prop schema ''required'' = Some (JArr rs) \<longrightarrow>
      required_includes schema key = Inr (JStr key \<in> set rs)"
    using required_listed(1) by blast
  show "get_prop schema ''required'' = None \<longrightarrow> required_includes schema key = Inr False"
    using required_listed(2) by blast
  show "schema \<noteq> JNull \<and> \<not> kind_recognized schema \<and>
    \<not> truthy_opt (get_prop schema ''properties'') \<longrightarrow>
      jsonSchemaToZod schema = Inr ZAny"
    using translate_unrecognized by blast
  show "jsonSchemaToZod path_schema = Inr (ZObject [(''path'', ZString (JStr []))])"
    by (rule path_schema_translation)
  show "zod_accepts (ZObject [(''path'', ZString (JStr []))]) v =
     (\<exists>kv s. v = Some (JObj kv) \<and> map_of kv ''path'' = Some (JStr s))"
    by (rule path_validator_accepts)
  show "\<not> zod_accepts (ZObject [(''path'', ZString (JStr []))]) (Some (JObj []))"
    by simp
  show "jsonSchemaToZod numbers_schema = Inr (ZArray (ZNumber (JStr [])))"
    by (rule numbers_schema_translation)
  show "zod_accepts (ZArray (ZNumber (JStr []))) v =
     (\<exists>xs. v = Some (JArr xs) \<and> list_all (\<lambda>x. \<exists>n. x = JNum n) xs)"
    by (rule numbers_validator_accepts)
qed

theorem jsonSchemaToZod_translation_witness:
  "get_prop path_schema ''type'' = Some (JStr ''object'') \<and>
   distinct (map fst (property_entries path_schema)) \<and>
   list_all (\<lambda>(k, p). field_validator path_schema k p \<noteq> None) (property_entries path_schema) \<and>
   (\<exists>shape. jsonSchemaToZod path_schema = Inr (ZObject shape) \<and>
      map_of shape ''path'' = Some (ZString (JStr [])) \<and> map_of shape ''other'' = None)"
proof -
  have t: "get_prop path_schema ''type'' = Some (JStr ''object'')"
    by (simp add: path_schema_def get_prop_def)
  have e: "property_entries path_schema = [(''path'', JObj [(''type'', JStr ''string'')])]"
    by (simp add: path_schema_def property_entries_def get_prop_def)
  have f: "field_validator path_schema ''path'' (JObj [(''type'', JStr ''string'')]) =
             Some (ZString (JStr []))"
    by (simp add: field_validator_def jsonSchemaToZod.simps get_prop_def description_of_def
        required_includes_def path_schema_def)
  from jsonSchemaToZod_translation [of path_schema] t e f
  obtain shape where
    "jsonSchemaToZod path_schema = Inr (ZObject shape)"
    "\<forall>k. map_of shape k =
        (case map_of (property_entries path_schema) k of
           Some p \<Rightarrow> if k = ''__proto__'' then None else field_validator path_schema k p
         | None \<Rightarrow> None)"
    by auto
  then show ?thesis
    using t e f by (auto simp: list_all_iff)
qed

text \<open>
  The claim as stated fails: \<open>{type: ''null'', properties: {path: {type: ''string''}}}\<close>
  is of no recognized kind, yet it is translated as an object, by the guard
  \<open>type === 'object' || schema.properties\<close>; the validator is not the accept-anything
  one, it rejects a string payload.
\<close>

theorem jsonSchemaToZod_unrecognized_kind_counterexample:
  "\<not> kind_recognized null_kind_schema \<and>
   jsonSchemaToZod null_kind_schema = Inr (ZObject [(''path'', ZOptional (ZString (JStr [])))]) \<and>
   jsonSchemaToZod null_kind_schema \<noteq> Inr ZAny \<and>
   \<not> zod_accepts (ZObject [(''path'', ZOptional (ZString (JStr [])))]) (Some (JStr ''anything'')) \<and>
   zod_accepts ZAny (Some (JStr ''anything''))"
  by (simp add: jsonSchemaToZod.simps null_kind_schema_def get_prop_def property_entries_def
      required_includes_def description_of_def shape_assign_def kind_recognized_def
      recognized_kinds_def)

section \<open>Properties of the tool registry (\<open>getToolsAsAITools\<close>)\<close>

lemma add_client_tools_fold:
  "add_client_tools n c ts reg = foldl add_entry reg (map (\<lambda>(t, d). (n, c, t, d)) ts)"
  by (induction ts arbitrary: reg) (auto simp: add_entry_def)

lemma add_clients_fold:
  "add_clients cs reg = foldl add_entry reg (source_entries cs)"
  by (induction cs arbitrary: reg)
     (auto simp: source_entries_def add_client_tools_fold split: option.splits)

lemma source_entries_iff:
  "(n, c, t, d) \<in> set (source_entries cs) \<longleftrightarrow>
     (\<exists>inst. (n, inst) \<in> set cs \<and> mi_client inst = Some c \<and> mi_status inst = Connected \<and>
             (t, d) \<in> set (mi_tools inst))"
proof (induction cs)
  case Nil
  then show ?case by (simp add: source_entries_def)
next
  case (Cons a cs)
  obtain n' inst' where a: "a = (n', inst')" by (cases a)
  have "source_entries (a # cs) =
          (case mi_client inst' of
             None \<Rightarrow> []
           | Some c \<Rightarrow>
               if mi_status inst' \<noteq> Connected then []
               else map (\<lambda>(tName, toolDef). (n', c, tName, toolDef)) (mi_tools inst'))
          @ source_entries cs"
    using a by (simp add: source_entries_def)
  then show ?case
    using Cons.IH a by (auto split: option.splits if_splits)
qed

lemma add_entry_other:
  "entry_name e \<noteq> k \<Longrightarrow> add_entry reg e k = reg k"
  by (cases e) (auto simp: add_entry_def add_tool_def entry_name_def obj_assign_def split: sum.splits)

lemma fold_entries_other:
  "\<forall>e\<in>set es. entry_name e \<noteq> k \<Longrightarrow> foldl add_entry reg es k = reg k"
  by (induction es arbitrary: reg) (simp_all add: add_entry_other)

lemma add_entry_hit:
  assumes "tool_schema d = Inr z" and "composed_name n t \<noteq> ''__proto__''"
  shows "add_entry reg (n, c, t, d) (composed_name n t) =
           Some \<lparr>at_description = tool_description d t, at_parameters = z, at_client = c,
                 at_toolName = t\<rparr>"
  using assms by (simp add: add_entry_def add_tool_def obj_assign_def)

lemma fold_entries_lookup:
  assumes "(n, c, t, d) \<in> set es" and "tool_schema d = Inr z"
    and "composed_name n t \<noteq> ''__proto__''"
    and "\<forall>e\<in>set es. entry_name e = composed_name n t \<longrightarrow> e = (n, c, t, d)"
  shows "foldl add_entry reg es (composed_name n t) =
           Some \<lparr>at_description = tool_description d t, at_parameters = z, at_client = c,
                 at_toolName = t\<rparr>"
  using assms(1,4)
proof (induction es arbitrary: reg)
  case Nil
  then show ?case by simp
next
  case (Cons e es)
  show ?case
  proof (cases "(n, c, t, d) \<in> set es")
    case True
    then show ?thesis using Cons by simp
  next
    case False
    then have e: "e = (n, c, t, d)" using Cons.prems(1) by simp
    have "\<forall>e'\<in>set es. entry_name e' \<noteq> composed_name n t"
      using Cons.prems(2) False by auto
    then have "foldl add_entry (add_entry reg e) es (composed_name n t) =
                 add_entry reg e (composed_name n t)"
      by (rule fold_entries_other)
    then show ?thesis
      using e add_entry_hit [OF assms(2,3)] by simp
  qed
qed

lemma add_entry_origin:
  "add_entry reg e k = Some tool \<Longrightarrow>
     reg k = Some tool \<or>
     (k = entry_name e \<and> (\<exists>n d. e = (n, at_client tool, at_toolName tool, d)))"
  by (cases e)
     (auto simp: add_entry_def add_tool_def entry_name_def obj_assign_def
        split: sum.splits if_splits)

lemma fold_entries_origin:
  "foldl add_entry reg es k = Some tool \<Longrightarrow>
     reg k = Some tool \<or>
     (\<exists>e\<in>set es. k = entry_name e \<and> (\<exists>n d. e = (n, at_client tool, at_toolName tool, d)))"
proof (induction es arbitrary: reg)
  case Nil
  then show ?case by simp
next
  case (Cons e es)
  from Cons.IH [OF Cons.prems [simplified]] add_entry_origin [of reg e k tool]
  show ?case by auto
qed

lemma read_names_differ: "s1 \<noteq> s2 \<Longrightarrow> composed_name s1 ''read'' \<noteq> composed_name s2 ''read''"
  by (simp add: composed_name_def)

text \<open>
  C8, as amended. Every name of the registry is the composed name
  \<open><source>_<tool>\<close> of a tool of a connected source, and the entry calls that tool
  on that source's client. A tool of a connected source whose schema translates is in
  the registry under its composed name, with its own client and tool name, provided
  that name is not \<open>__proto__\<close> and no other visited tool composes to the same name.
  The composed names of \<open>read\<close> for two distinct sources differ, so neither of the two
  overwrites the other.
\<close>

theorem getToolsAsAITools_composed_names:
  "(\<forall>k tool. getToolsAsAITools mgr k = Some tool \<longrightarrow>
      (\<exists>n inst d. (n, inst) \<in> set (clients mgr) \<and> mi_client inst = Some (at_client tool) \<and>
         mi_status inst = Connected \<and> (at_toolName tool, d) \<in> set (mi_tools inst) \<and>
         k = composed_name n (at_toolName tool))) \<and>
   (\<forall>n inst c t d z.
      (n, inst) \<in> set (clients mgr) \<and> mi_client inst = Some c \<and> mi_status inst = Connected \<and>
      (t, d) \<in> set (mi_tools inst) \<and> tool_schema d = Inr z \<and>
      composed_name n t \<noteq> ''__proto__'' \<and>
      (\<forall>e\<in>set (source_entries (clients mgr)).
         entry_name e = composed_name n t \<longrightarrow> e = (n, c, t, d)) \<longrightarrow>
      getToolsAsAITools mgr (composed_name n t) =
        Some \<lparr>at_description = tool_description d t, at_parameters = z, at_client = c,
              at_toolName = t\<rparr>) \<and>
   (\<forall>s1 s2. s1 \<noteq> s2 \<longrightarrow> composed_name s1 ''read'' \<noteq> composed_name s2 ''read'')"
proof (intro conjI allI impI)
  fix k tool
  assume "getToolsAsAITools mgr k = Some tool"
  then have "foldl add_entry Map.empty (source_entries (clients mgr)) k = Some tool"
    by (simp add: getToolsAsAITools_def add_clients_fold)
  from fold_entries_origin [OF this] obtain n d where
    "(n, at_client tool, at_toolName tool, d) \<in> set (source_entries (clients mgr))"
    "k = composed_name n (at_toolName tool)"
    by (auto simp: entry_name_def)
  then show "\<exists>n inst d. (n, inst) \<in> set (clients mgr) \<and> mi_client inst = Some (at_client tool) \<and>
         mi_status inst = Connected \<and> (at_toolName tool, d) \<in> set (mi_tools inst) \<and>
         k = composed_name n (at_toolName tool)"
    by (auto simp: source_entries_iff)
next
  fix n inst c t d z
  assume a: "(n, inst) \<in> set (clients mgr) \<and> mi_client inst = Some c \<and> mi_status inst = Connected \<and>
      (t, d) \<in> set (mi_tools inst) \<and> tool_schema d = Inr z \<and>
      composed_name n t \<noteq> ''__proto__'' \<and>
      (\<forall>e\<in>set (source_entries (clients mgr)).
         entry_name e = composed_name n t \<longrightarrow> e = (n, c, t, d))"
  then have m: "(n, c, t, d) \<in> set (source_entries (clients mgr))"
    by (auto simp: source_entries_iff)
  show "getToolsAsAITools mgr (composed_name n t) =
        Some \<lparr>at_description = tool_description d t, at_parameters = z, at_client = c,
              at_toolName = t\<rparr>"
    using a m fold_entries_lookup [of n c t d "source_entries (clients mgr)" z Map.empty]
    by (simp add: getToolsAsAITools_def add_clients_fold)
next
  fix s1 s2 :: string
  assume "s1 \<noteq> s2"
  then show "composed_name s1 ''read'' \<noteq> composed_name s2 ''read''"
    by (rule read_names_differ)
qed

theorem getToolsAsAITools_composed_names_witness:
  "source_entries (clients two_readers) =
     [(''docs'', 1, ''read'', plain_tool ''read''), (''git'', 2, ''read'', plain_tool ''read'')] \<and>
   map entry_name (source_entries (clients two_readers)) = [''docs_read'', ''git_read''] \<and>
   getToolsAsAITools two_readers ''docs_read'' =
     Some \<lparr>at_description = ''MCP tool: read'', at_parameters = ZObject [], at_client = 1,
           at_toolName = ''read''\<rparr> \<and>
   getToolsAsAITools two_readers ''git_read'' =
     Some \<lparr>at_description = ''MCP tool: read'', at_parameters = ZObject [], at_client = 2,
           at_toolName = ''read''\<rparr>"
proof -
  have cs: "clients two_readers =
      [(''docs'', \<lparr>mi_client = Some 1, mi_name = ''docs'', mi_status = Connected,
                   mi_tools = [(''read'', plain_tool ''read'')]\<rparr>),
       (''git'', \<lparr>mi_client = Some 2, mi_name = ''git'', mi_status = Connected,
                  mi_tools = [(''read'', plain_tool ''read'')]\<rparr>)]"
    by (simp add: two_readers_def connected_source_def)
  have es: "source_entries (clients two_readers) =
     [(''docs'', 1, ''read'', plain_tool ''read''), (''git'', 2, ''read'', plain_tool ''read'')]"
    by (simp add: cs source_entries_def)
  have ns: "map entry_name (source_entries (clients two_readers)) = [''docs_read'', ''git_read'']"
    by (simp add: es entry_name_def composed_name_def)
  have sch: "tool_schema (plain_tool ''read'') = Inr (ZObject [])"
    by (simp add: tool_schema_def plain_tool_def)
  have d: "tool_description (plain_tool ''read'') ''read'' = ''MCP tool: read''"
    by (simp add: tool_description_def plain_tool_def)
  let ?docs = "\<lparr>mi_client = Some (1 :: nat), mi_name = ''docs'', mi_status = Connected,
                   mi_tools = [(''read'', plain_tool ''read'')]\<rparr>"
  let ?git = "\<lparr>mi_client = Some (2 :: nat), mi_name = ''git'', mi_status = Connected,
                  mi_tools = [(''read'', plain_tool ''read'')]\<rparr>"
  note retained = getToolsAsAITools_composed_names [of two_readers, THEN conjunct2,
      THEN conjunct1, rule_format]
  have u1: "\<forall>e\<in>set (source_entries (clients two_readers)).
         entry_name e = composed_name ''docs'' ''read'' \<longrightarrow>
         e = (''docs'', 1, ''read'', plain_tool ''read'')"
    unfolding es by (simp add: entry_name_def composed_name_def)
  have u2: "\<forall>e\<in>set (source_entries (clients two_readers)).
         entry_name e = composed_name ''git'' ''read'' \<longrightarrow>
         e = (''git'', 2, ''read'', plain_tool ''read'')"
    unfolding es by (simp add: entry_name_def composed_name_def)
  have m1: "(''docs'', ?docs) \<in> set (clients two_readers)"
    and m2: "(''git'', ?git) \<in> set (clients two_readers)"
    by (simp_all add: cs)
  have np: "composed_name ''docs'' ''read'' \<noteq> ''__proto__''"
    "composed_name ''git'' ''read'' \<noteq> ''__proto__''"
    by (simp_all add: composed_name_def)
  have a: "getToolsAsAITools two_readers (composed_name ''docs'' ''read'') =
      Some \<lparr>at_description = tool_description (plain_tool ''read'') ''read'',
            at_parameters = ZObject [], at_client = 1, at_toolName = ''read''\<rparr>"
    by (rule retained [of "''docs''" ?docs 1 "''read''" "plain_tool ''read''" "ZObject []"])
       (use m1 sch np(1) u1 in simp)
  have b: "getToolsAsAITools two_readers (composed_name ''git'' ''read'') =
      Some \<lparr>at_description = tool_description (plain_tool ''read'') ''read'',
            at_parameters = ZObject [], at_client = 2, at_toolName = ''read''\<rparr>"
    by (rule retained [of "''git''" ?git 2 "''read''" "plain_tool ''read''" "ZObject []"])
       (use m2 sch np(2) u2 in simp)
  show ?thesis
    using a b es ns d by (simp add: composed_name_def)
qed

text \<open>
  The claim as stated fails. Sources \<open>a_b\<close> and \<open>a\<close> both expose \<open>read\<close>, and \<open>a\<close>
  also exposes \<open>b_read\<close>. The names \<open>a_b\<close> + \<open>read\<close> and \<open>a\<close> + \<open>b_read\<close> compose to
  the same \<open>a_b_read\<close>; the later assignment wins, so the name \<open>a_b_read\<close> calls
  \<open>b_read\<close> on the client of \<open>a\<close>, and the \<open>read\<close> of source \<open>a_b\<close> is not in the
  registry.
\<close>

theorem getToolsAsAITools_overwrite_counterexample:
  "source_entries (clients clashing_manager) =
     [(''a_b'', 1, ''read'', plain_tool ''read''), (''a'', 2, ''read'', plain_tool ''read''),
      (''a'', 2, ''b_read'', plain_tool ''b_read'')] \<and>
   composed_name ''a_b'' ''read'' = ''a_b_read'' \<and>
   map_option (\<lambda>t. (at_client t, at_toolName t)) (getToolsAsAITools clashing_manager ''a_b_read'')
     = Some (2, ''b_read'') \<and>
   map_option (\<lambda>t. (at_client t, at_toolName t)) (getToolsAsAITools clashing_manager ''a_read'')
     = Some (2, ''read'') \<and>
   list_all (\<lambda>k. map_option at_client (getToolsAsAITools clashing_manager k) \<noteq> Some 1)
     [''a_b_read'', ''a_read'', ''a_b_b_read'', ''read'']"
  by (simp add: getToolsAsAITools_def clashing_manager_def connected_source_def plain_tool_def
      add_tool_def tool_schema_def obj_assign_def composed_name_def source_entries_def)

section \<open>Failure isolation\<close>

lemma executeAgent_getLLM_throws:
  assumes "getLLM env = Inl e" and "agentConfigs_get n \<noteq> (Undefined :: 't config_value)"
  shows "executeAgent (env :: ('t, 'p) env) mcpTools n task ctx w =
           (Inr \<lparr>ar_agentName = n, ar_success = False, ar_result = [], ar_toolCalls = None,
                 ar_error = Some (exn_message e)\<rparr>, w)"
  using assms
  by (cases "agentConfigs_get n :: 't config_value")
     (simp_all add: executeAgent_def executeAgent_try_def)

lemma executeAgent_provider_throws:
  assumes "getLLM env = Inr m" and "agentConfigs_get n \<noteq> (Undefined :: 't config_value)"
    and "generateText env (agent_request m (agentConfigs_get n) mcpTools task ctx) (pstate w)
           = (b, p)"
    and "outcome b = Inl e"
  shows "fst (executeAgent (env :: ('t, 'p) env) mcpTools n task ctx w) =
           Inr \<lparr>ar_agentName = n, ar_success = False, ar_result = [], ar_toolCalls = None,
                ar_error = Some (exn_message e)\<rparr>"
  using assms
  by (cases "agentConfigs_get n :: 't config_value")
     (simp_all add: executeAgent_def executeAgent_try_def call_generateText_def)

lemma manager_callTool_unavailable:
  assumes "map_of (clients mgr) clientName = None \<or>
           (\<exists>inst. map_of (clients mgr) clientName = Some inst \<and> mi_status inst \<noteq> Connected)"
  shows "manager_callTool remote mgr clientName t a =
           Inl (JsError (not_connected_head @ clientName @ not_connected_tail))"
  using assms by (auto simp: manager_callTool_def)

lemma readFile_execute_returns: "\<exists>v. readFile_execute remote mgr path = Inr v"
  by (simp add: readFile_execute_def split: sum.splits)

lemma readFile_execute_unavailable:
  assumes "\<not> initialized mgr \<or>
           (\<exists>e. manager_callTool remote mgr ''filesystem'' ''read_file''
                  (JObj [(''path'', JStr path)]) = Inl e)"
  shows "readFile_execute remote mgr path = Inr readFile_unavailable"
  using assms by (auto simp: readFile_execute_def)

lemma ai_tool_execute_returns: "\<exists>v. ai_tool_execute remote t a = Inr v"
  by (simp add: ai_tool_execute_def split: sum.splits)

text \<open>
  Two tools have no such boundary. The planning call of \<open>orchestrate\<close> is outside any
  \<open>try\<close>, and the \<open>catch\<close> of \<open>collaborativeTask\<close> throws the error again.
\<close>

lemma orchestrate_planning_throws:
  assumes "getLLM env = Inr m"
    and "generateText env (plan_request m userRequest mcpTools) (pstate w) = (b, p)"
    and "outcome b = Inl e"
  shows "fst (orchestrate env self_mcpTools userRequest mcpTools w) = Inl e"
  using assms
  by (simp add: orchestrate_def orchestrate_run_def orchestrate_plan_def call_generateText_def)

lemma collaborativeTask_rethrows:
  assumes "fst (orchestrate env self_mcpTools task mcpToolsForAgents w) = Inl e"
  shows "fst (collaborativeTask_execute env self_mcpTools mcpToolsForAgents task w) = Inl e"
proof -
  obtain out w' where o: "orchestrate env self_mcpTools task mcpToolsForAgents w = (out, w')"
    by (cases "orchestrate env self_mcpTools task mcpToolsForAgents w")
  with assms have "out = Inl e" by simp
  with o show ?thesis
    by (simp add: collaborativeTask_execute_def)
qed

text \<open>
  C7, for the executor and the tools backed by a remote server. \<open>executeAgent\<close> always
  returns a result; when building the model or the provider throws, the result is the
  failure with the message of what was thrown. The \<open>execute\<close> of the fallback
  \<open>readFile\<close> always returns a payload; when the manager is not initialized, or the
  call throws (as it does when the \<open>filesystem\<close> server is missing or not connected),
  the payload is the fixed one with \<open>success: false\<close>. The \<open>execute\<close> of a registry
  tool always returns a payload; when the remote call throws, it is
  \<open>{success: false, error}\<close>.
\<close>

theorem no_exception_escapes:
  "(\<exists>r w'. executeAgent (env :: ('t, 'p) env) mcpTools n task ctx w = (Inr r, w')) \<and>
   (\<forall>e. getLLM env = Inl e \<and> agentConfigs_get n \<noteq> (Undefined :: 't config_value) \<longrightarrow>
      fst (executeAgent env mcpTools n task ctx w) =
        Inr \<lparr>ar_agentName = n, ar_success = False, ar_result = [], ar_toolCalls = None,
             ar_error = Some (exn_message e)\<rparr>) \<and>
   (\<forall>m b p e. getLLM env = Inr m \<and> agentConfigs_get n \<noteq> (Undefined :: 't config_value) \<and>
      generateText env (agent_request m (agentConfigs_get n) mcpTools task ctx) (pstate w)
        = (b, p) \<and> outcome b = Inl e \<longrightarrow>
      fst (executeAgent env mcpTools n task ctx w) =
        Inr \<lparr>ar_agentName = n, ar_success = False, ar_result = [], ar_toolCalls = None,
             ar_error = Some (exn_message e)\<rparr>) \<and>
   (\<exists>v. readFile_execute remote mgr path = Inr v) \<and>
   (\<not> initialized mgr \<or>
    (\<exists>e. manager_callTool remote mgr ''filesystem'' ''read_file''
           (JObj [(''path'', JStr path)]) = Inl e) \<longrightarrow>
      readFile_execute remote mgr path = Inr readFile_unavailable) \<and>
   (map_of (clients mgr) ''filesystem'' = None \<or>
    (\<exists>inst. map_of (clients mgr) ''filesystem'' = Some inst \<and> mi_status inst \<noteq> Connected) \<longrightarrow>
      readFile_execute remote mgr path = Inr readFile_unavailable) \<and>
   get_prop readFile_unavailable ''success'' = Some (JBool False) \<and>
   (\<exists>v. ai_tool_execute remote t arguments = Inr v) \<and>
   (\<forall>e. remote (at_client t) (at_toolName t) arguments = Inl e \<longrightarrow>
      ai_tool_execute remote t arguments = Inr (failure_payload e) \<and>
      get_prop (failure_payload e) ''success'' = Some (JBool False))"
proof (intro conjI)
  show "\<exists>r w'. executeAgent env mcpTools n task ctx w = (Inr r, w')"
    by (rule executeAgent_returns)
  show "\<forall>e. getLLM env = Inl e \<and> agentConfigs_get n \<noteq> (Undefined :: 't config_value) \<longrightarrow>
      fst (executeAgent env mcpTools n task ctx w) =
        Inr \<lparr>ar_agentName = n, ar_success = False, ar_result = [], ar_toolCalls = None,
             ar_error = Some (exn_message e)\<rparr>"
    using executeAgent_getLLM_throws [of env _ n mcpTools task ctx w] by simp
  show "\<forall>m b p e. getLLM env = Inr m \<and> agentConfigs_get n \<noteq> (Undefined :: 't config_value) \<and>
      generateText env (agent_request m (agentConfigs_get n) mcpTools task ctx) (pstate w)
        = (b, p) \<and> outcome b = Inl e \<longrightarrow>
      fst (executeAgent env mcpTools n task ctx w) =
        Inr \<lparr>ar_agentName = n, ar_success = False, ar_result = [], ar_toolCalls = None,
             ar_error = Some (exn_message e)\<rparr>"
    using executeAgent_provider_throws [of env _ n mcpTools task ctx w] by blast
  show "\<exists>v. readFile_execute remote mgr path = Inr v"
    by (rule readFile_execute_returns)
  show "\<not> initialized mgr \<or>
    (\<exists>e. manager_callTool remote mgr ''filesystem'' ''read_file''
           (JObj [(''path'', JStr path)]) = Inl e) \<longrightarrow>
      readFile_execute remote mgr path = Inr readFile_unavailable"
    using readFile_execute_unavailable [of mgr remote path] by blast
  show "map_of (clients mgr) ''filesystem'' = None \<or>
    (\<exists>inst. map_of (clients mgr) ''filesystem'' = Some inst \<and> mi_status inst \<noteq> Connected) \<longrightarrow>
      readFile_execute remote mgr path = Inr readFile_unavailable"
    using manager_callTool_unavailable [of mgr "''filesystem''" remote]
      readFile_execute_unavailable [of mgr remote path]
    by (metis readFile_execute_def)
  show "get_prop readFile_unavailable ''success'' = Some (JBool False)"
    by (simp add: readFile_unavailable_def get_prop_def)
  show "\<exists>v. ai_tool_execute remote t arguments = Inr v"
    by (rule ai_tool_execute_returns)
  show "\<forall>e. remote (at_client t) (at_toolName t) arguments = Inl e \<longrightarrow>
      ai_tool_execute remote t arguments = Inr (failure_payload e) \<and>
      get_prop (failure_payload e) ''success'' = Some (JBool False)"
    by (simp add: ai_tool_execute_def failure_payload_def get_prop_def)
qed

theorem no_exception_escapes_witness:
  "getLLM (failing_env :: (unit, nat) env) = Inr ''stub-model'' \<and>
   fst (executeAgent (failing_env :: (unit, nat) env) Map.empty ''refactorer'' ''tidy a.ts'' None
          fresh_world) =
     Inr \<lparr>ar_agentName = ''refactorer'', ar_success = False, ar_result = [],
          ar_toolCalls = None, ar_error = Some ''rate limited''\<rparr> \<and>
   initialized offline_manager = False \<and>
   readFile_execute broken_remote offline_manager ''a.ts'' = Inr readFile_unavailable \<and>
   ai_tool_execute broken_remote
       \<lparr>at_description = ''MCP tool: read'', at_parameters = ZObject [], at_client = 1,
        at_toolName = ''read''\<rparr> (JObj []) =
     Inr (JObj [(''success'', JBool False), (''error'', JStr ''connection closed'')])"
proof -
  have g: "getLLM (failing_env :: (unit, nat) env) = Inr ''stub-model''"
    by (simp add: failing_env_def)
  have k: "agentConfigs_get ''refactorer'' \<noteq> (Undefined :: unit config_value)"
    by (simp add: agentConfigs_get_def agentConfigs_def)
  have b: "generateText (failing_env :: (unit, nat) env)
        (agent_request ''stub-model'' (agentConfigs_get ''refactorer'') Map.empty ''tidy a.ts'' None)
        (pstate (fresh_world :: (unit, nat) world)) =
      (\<lparr>delivered = [ping_step], outcome = Inl (JsError ''rate limited'')\<rparr>, 1)"
    by (simp add: failing_env_def fresh_world_def)
  have i: "initialized offline_manager = False"
    by (simp add: offline_manager_def)
  have r: "broken_remote 1 ''read'' (JObj []) = Inl (JsError ''connection closed'')"
    by (simp add: broken_remote_def)
  note all = no_exception_escapes [of "failing_env :: (unit, nat) env" Map.empty "''refactorer''"
      "''tidy a.ts''" None fresh_world broken_remote offline_manager "''a.ts''"
      "\<lparr>at_description = ''MCP tool: read'', at_parameters = ZObject [], at_client = 1,
        at_toolName = ''read''\<rparr>" "JObj []"]
  from all g k b have
    "fst (executeAgent (failing_env :: (unit, nat) env) Map.empty ''refactorer'' ''tidy a.ts''
       None fresh_world) =
     Inr \<lparr>ar_agentName = ''refactorer'', ar_success = False, ar_result = [],
          ar_toolCalls = None, ar_error = Some (exn_message (JsError ''rate limited''))\<rparr>"
    by fastforce
  moreover from all i have
    "readFile_execute broken_remote offline_manager ''a.ts'' = Inr readFile_unavailable"
    by blast
  moreover from all r have
    "ai_tool_execute broken_remote
       \<lparr>at_description = ''MCP tool: read'', at_parameters = ZObject [], at_client = 1,
        at_toolName = ''read''\<rparr> (JObj []) = Inr (failure_payload (JsError ''connection closed''))"
    by (simp add: ai_tool_execute_def)
  ultimately show ?thesis
    using g i by (simp add: failure_payload_def)
qed

text \<open>
  C7 as stated, for every tool, fails. With a provider that rejects the planning
  request, the \<open>execute\<close> of \<open>collaborativeTask\<close> throws the provider's error; on a
  disk that refuses \<open>mkdirSync\<close>, the \<open>execute\<close> of \<open>createSkill\<close> throws the error
  of the file system for a name that is valid and free.
\<close>

theorem tool_execute_throws_counterexample:
  "fst (collaborativeTask_execute (failing_env :: (unit, nat) env) Map.empty Map.empty
          ''tidy the repository'' fresh_world) = Inl (JsError ''rate limited'') \<and>
   fst (createSkill locked_api toy_state ''notes'' ''d'' None None) =
     Inl (JsError ''EACCES: permission denied, mkdir'')"
proof (rule conjI)
  have "fst (orchestrate (failing_env :: (unit, nat) env) Map.empty ''tidy the repository''
          Map.empty fresh_world) = Inl (JsError ''rate limited'')"
  proof (rule orchestrate_planning_throws)
    show "getLLM (failing_env :: (unit, nat) env) = Inr ''stub-model''"
      by (simp add: failing_env_def)
    show "generateText (failing_env :: (unit, nat) env)
            (plan_request ''stub-model'' ''tidy the repository'' Map.empty)
            (pstate (fresh_world :: (unit, nat) world)) =
          (\<lparr>delivered = [ping_step], outcome = Inl (JsError ''rate limited'')\<rparr>, 1)"
      by (simp add: failing_env_def fresh_world_def)
    show "outcome \<lparr>delivered = [ping_step], outcome = Inl (JsError ''rate limited'')\<rparr> =
          Inl (JsError ''rate limited'')"
      by simp
  qed
  then show "fst (collaborativeTask_execute (failing_env :: (unit, nat) env) Map.empty Map.empty
          ''tidy the repository'' fresh_world) = Inl (JsError ''rate limited'')"
    by (rule collaborativeTask_rethrows)
  have v: "validateSkillName ''notes'' = \<lparr>valid = True, v_error = None\<rparr>"
    by code_simp
  show "fst (createSkill locked_api toy_state ''notes'' ''d'' None None) =
     Inl (JsError ''EACCES: permission denied, mkdir'')"
    by (simp add: createSkill_def v locked_api_def toy_api_def toy_state_def skill_dir_def
        target_dir_def)
qed

section \<open>Skills: rejected names and taken directories\<close>

text \<open>
  Every message \<open>validateSkillName\<close> and the tool can answer with is a non-empty text.
\<close>

lemma error_texts_nonempty:
  "err_empty \<noteq> []" "err_dotdot \<noteq> []" "err_absolute \<noteq> []" "err_separator \<noteq> []"
  "err_charset \<noteq> []" "exists_head @ n @ exists_mid @ d \<noteq> []"
  by (simp_all add: err_empty_def err_dotdot_def err_absolute_def err_separator_def
      err_charset_def exists_head_def)

text \<open>A string contains the characters of every substring it includes.\<close>

lemma str_includes_subset:
  assumes "str_includes s sub"
  shows "set sub \<subseteq> set s"
proof -
  from assms obtain i where "take (length sub) (drop i s) = sub"
    by (auto simp: str_includes_def list_ex_iff)
  then have "set sub \<subseteq> set (drop i s)"
    by (metis set_take_subset)
  then show ?thesis
    using set_drop_subset by fastforce
qed

text \<open>No white-space token starts with a character of the allowed class.\<close>

lemma ws_token_heads: "\<forall>t\<in>set ws_tokens. t \<noteq> [] \<longrightarrow> \<not> name_char (hd t)"
  by code_simp

lemma all_whitespace_not_name:
  assumes "all_whitespace name" and "name \<noteq> []"
  shows "\<not> list_all name_char name"
proof -
  from assms obtain rest where "ws_rest name = Some rest"
    by (auto simp: all_whitespace.simps [of name] split: option.splits)
  then obtain t where f: "find (\<lambda>t. t \<noteq> [] \<and> take (length t) name = t) ws_tokens = Some t"
    by (auto simp: ws_rest_def)
  then have t: "t \<in> set ws_tokens" "t \<noteq> []" "take (length t) name = t"
    by (auto simp: find_Some_iff)
  then have "hd t = hd name"
    by (metis hd_take length_greater_0_conv)
  then have "\<not> name_char (hd name)"
    using ws_token_heads t by auto
  then show ?thesis
    using assms(2) by (cases name) auto
qed

text \<open>Each of the rejected shapes puts a character outside the class into the name.\<close>

lemma bad_name_chars:
  "str_includes name ''..'' \<Longrightarrow> \<not> list_all name_char name"
  "str_includes name ''/'' \<Longrightarrow> \<not> list_all name_char name"
  "str_includes name backslash \<Longrightarrow> \<not> list_all name_char name"
  "take 1 name = ''/'' \<Longrightarrow> \<not> list_all name_char name"
  "take 1 name = backslash \<Longrightarrow> \<not> list_all name_char name"
proof -
  have dot: "\<not> name_char CHR ''.''" and slash: "\<not> name_char CHR ''/''"
    and bs: "\<not> name_char (hd backslash)" "backslash = [hd backslash]"
    by code_simp+
  show "str_includes name ''..'' \<Longrightarrow> \<not> list_all name_char name"
    using str_includes_subset [of name "''..''"] dot by (auto simp: list_all_iff)
  show "str_includes name ''/'' \<Longrightarrow> \<not> list_all name_char name"
    using str_includes_subset [of name "''/''"] slash by (auto simp: list_all_iff)
  show "str_includes name backslash \<Longrightarrow> \<not> list_all name_char name"
    using str_includes_subset [of name backslash] bs
    by (metis list.set_intros(1) list_all_iff subsetD)
  show "take 1 name = ''/'' \<Longrightarrow> \<not> list_all name_char name"
    using slash by (cases name) auto
  show "take 1 name = backslash \<Longrightarrow> \<not> list_all name_char name"
  proof
    assume t: "take 1 name = backslash" and l: "list_all name_char name"
    then have ne: "name \<noteq> []" using bs(2) by auto
    then have "hd name = hd backslash"
      using t by (metis hd_take zero_less_one)
    then show False
      using l bs(1) ne by (cases name) auto
  qed
qed

text \<open>The validator answers one of six records.\<close>

lemma validateSkillName_result:
  "validateSkillName name = \<lparr>valid = False, v_error = Some err_empty\<rparr> \<or>
   validateSkillName name = \<lparr>valid = False, v_error = Some err_dotdot\<rparr> \<or>
   validateSkillName name = \<lparr>valid = False, v_error = Some err_absolute\<rparr> \<or>
   validateSkillName name = \<lparr>valid = False, v_error = Some err_separator\<rparr> \<or>
   validateSkillName name = \<lparr>valid = False, v_error = Some err_charset\<rparr> \<or>
   validateSkillName name = \<lparr>valid = True, v_error = None\<rparr>"
  by (simp add: validateSkillName_def)

text \<open>
  The checks before the regular expression are subsumed by it: a name is accepted exactly
  when it is non-empty and made of letters, digits, hyphens and underscores.
\<close>

lemma validateSkillName_valid_iff:
  "valid (validateSkillName name) \<longleftrightarrow> name \<noteq> [] \<and> list_all name_char name"
proof (cases "name \<noteq> [] \<and> list_all name_char name")
  case True
  then have "\<not> all_whitespace name" "\<not> str_includes name ''..''" "take 1 name \<noteq> ''/''"
    "take 1 name \<noteq> backslash" "\<not> str_includes name ''/''" "\<not> str_includes name backslash"
    using all_whitespace_not_name [of name] bad_name_chars [of name] by blast+
  then show ?thesis
    using True by (simp add: validateSkillName_def)
next
  case False
  show ?thesis
  proof (cases "name = []")
    case True
    then show ?thesis
      by (simp add: validateSkillName_def)
  next
    case nonempty: False
    with False have "\<not> list_all name_char name"
      by simp
    then show ?thesis
      by (simp add: validateSkillName_def)
  qed
qed

lemma validateSkillName_error:
  assumes "\<not> valid (validateSkillName name)"
  shows "\<exists>e. v_error (validateSkillName name) = Some e \<and> e \<noteq> []"
  using validateSkillName_result [of name] assms error_texts_nonempty(1-5)
  by (elim disjE) simp_all

text \<open>
  C10. A call of the \<open>createSkill\<close> tool whose name is empty (or white space only),
  contains \<open>..\<close>, starts with a path separator, contains \<open>/\<close> or a backslash, or contains
  a character outside ASCII letters, digits, hyphen and underscore, and likewise a call
  whose skill directory already exists, returns \<open>success: false\<close> with a non-empty error
  text and leaves the whole state as it was: the disk is the same, no \<open>mkdirSync\<close> or
  \<open>writeFileSync\<close> is logged and the loaded skills are unchanged.
\<close>

theorem createSkill_rejects_bad_or_taken_name:
  assumes "name = [] \<or> all_whitespace name \<or> str_includes name ''..'' \<or>
           take 1 name = ''/'' \<or> take 1 name = backslash \<or>
           str_includes name ''/'' \<or> str_includes name backslash \<or>
           (\<exists>c\<in>set name. \<not> name_char c) \<or>
           existsSync api (disk st) (skill_dir api st name projectLevel)"
  shows "\<exists>e. e \<noteq> [] \<and>
           createSkill api st name description custom projectLevel =
             (Inr (JObj [(''success'', JBool False), (''error'', JStr e)]), st)"
proof (cases "valid (validateSkillName name)")
  case False
  from validateSkillName_error [OF False] obtain e where
    "v_error (validateSkillName name) = Some e" "e \<noteq> []" by blast
  moreover have "createSkill api st name description custom projectLevel =
          (Inr (rejection (v_error (validateSkillName name))), st)"
    unfolding createSkill_def using False by simp
  ultimately show ?thesis
    by (simp add: rejection_def)
next
  case True
  then have ok: "name \<noteq> []" "list_all name_char name"
    by (simp_all add: validateSkillName_valid_iff)
  have "\<not> all_whitespace name" "\<not> str_includes name ''..''" "take 1 name \<noteq> ''/''"
    "take 1 name \<noteq> backslash" "\<not> str_includes name ''/''" "\<not> str_includes name backslash"
    using ok all_whitespace_not_name [of name] bad_name_chars [of name] by blast+
  moreover have "\<not> (\<exists>c\<in>set name. \<not> name_char c)"
    using ok(2) by (simp add: list_all_iff)
  ultimately have taken: "existsSync api (disk st) (skill_dir api st name projectLevel)"
    using assms ok(1) by blast
  let ?e = "exists_head @ name @ exists_mid @ skill_dir api st name projectLevel"
  have "createSkill api st name description custom projectLevel =
          (Inr (rejection (Some ?e)), st)"
    unfolding createSkill_def using True taken by simp
  then have answer: "createSkill api st name description custom projectLevel =
          (Inr (JObj [(''success'', JBool False), (''error'', JStr ?e)]), st)"
    by (simp add: rejection_def)
  have nonempty: "?e \<noteq> []"
    by (rule error_texts_nonempty(6))
  show ?thesis
    by (rule exI [of _ ?e], rule conjI, rule nonempty, rule answer)
qed

text \<open>
  The theorem at a name with \<open>..\<close> and at the name of a skill that is already on the disk.
\<close>

theorem createSkill_rejects_bad_or_taken_name_witness:
  "str_includes ''../etc'' ''..'' \<and>
   (\<exists>e. e \<noteq> [] \<and>
      createSkill toy_api toy_state ''../etc'' ''d'' None None =
        (Inr (JObj [(''success'', JBool False), (''error'', JStr e)]), toy_state)) \<and>
   existsSync toy_api (disk toy_state) (skill_dir toy_api toy_state ''web-research'' None) \<and>
   (\<exists>e. e \<noteq> [] \<and>
      createSkill toy_api toy_state ''web-research'' ''d'' None None =
        (Inr (JObj [(''success'', JBool False), (''error'', JStr e)]), toy_state))"
proof -
  have i: "str_includes ''../etc'' ''..''"
    by (simp add: str_includes_def)
  have x: "existsSync toy_api (disk toy_state) (skill_dir toy_api toy_state ''web-research'' None)"
    by (simp add: toy_api_def toy_state_def skill_dir_def target_dir_def)
  have a: "\<exists>e. e \<noteq> [] \<and>
      createSkill toy_api toy_state ''../etc'' ''d'' None None =
        (Inr (JObj [(''success'', JBool False), (''error'', JStr e)]), toy_state)"
    by (rule createSkill_rejects_bad_or_taken_name, rule disjI2, rule disjI2, rule disjI1, rule i)
  have b: "\<exists>e. e \<noteq> [] \<and>
      createSkill toy_api toy_state ''web-research'' ''d'' None None =
        (Inr (JObj [(''success'', JBool False), (''error'', JStr e)]), toy_state)"
    by (rule createSkill_rejects_bad_or_taken_name, intro disjI2, rule x)
  show ?thesis
    by (intro conjI i a x b)
qed

end
